theory Spec2Isabelle
  imports Complex_Main "HOL-Library.Word" "HOL-Library.Sublist"
begin

text \<open>
  The site lists store posts for visitors and gives administrators tables for
  stores, posts and comments. This theory embeds the pure handlers of the client
  components (the parking classifier, the tag widget, the list state with its
  navigation controls) and the server actions on comments and stores, with the
  database as explicit state, and proves the properties claimed of them.
\<close>

section \<open>JavaScript strings\<close>

text \<open>
  A JavaScript string is a sequence of UTF-16 code units. The Hangul syllables used by
  the components (U+AC00 .. U+D7A3) are one code unit each. \<open>js\<close> turns an ASCII literal
  into such a string.
\<close>

type_synonym jsstring = "16 word list"

definition js :: "string \<Rightarrow> jsstring" where
  "js s = map of_char s"

text \<open>
  \<open>String.prototype.toLowerCase\<close> is the lower-casing of the Unicode standard, whose
  tables are not part of the repository. A handler that compares lower-cased strings
  with each other takes the conversion as its argument \<open>lower\<close>, and what is proved of
  it holds for every conversion. \<open>toLowerCase\<close> below is the conversion on Basic Latin:
  the code units of A to Z are moved to a to z and every other code unit is kept. It
  is the full conversion on strings of ASCII and of uncased scripts such as Hangul.
  The parking classifier, which looks for Hangul keywords in the lower-cased string,
  is modelled with it (lower-casing changes no Hangul syllable and produces none),
  and the examples, which are ASCII, pass it for \<open>lower\<close>.
\<close>

definition lowerUnit :: "16 word \<Rightarrow> 16 word" where
  "lowerUnit u = (if 0x41 \<le> u \<and> u \<le> 0x5A then u + 0x20 else u)"

definition toLowerCase :: "jsstring \<Rightarrow> jsstring" where
  "toLowerCase s = map lowerUnit s"

text \<open>\<open>String.prototype.includes\<close>: the argument occurs as a contiguous run of code units.\<close>

fun str_includes :: "jsstring \<Rightarrow> jsstring \<Rightarrow> bool" where
  "str_includes [] t = (t = [])"
| "str_includes (c # s) t = (prefix t (c # s) \<or> str_includes s t)"

text \<open>
  \<open>String.prototype.trim\<close> strips the ECMAScript white space and line terminator code
  units from both ends.
\<close>

definition isWhiteSpace :: "16 word \<Rightarrow> bool" where
  "isWhiteSpace u =
     (u = 0x09 \<or> u = 0x0A \<or> u = 0x0B \<or> u = 0x0C \<or> u = 0x0D \<or> u = 0x20 \<or> u = 0xA0
      \<or> u = 0x1680 \<or> (0x2000 \<le> u \<and> u \<le> 0x200A) \<or> u = 0x2028 \<or> u = 0x2029
      \<or> u = 0x202F \<or> u = 0x205F \<or> u = 0x3000 \<or> u = 0xFEFF)"

definition trim :: "jsstring \<Rightarrow> jsstring" where
  "trim s = rev (dropWhile isWhiteSpace (rev (dropWhile isWhiteSpace s)))"


section \<open>Parking status classifier\<close>

text \<open>
  The keywords, as code units: \<open>kw_bulga\<close> is U+BD88 U+AC00 ("not available"),
  \<open>kw_yuryo\<close> is U+C720 U+B8CC ("paid"), \<open>kw_muryo\<close> is U+BB34 U+B8CC ("free"),
  \<open>kw_none\<close> is U+C815 U+BCF4 U+C5C6 U+C74C ("no information") and \<open>kw_ganeung\<close> is
  U+AC00 U+B2A5 ("available").
\<close>

definition kw_bulga :: jsstring where "kw_bulga = [0xBD88, 0xAC00]"
definition kw_yuryo :: jsstring where "kw_yuryo = [0xC720, 0xB8CC]"
definition kw_muryo :: jsstring where "kw_muryo = [0xBB34, 0xB8CC]"
definition kw_none :: jsstring where "kw_none = [0xC815, 0xBCF4, 0xC5C6, 0xC74C]"
definition kw_ganeung :: jsstring where "kw_ganeung = [0xAC00, 0xB2A5]"

datatype variant = Destructive | Default | Outline | Secondary

record parking_info =
  status :: jsstring
  variant :: variant

record parking_badge = parking_info +
  bgColor :: jsstring

text \<open>
  \<open>getParkingInfo\<close> of the store administration table (\<open>src/unnamed/part_000\<close>); parking
  is a string.
\<close>

definition getParkingInfo :: "jsstring \<Rightarrow> parking_info" where
  "getParkingInfo parking =
     (let lowerParking = toLowerCase parking in
      if str_includes lowerParking kw_bulga then \<lparr>status = kw_bulga, variant = Destructive\<rparr>
      else if str_includes lowerParking kw_yuryo then \<lparr>status = kw_yuryo, variant = Destructive\<rparr>
      else if str_includes lowerParking kw_muryo then \<lparr>status = kw_muryo, variant = Default\<rparr>
      else \<lparr>status = kw_none, variant = Outline\<rparr>)"

text \<open>
  \<open>getParkingInfo\<close> of the public post list (\<open>components/starbucks/post-list.tsx\<close>):
  parking is a string or, for older documents, a boolean.
\<close>

datatype parking_value = ParkingBool bool | ParkingString jsstring

fun getParkingInfo_post_list :: "parking_value \<Rightarrow> parking_badge" where
  "getParkingInfo_post_list (ParkingBool parking) =
     (if parking
      then \<lparr>status = kw_ganeung, variant = Default, bgColor = js ''bg-green-500/90''\<rparr>
      else \<lparr>status = kw_bulga, variant = Secondary, bgColor = js ''bg-red-500/90''\<rparr>)"
| "getParkingInfo_post_list (ParkingString parking) =
     (let lowerParking = toLowerCase parking in
      if str_includes lowerParking kw_bulga
      then \<lparr>status = kw_bulga, variant = Secondary, bgColor = js ''bg-red-500/90''\<rparr>
      else if str_includes lowerParking kw_yuryo
      then \<lparr>status = kw_yuryo, variant = Secondary, bgColor = js ''bg-orange-500/90''\<rparr>
      else if str_includes lowerParking kw_muryo
      then \<lparr>status = kw_muryo, variant = Default, bgColor = js ''bg-green-500/90''\<rparr>
      else \<lparr>status = kw_none, variant = Outline, bgColor = js ''bg-gray-500/90''\<rparr>)"


section \<open>Tag editing widget\<close>

text \<open>
  The store dialogs keep the tags in a form field; \<open>handleTagAdd\<close> and
  \<open>handleTagRemove\<close> take the current list and return the list the form holds
  afterwards. The same code is in the add dialog
  (\<open>components/dialog/dialog-store-add.tsx\<close>) and in the edit dialog
  (\<open>src/unnamed/part_001\<close>). The argument \<open>lower\<close> is \<open>String.prototype.toLowerCase\<close>.
\<close>

definition handleTagAdd ::
  "(jsstring \<Rightarrow> jsstring) \<Rightarrow> jsstring list \<Rightarrow> jsstring \<Rightarrow> jsstring list" where
  "handleTagAdd lower tags newTag =
     (let trimmed = trim newTag in
      if trimmed = [] then tags
      else
        let lowerTags = map lower tags in
        if lower trimmed \<notin> set lowerTags then tags @ [trimmed] else tags)"

definition handleTagRemove :: "jsstring list \<Rightarrow> jsstring \<Rightarrow> jsstring list" where
  "handleTagRemove tags tagToRemove = filter (\<lambda>tag. tag \<noteq> tagToRemove) tags"



section \<open>Client list state\<close>

text \<open>
  Page numbers, limits and counts are JavaScript numbers that hold integers; they
  are modelled as unbounded integers, which is exact for the sizes a collection can
  have (below \<open>2 ^ 52\<close> the floating-point quotient has the ceiling of the exact one).
  A \<open>jsnum\<close> is what the pagination arithmetic can produce: an integer, or the result
  of a division by zero.
\<close>

datatype jsnum = Num int | PosInfinity | NaN

text \<open>\<open>Math.ceil(totalCount / limit)\<close> for a count, which is never negative.\<close>

definition mathCeilDiv :: "nat \<Rightarrow> int \<Rightarrow> jsnum" where
  "mathCeilDiv totalCount limit =
     (if limit = 0 then (if totalCount = 0 then NaN else PosInfinity)
      else Num (- ((- int totalCount) div limit)))"

text \<open>The operator \<open><\<close> with an integer on the left.\<close>

fun js_less :: "int \<Rightarrow> jsnum \<Rightarrow> bool" where
  "js_less a (Num b) = (a < b)"
| "js_less a PosInfinity = True"
| "js_less a NaN = False"

record pagination_info =
  currentPage :: int
  totalPages :: jsnum
  totalCount :: nat
  limit :: int
  hasNextPage :: bool
  hasPrevPage :: bool

text \<open>
  The list components (store administration in \<open>src/unnamed/part_000\<close>, comment
  administration in \<open>components/admin/comments-manage.tsx\<close>, public post list in
  \<open>components/starbucks/post-list.tsx\<close>) hold the same React state: the search box, its debounced copy, the page
  and the last pagination metadata received. \<open>currentPageState\<close> is the state variable
  \<open>currentPage\<close>. The post list also holds \<open>selectedCategory\<close>; its page size is fixed.
\<close>

record list_state =
  searchTerm :: jsstring
  debouncedSearchTerm :: jsstring
  selectedCategory :: jsstring
  currentPageState :: int
  pageSize :: int
  pagination :: "pagination_info option"

text \<open>Typing in the search box. The effect on \<open>searchTerm\<close> restarts the 500 ms timer.\<close>

definition setSearchTerm :: "jsstring \<Rightarrow> list_state \<Rightarrow> list_state" where
  "setSearchTerm v s = s\<lparr>searchTerm := v\<rparr>"

text \<open>The timer fires: the callback of \<open>setTimeout\<close> in the debounce effect.\<close>

definition debounceTimerFired :: "list_state \<Rightarrow> list_state" where
  "debounceTimerFired s = s\<lparr>debouncedSearchTerm := searchTerm s, currentPageState := 1\<rparr>"

text \<open>
  Choosing a category in the post list: \<open>setSelectedCategory\<close>, then the effect with
  dependency \<open>selectedCategory\<close>, which runs when the value has changed.
\<close>

definition setSelectedCategory :: "jsstring \<Rightarrow> list_state \<Rightarrow> list_state" where
  "setSelectedCategory c s =
     (if c = selectedCategory s then s
      else s\<lparr>selectedCategory := c, currentPageState := 1\<rparr>)"

definition handlePageSizeChange :: "int \<Rightarrow> list_state \<Rightarrow> list_state" where
  "handlePageSizeChange newPageSize s = s\<lparr>pageSize := newPageSize, currentPageState := 1\<rparr>"

definition goToPage :: "int \<Rightarrow> list_state \<Rightarrow> list_state" where
  "goToPage page s = s\<lparr>currentPageState := page\<rparr>"

text \<open>
  The numbered buttons of the administration tables (\<open>renderPaginationButtons\<close>): the
  pages each button passes to \<open>goToPage\<close>. Nothing is rendered without metadata, and
  the window is empty when \<open>totalPages\<close> is not a number.
\<close>

definition renderPaginationButtons :: "list_state \<Rightarrow> int list" where
  "renderPaginationButtons s =
     (case pagination s of
        None \<Rightarrow> []
      | Some p \<Rightarrow>
          let startPage = max 1 (currentPage p - 2) in
          (case totalPages p of
             Num tp \<Rightarrow> [startPage ..  min tp (currentPage p + 2)]
           | PosInfinity \<Rightarrow> [startPage .. currentPage p + 2]
           | NaN \<Rightarrow> []))"

text \<open>
  The numbered links of the public post list: a window of at most five pages placed
  by the state variable \<open>currentPage\<close>.
\<close>

definition postListPageLinks :: "list_state \<Rightarrow> int list" where
  "postListPageLinks s =
     (case pagination s of
        None \<Rightarrow> []
      | Some p \<Rightarrow>
          (case totalPages p of
             Num tp \<Rightarrow>
               let startPage = max 1 (min (currentPageState s - 2) (tp - 4)) in
               filter (\<lambda>pageNumber. \<not> tp < pageNumber)
                 (map (\<lambda>i. startPage + int i) [0..<nat (min 5 tp)])
           | PosInfinity \<Rightarrow>
               map (\<lambda>i. max 1 (currentPageState s - 2) + int i) [0..<5]
           | NaN \<Rightarrow> []))"

text \<open>
  The navigation controls, and the page each passes to \<open>goToPage\<close> when it is
  rendered and enabled (\<open>None\<close> otherwise). Both layouts render the controls when
  \<open>totalPages\<close> is greater than 1. In the administration tables the first and previous
  buttons are disabled without a previous page and the next and last buttons without
  a next page; in the post list the previous and next links test the same flags, and
  the links to page 1 and to the last page appear when the current page is more
  than two pages away.
\<close>

datatype nav_control = FirstPage | PrevPage | NumberedPage int | NextPage | LastPage

fun js_minus :: "jsnum \<Rightarrow> int \<Rightarrow> jsnum" where
  "js_minus (Num a) b = Num (a - b)"
| "js_minus PosInfinity b = PosInfinity"
| "js_minus NaN b = NaN"

definition adminRequestedPage :: "nav_control \<Rightarrow> list_state \<Rightarrow> jsnum option" where
  "adminRequestedPage ctl s =
     (case pagination s of
        None \<Rightarrow> None
      | Some p \<Rightarrow>
          if \<not> js_less 1 (totalPages p) then None
          else
            (case ctl of
               FirstPage \<Rightarrow> if hasPrevPage p then Some (Num 1) else None
             | PrevPage \<Rightarrow> if hasPrevPage p then Some (Num (currentPageState s - 1)) else None
             | NumberedPage i \<Rightarrow>
                 if i \<in> set (renderPaginationButtons s) then Some (Num i) else None
             | NextPage \<Rightarrow> if hasNextPage p then Some (Num (currentPageState s + 1)) else None
             | LastPage \<Rightarrow> if hasNextPage p then Some (totalPages p) else None))"

definition postListRequestedPage :: "nav_control \<Rightarrow> list_state \<Rightarrow> jsnum option" where
  "postListRequestedPage ctl s =
     (case pagination s of
        None \<Rightarrow> None
      | Some p \<Rightarrow>
          if \<not> js_less 1 (totalPages p) then None
          else
            (case ctl of
               PrevPage \<Rightarrow> if hasPrevPage p then Some (Num (currentPageState s - 1)) else None
             | FirstPage \<Rightarrow> if 3 < currentPageState s then Some (Num 1) else None
             | NumberedPage i \<Rightarrow>
                 if i \<in> set (postListPageLinks s) then Some (Num i) else None
             | LastPage \<Rightarrow>
                 if js_less (currentPageState s) (js_minus (totalPages p) 2)
                 then Some (totalPages p) else None
             | NextPage \<Rightarrow> if hasNextPage p then Some (Num (currentPageState s + 1)) else None))"

section \<open>Messages of the server actions\<close>

text \<open>
  The Korean message literals of the actions, as code units, each with its meaning.
\<close>

text \<open>"The comment was written."\<close>

definition msg_comment_created :: jsstring where
  "msg_comment_created =
     [0xB313, 0xAE00, 0xC774, 0x0020, 0xC131, 0xACF5, 0xC801, 0xC73C, 0xB85C, 0x0020,
      0xC791, 0xC131, 0xB418, 0xC5C8, 0xC2B5, 0xB2C8, 0xB2E4, 0x002E]"

text \<open>"The input data is not valid."\<close>

definition msg_invalid_input :: jsstring where
  "msg_invalid_input =
     [0xC785, 0xB825, 0x0020, 0xB370, 0xC774, 0xD130, 0xAC00, 0x0020, 0xC62C, 0xBC14,
      0xB974, 0xC9C0, 0x0020, 0xC54A, 0xC2B5, 0xB2C8, 0xB2E4, 0x002E]"

text \<open>"An error occurred while writing the comment. Please try again."\<close>

definition msg_comment_create_failed :: jsstring where
  "msg_comment_create_failed =
     [0xB313, 0xAE00, 0x0020, 0xC791, 0xC131, 0x0020, 0xC911, 0x0020, 0xC624, 0xB958,
      0xAC00, 0x0020, 0xBC1C, 0xC0DD, 0xD588, 0xC2B5, 0xB2C8, 0xB2E4, 0x002E, 0x0020,
      0xB2E4, 0xC2DC, 0x0020, 0xC2DC, 0xB3C4, 0xD574, 0xC8FC, 0xC138, 0xC694, 0x002E]"

text \<open>"An error occurred while loading the comment list."\<close>

definition msg_comment_list_failed :: jsstring where
  "msg_comment_list_failed =
     [0xB313, 0xAE00, 0x0020, 0xBAA9, 0xB85D, 0xC744, 0x0020, 0xBD88, 0xB7EC, 0xC624,
      0xB294, 0x0020, 0xC911, 0x0020, 0xC624, 0xB958, 0xAC00, 0x0020, 0xBC1C, 0xC0DD,
      0xD588, 0xC2B5, 0xB2C8, 0xB2E4, 0x002E]"

text \<open>"Loading the comment data failed."\<close>

definition msg_comment_page_failed :: jsstring where
  "msg_comment_page_failed =
     [0xB313, 0xAE00, 0x0020, 0xB370, 0xC774, 0xD130, 0xB97C, 0x0020, 0xBD88, 0xB7EC,
      0xC624, 0xB294, 0xB370, 0x0020, 0xC2E4, 0xD328, 0xD588, 0xC2B5, 0xB2C8, 0xB2E4,
      0x002E]"

text \<open>"The id of the comment to delete is required."\<close>

definition msg_delete_id_required :: jsstring where
  "msg_delete_id_required =
     [0xC0AD, 0xC81C, 0xD560, 0x0020, 0xB313, 0xAE00, 0x0020, 0x0049, 0x0044, 0xAC00,
      0x0020, 0xD544, 0xC694, 0xD569, 0xB2C8, 0xB2E4, 0x002E]"

text \<open>"The comment to delete was not found."\<close>

definition msg_delete_not_found :: jsstring where
  "msg_delete_not_found =
     [0xC0AD, 0xC81C, 0xD558, 0xB824, 0xB294, 0x0020, 0xB313, 0xAE00, 0xC744, 0x0020,
      0xCC3E, 0xC744, 0x0020, 0xC218, 0x0020, 0xC5C6, 0xC2B5, 0xB2C8, 0xB2E4, 0x002E]"

text \<open>"The comment was deleted."\<close>

definition msg_comment_deleted :: jsstring where
  "msg_comment_deleted =
     [0xB313, 0xAE00, 0xC774, 0x0020, 0xC131, 0xACF5, 0xC801, 0xC73C, 0xB85C, 0x0020,
      0xC0AD, 0xC81C, 0xB418, 0xC5C8, 0xC2B5, 0xB2C8, 0xB2E4, 0x002E]"

text \<open>"An error occurred while deleting the comment."\<close>

definition msg_delete_failed :: jsstring where
  "msg_delete_failed =
     [0xB313, 0xAE00, 0x0020, 0xC0AD, 0xC81C, 0x0020, 0xC911, 0x0020, 0xC624, 0xB958,
      0xAC00, 0x0020, 0xBC1C, 0xC0DD, 0xD588, 0xC2B5, 0xB2C8, 0xB2E4, 0x002E]"

text \<open>"The id of the comment to restore is required."\<close>

definition msg_restore_id_required :: jsstring where
  "msg_restore_id_required =
     [0xBCF5, 0xC6D0, 0xD560, 0x0020, 0xB313, 0xAE00, 0x0020, 0x0049, 0x0044, 0xAC00,
      0x0020, 0xD544, 0xC694, 0xD569, 0xB2C8, 0xB2E4, 0x002E]"

text \<open>"The comment to restore was not found."\<close>

definition msg_restore_not_found :: jsstring where
  "msg_restore_not_found =
     [0xBCF5, 0xC6D0, 0xD558, 0xB824, 0xB294, 0x0020, 0xB313, 0xAE00, 0xC744, 0x0020,
      0xCC3E, 0xC744, 0x0020, 0xC218, 0x0020, 0xC5C6, 0xC2B5, 0xB2C8, 0xB2E4, 0x002E]"

text \<open>"The comment was restored."\<close>

definition msg_comment_restored :: jsstring where
  "msg_comment_restored =
     [0xB313, 0xAE00, 0xC774, 0x0020, 0xC131, 0xACF5, 0xC801, 0xC73C, 0xB85C, 0x0020,
      0xBCF5, 0xC6D0, 0xB418, 0xC5C8, 0xC2B5, 0xB2C8, 0xB2E4, 0x002E]"

text \<open>"An error occurred while restoring the comment."\<close>

definition msg_restore_failed :: jsstring where
  "msg_restore_failed =
     [0xB313, 0xAE00, 0x0020, 0xBCF5, 0xC6D0, 0x0020, 0xC911, 0x0020, 0xC624, 0xB958,
      0xAC00, 0x0020, 0xBC1C, 0xC0DD, 0xD588, 0xC2B5, 0xB2C8, 0xB2E4, 0x002E]"

text \<open>"This store ID is already in use. Please use another ID."\<close>

definition msg_store_id_in_use :: jsstring where
  "msg_store_id_in_use =
     [0xC774, 0xBBF8, 0x0020, 0xC0AC, 0xC6A9, 0x0020, 0xC911, 0xC778, 0x0020, 0xC2A4,
      0xD1A0, 0xC5B4, 0x0020, 0x0049, 0x0044, 0xC785, 0xB2C8, 0xB2E4, 0x002E, 0x0020,
      0xB2E4, 0xB978, 0x0020, 0x0049, 0x0044, 0xB97C, 0x0020, 0xC0AC, 0xC6A9, 0xD574,
      0xC8FC, 0xC138, 0xC694, 0x002E]"

text \<open>"The store was created."\<close>

definition msg_store_created :: jsstring where
  "msg_store_created =
     [0xC2A4, 0xD1A0, 0xC5B4, 0xAC00, 0x0020, 0xC131, 0xACF5, 0xC801, 0xC73C, 0xB85C,
      0x0020, 0xC0DD, 0xC131, 0xB418, 0xC5C8, 0xC2B5, 0xB2C8, 0xB2E4, 0x002E]"

text \<open>"An error occurred while creating the store."\<close>

definition msg_store_create_failed :: jsstring where
  "msg_store_create_failed =
     [0xC2A4, 0xD1A0, 0xC5B4, 0x0020, 0xC0DD, 0xC131, 0x0020, 0xC911, 0x0020, 0xC624,
      0xB958, 0xAC00, 0x0020, 0xBC1C, 0xC0DD, 0xD588, 0xC2B5, 0xB2C8, 0xB2E4, 0x002E]"

text \<open>"An error occurred while loading the store list."\<close>

definition msg_store_list_failed :: jsstring where
  "msg_store_list_failed =
     [0xC2A4, 0xD1A0, 0xC5B4, 0x0020, 0xBAA9, 0xB85D, 0xC744, 0x0020, 0xBD88, 0xB7EC,
      0xC624, 0xB294, 0x0020, 0xC911, 0x0020, 0xC624, 0xB958, 0xAC00, 0x0020, 0xBC1C,
      0xC0DD, 0xD588, 0xC2B5, 0xB2C8, 0xB2E4, 0x002E]"

text \<open>"Loading the store data failed."\<close>

definition msg_store_page_failed :: jsstring where
  "msg_store_page_failed =
     [0xC2A4, 0xD1A0, 0xC5B4, 0x0020, 0xB370, 0xC774, 0xD130, 0xB97C, 0x0020, 0xBD88,
      0xB7EC, 0xC624, 0xB294, 0xB370, 0x0020, 0xC2E4, 0xD328, 0xD588, 0xC2B5, 0xB2C8,
      0xB2E4, 0x002E]"


section \<open>Documents, the database and the action boundary\<close>

text \<open>
  A stored document carries the identifier and the timestamps that the mapper adds
  (\<open>oid\<close> is the field \<open>_id\<close>, in its string form; timestamps are milliseconds) around
  the fields of its schema.
\<close>

record 'a doc =
  oid :: jsstring
  createdAt :: int
  updatedAt :: int
  body :: 'a

record store_input =
  name :: jsstring
  address :: jsstring
  location :: jsstring
  storeId :: jsstring
  latitude :: "real option"
  longitude :: "real option"
  parking :: jsstring
  since :: jsstring
  phone :: "jsstring option"
  tags :: "jsstring list"
  images :: "jsstring list"

type_synonym store = "store_input doc"

record comment_input =
  postId :: jsstring
  author :: jsstring
  content :: jsstring
  email :: "jsstring option"

record comment_fields = comment_input +
  isDeleted :: bool

type_synonym comment = "comment_fields doc"

text \<open>Of a post, the fields that \<open>populate('postId', 'title slug')\<close> selects.\<close>

record post_fields =
  title :: jsstring
  slug :: jsstring

type_synonym post = "post_fields doc"

record populated_comment =
  comment :: comment
  populatedPost :: "(jsstring \<times> jsstring \<times> jsstring) option"

record zod_issue =
  path :: "jsstring list"
  issue :: jsstring

text \<open>
  What can be thrown inside the \<open>try\<close> blocks: a \<open>ZodError\<close> with its issues (the only
  error whose \<open>name\<close> is \<open>'ZodError'\<close>), an identifier that does not cast to an ObjectId,
  and any failure reported by the database or its driver.
\<close>

datatype exn = ZodError "zod_issue list" | CastError | MongoError

text \<open>
  The state the actions work on: the collections, the paths passed to
  \<open>revalidatePath\<close> so far, and the health of the database. \<open>opsBeforeFailure\<close> is
  \<open>None\<close> for a database that answers every operation and \<open>Some n\<close> for one that
  answers \<open>n\<close> more operations and fails each one after that; an operation that the
  database or the model layer rejects is a failed operation.
\<close>

record server_state =
  opsBeforeFailure :: "nat option"
  storesColl :: "store list"
  commentsColl :: "comment list"
  postsColl :: "post list"
  revalidated :: "jsstring list"

type_synonym 'a action = "server_state \<Rightarrow> (exn + 'a) \<times> server_state"

definition returnA :: "'a \<Rightarrow> 'a action" where
  "returnA x = (\<lambda>s. (Inr x, s))"

definition throwA :: "exn \<Rightarrow> 'a action" where
  "throwA e = (\<lambda>s. (Inl e, s))"

definition bindA :: "'a action \<Rightarrow> ('a \<Rightarrow> 'b action) \<Rightarrow> 'b action" where
  "bindA m f = (\<lambda>s. case m s of (Inl e, s') \<Rightarrow> (Inl e, s') | (Inr x, s') \<Rightarrow> f x s')"

text \<open>\<open>try { m } catch (error) { h error }\<close>: the handler may throw in turn.\<close>

definition tryCatch :: "'a action \<Rightarrow> (exn \<Rightarrow> 'a action) \<Rightarrow> 'a action" where
  "tryCatch m h = (\<lambda>s. case m s of (Inl e, s') \<Rightarrow> h e s' | (Inr x, s') \<Rightarrow> (Inr x, s'))"

definition dbOp :: "unit action" where
  "dbOp = (\<lambda>s. case opsBeforeFailure s of
                  None \<Rightarrow> (Inr (), s)
                | Some 0 \<Rightarrow> (Inl MongoError, s)
                | Some (Suc n) \<Rightarrow> (Inr (), s\<lparr>opsBeforeFailure := Some n\<rparr>))"

definition connectToDatabase :: "unit action" where
  "connectToDatabase = dbOp"

definition revalidatePath :: "jsstring \<Rightarrow> unit action" where
  "revalidatePath p = (\<lambda>s. (Inr (), s\<lparr>revalidated := revalidated s @ [p]\<rparr>))"

subsection \<open>Queries\<close>

text \<open>
  The regular expression engine of the database is a parameter: \<open>regex q\<close> is \<open>None\<close>
  when the database rejects the pattern \<open>q\<close>, and otherwise the test "the pattern, with
  option \<open>i\<close>, matches somewhere in this string".
\<close>

type_synonym regex_engine = "jsstring \<Rightarrow> (jsstring \<Rightarrow> bool) option"

text \<open>
  A search condition is \<open>{}\<close> or \<open>{$or: [{f: {$regex: q, $options: 'i'}}, ...]}\<close>. A field
  is given by the strings it holds in a document: one for a string field, the
  elements for an array field, none for \<open>null\<close>.
\<close>

datatype 'd condition = MatchAll | OrRegex "('d \<Rightarrow> jsstring list) list" jsstring

fun compileCondition :: "regex_engine \<Rightarrow> 'd condition \<Rightarrow> exn + ('d \<Rightarrow> bool)" where
  "compileCondition regex MatchAll = Inr (\<lambda>d. True)"
| "compileCondition regex (OrRegex fs q) =
     (case regex q of
        None \<Rightarrow> Inl MongoError
      | Some matches \<Rightarrow> Inr (\<lambda>d. \<exists>f \<in> set fs. \<exists>v \<in> set (f d). matches v))"

text \<open>
  \<open>sort({createdAt: -1})\<close>; documents created at the same instant keep their stored
  order.
\<close>

definition sortCreatedDesc :: "'a doc list \<Rightarrow> 'a doc list" where
  "sortCreatedDesc ds = sort_key (\<lambda>d. - createdAt d) ds"

text \<open>
  \<open>skip(n)\<close>: the server rejects a negative value. \<open>limit(n)\<close>: zero is no limit, and the
  driver sends the absolute value of a negative one.
\<close>

definition applySkip :: "int \<Rightarrow> 'a list \<Rightarrow> exn + 'a list" where
  "applySkip n ds = (if n < 0 then Inl MongoError else Inr (drop (nat n) ds))"

definition applyLimit :: "int \<Rightarrow> 'a list \<Rightarrow> 'a list" where
  "applyLimit n ds = (if n = 0 then ds else take (nat \<bar>n\<bar>) ds)"

definition countMatching :: "regex_engine \<Rightarrow> 'd condition \<Rightarrow> 'd list \<Rightarrow> exn + nat" where
  "countMatching regex cond ds =
     (case compileCondition regex cond of
        Inl e \<Rightarrow> Inl e
      | Inr p \<Rightarrow> Inr (length (filter p ds)))"

definition findPage ::
  "regex_engine \<Rightarrow> 'a doc condition \<Rightarrow> int \<Rightarrow> int \<Rightarrow> 'a doc list \<Rightarrow> exn + 'a doc list" where
  "findPage regex cond skip limitN ds =
     (case compileCondition regex cond of
        Inl e \<Rightarrow> Inl e
      | Inr p \<Rightarrow>
          (case applySkip skip (sortCreatedDesc (filter p ds)) of
             Inl e \<Rightarrow> Inl e
           | Inr rest \<Rightarrow> Inr (applyLimit limitN rest)))"

definition liftQuery :: "(server_state \<Rightarrow> exn + 'a) \<Rightarrow> 'a action" where
  "liftQuery q = bindA dbOp (\<lambda>_ s. (q s, s))"

fun updateFirst :: "('a \<Rightarrow> bool) \<Rightarrow> ('a \<Rightarrow> 'a) \<Rightarrow> 'a list \<Rightarrow> 'a list" where
  "updateFirst P f [] = []"
| "updateFirst P f (x # xs) = (if P x then f x # xs else x # updateFirst P f xs)"

subsection \<open>Store model\<close>

definition Store_findOne :: "jsstring \<Rightarrow> store option action" where
  "Store_findOne sid = liftQuery (\<lambda>s. Inr (find (\<lambda>d. storeId (body d) = sid) (storesColl s)))"

text \<open>\<open>Store.create\<close>: the identifier and the clock reading are those the driver supplies.\<close>

definition Store_create :: "jsstring \<Rightarrow> int \<Rightarrow> store_input \<Rightarrow> store action" where
  "Store_create newId now v =
     bindA dbOp (\<lambda>_ s.
       let d = \<lparr>oid = newId, createdAt = now, updatedAt = now, body = v\<rparr>
       in (Inr d, s\<lparr>storesColl := storesColl s @ [d]\<rparr>))"

definition Store_countDocuments :: "regex_engine \<Rightarrow> store condition \<Rightarrow> nat action" where
  "Store_countDocuments regex cond = liftQuery (\<lambda>s. countMatching regex cond (storesColl s))"

definition Store_find_sorted :: "store list action" where
  "Store_find_sorted = liftQuery (\<lambda>s. Inr (sortCreatedDesc (storesColl s)))"

definition Store_find_page ::
  "regex_engine \<Rightarrow> store condition \<Rightarrow> int \<Rightarrow> int \<Rightarrow> store list action" where
  "Store_find_page regex cond skip limitN =
     liftQuery (\<lambda>s. findPage regex cond skip limitN (storesColl s))"

subsection \<open>Comment model\<close>

text \<open>
  \<open>populate('postId', 'title slug')\<close> replaces the reference by the identifier, title
  and slug of the post, or by \<open>null\<close> when no post has that identifier.
\<close>

definition populate :: "post list \<Rightarrow> comment \<Rightarrow> populated_comment" where
  "populate ps c =
     \<lparr>comment = c,
      populatedPost =
        (case find (\<lambda>p. oid p = postId (body c)) ps of
           None \<Rightarrow> None
         | Some p \<Rightarrow> Some (oid p, title (body p), slug (body p)))\<rparr>"

definition Comments_create :: "jsstring \<Rightarrow> int \<Rightarrow> comment_fields \<Rightarrow> comment action" where
  "Comments_create newId now v =
     bindA dbOp (\<lambda>_ s.
       let d = \<lparr>oid = newId, createdAt = now, updatedAt = now, body = v\<rparr>
       in (Inr d, s\<lparr>commentsColl := commentsColl s @ [d]\<rparr>))"

definition Comments_countDocuments :: "regex_engine \<Rightarrow> comment condition \<Rightarrow> nat action" where
  "Comments_countDocuments regex cond =
     liftQuery (\<lambda>s. countMatching regex cond (commentsColl s))"

definition Comments_find_sorted :: "populated_comment list action" where
  "Comments_find_sorted =
     liftQuery (\<lambda>s. Inr (map (populate (postsColl s)) (sortCreatedDesc (commentsColl s))))"

definition Comments_find_page ::
  "regex_engine \<Rightarrow> comment condition \<Rightarrow> int \<Rightarrow> int \<Rightarrow> populated_comment list action" where
  "Comments_find_page regex cond skip limitN =
     liftQuery (\<lambda>s. case findPage regex cond skip limitN (commentsColl s) of
                      Inl e \<Rightarrow> Inl e
                    | Inr cs \<Rightarrow> Inr (map (populate (postsColl s)) cs))"

text \<open>
  \<open>findById\<close> and \<open>findByIdAndUpdate\<close> cast the given string to an ObjectId before
  the query is sent, and look for the document whose \<open>_id\<close> is that ObjectId; a string
  that does not cast makes the call throw. The cast belongs to the mapper and is a
  parameter: \<open>castObjectId cid\<close> is the identifier that the string \<open>cid\<close> casts to, in the
  string form in which \<open>oid\<close> holds it, or \<open>None\<close>. Two spellings of the same ObjectId,
  such as its hexadecimal digits in upper and in lower case, cast to the same
  identifier.
\<close>

definition Comments_findById ::
  "(jsstring \<Rightarrow> jsstring option) \<Rightarrow> jsstring \<Rightarrow> comment option action" where
  "Comments_findById castObjectId cid =
     (case castObjectId cid of
        None \<Rightarrow> throwA CastError
      | Some i \<Rightarrow> liftQuery (\<lambda>s. Inr (find (\<lambda>d. oid d = i) (commentsColl s))))"

definition Comments_findByIdAndUpdate ::
  "(jsstring \<Rightarrow> jsstring option) \<Rightarrow> jsstring \<Rightarrow> (comment \<Rightarrow> comment)
     \<Rightarrow> comment option action" where
  "Comments_findByIdAndUpdate castObjectId cid upd =
     (case castObjectId cid of
        None \<Rightarrow> throwA CastError
      | Some i \<Rightarrow>
          bindA dbOp (\<lambda>_ s.
            (Inr (find (\<lambda>d. oid d = i) (commentsColl s)),
             s\<lparr>commentsColl := updateFirst (\<lambda>d. oid d = i) upd (commentsColl s)\<rparr>)))"

subsection \<open>Results\<close>

datatype payload =
    NoPayload
  | CreatedComment jsstring jsstring jsstring jsstring int
  | CommentList "populated_comment list"
  | CommentPage "populated_comment list" pagination_info
  | CreatedStore store
  | StoreList "store list"
  | StorePage "store list" pagination_info
  | ValidationErrors "zod_issue list"

text \<open>
  The object an action returns: the \<open>success\<close> flag, the \<open>message\<close> and \<open>error\<close>
  properties when present, and the remaining properties (\<open>data\<close>, \<open>errors\<close>, \<open>store\<close>,
  \<open>stores\<close>, \<open>comments\<close>, \<open>pagination\<close>) as the payload.
\<close>

record result =
  success :: bool
  message :: "jsstring option"
  error :: "jsstring option"
  payload :: payload

definition failWith :: "jsstring \<Rightarrow> result" where
  "failWith e = \<lparr>success = False, message = None, error = Some e, payload = NoPayload\<rparr>"


section \<open>Server actions\<close>

text \<open>
  The schemas \<open>CommentInputSchema\<close> and \<open>StoreInputSchema\<close> are parameters: a schema
  maps the submitted data to the validated data or to the issues of the \<open>ZodError\<close>
  that \<open>parse\<close> throws.
\<close>

definition zodParse :: "('raw \<Rightarrow> zod_issue list + 'v) \<Rightarrow> 'raw \<Rightarrow> 'v action" where
  "zodParse schema data =
     (case schema data of Inl issues \<Rightarrow> throwA (ZodError issues) | Inr v \<Rightarrow> returnA v)"

text \<open>A parameter with a default value: \<open>undefined\<close> is \<open>None\<close>.\<close>

definition withDefault :: "'a \<Rightarrow> 'a option \<Rightarrow> 'a" where
  "withDefault d x = (case x of None \<Rightarrow> d | Some v \<Rightarrow> v)"

subsection \<open>Comment actions\<close>

text \<open>
  The actions of \<open>src/unnamed/part_002\<close>. The identifier of a new document and the
  readings of the clock (\<open>new Date()\<close>) are arguments.
\<close>

text \<open>
  In the handler of \<open>createComment\<close>, \<open>JSON.parse(error.message)\<close> reads back the
  issues: the message of a \<open>ZodError\<close> is the JSON text of its issues.
\<close>

definition createComment ::
  "('raw \<Rightarrow> zod_issue list + comment_input) \<Rightarrow> jsstring \<Rightarrow> int \<Rightarrow> 'raw \<Rightarrow> result action" where
  "createComment CommentInputSchema newId now data =
     tryCatch
       (bindA (zodParse CommentInputSchema data) (\<lambda>validatedData.
        bindA connectToDatabase (\<lambda>_.
        bindA (Comments_create newId now
                 \<lparr>postId = postId validatedData,
                  author = author validatedData,
                  content = content validatedData,
                  email = (case email validatedData of
                             None \<Rightarrow> None
                           | Some e \<Rightarrow> if e = [] then None else Some e),
                  isDeleted = False\<rparr>) (\<lambda>newComment.
        bindA (revalidatePath (js ''/posts/'' @ postId validatedData)) (\<lambda>_.
        returnA
          \<lparr>success = True, message = Some msg_comment_created, error = None,
           payload = CreatedComment (oid newComment) (postId (body newComment))
                       (author (body newComment)) (content (body newComment))
                       (createdAt newComment)\<rparr>)))))
       (\<lambda>error.
          case error of
            ZodError issues \<Rightarrow>
              returnA \<lparr>success = False, message = Some msg_invalid_input, error = None,
                       payload = ValidationErrors issues\<rparr>
          | _ \<Rightarrow>
              returnA \<lparr>success = False, message = Some msg_comment_create_failed,
                       error = None, payload = NoPayload\<rparr>)"

definition getAllComments :: "result action" where
  "getAllComments =
     tryCatch
       (bindA connectToDatabase (\<lambda>_.
        bindA Comments_find_sorted (\<lambda>comments.
        returnA \<lparr>success = True, message = None, error = None,
                 payload = CommentList comments\<rparr>)))
       (\<lambda>error. returnA (failWith msg_comment_list_failed))"

definition commentSearchCondition :: "jsstring option \<Rightarrow> comment condition" where
  "commentSearchCondition searchQuery =
     (case searchQuery of
        None \<Rightarrow> MatchAll
      | Some q \<Rightarrow>
          if q = [] then MatchAll
          else OrRegex [\<lambda>d. [author (body d)],
                        \<lambda>d. [content (body d)],
                        \<lambda>d. (case email (body d) of None \<Rightarrow> [] | Some e \<Rightarrow> [e])] q)"

definition getCommentsPaginated ::
  "regex_engine \<Rightarrow> int option \<Rightarrow> int option \<Rightarrow> jsstring option \<Rightarrow> result action" where
  "getCommentsPaginated regex pageArg limitArg searchQuery =
     (let page = withDefault 1 pageArg; limitV = withDefault 10 limitArg in
      tryCatch
        (bindA connectToDatabase (\<lambda>_.
         let skip = (page - 1) * limitV;
             searchCondition = commentSearchCondition searchQuery in
         bindA (Comments_countDocuments regex searchCondition) (\<lambda>totalCountV.
         bindA (Comments_find_page regex searchCondition skip limitV) (\<lambda>comments.
         let totalPagesV = mathCeilDiv totalCountV limitV;
             hasNext = js_less page totalPagesV;
             hasPrev = (page > 1) in
         returnA
           \<lparr>success = True, message = None, error = None,
            payload = CommentPage comments
              \<lparr>currentPage = page, totalPages = totalPagesV, totalCount = totalCountV,
               limit = limitV, hasNextPage = hasNext, hasPrevPage = hasPrev\<rparr>\<rparr>))))
        (\<lambda>error. returnA (failWith msg_comment_page_failed)))"

definition softDeleteUpdate :: "bool \<Rightarrow> int \<Rightarrow> comment \<Rightarrow> comment" where
  "softDeleteUpdate flag now d = d\<lparr>updatedAt := now, body := (body d)\<lparr>isDeleted := flag\<rparr>\<rparr>"

definition deleteComment ::
  "(jsstring \<Rightarrow> jsstring option) \<Rightarrow> int \<Rightarrow> jsstring \<Rightarrow> result action" where
  "deleteComment castObjectId now commentId =
     tryCatch
       (bindA connectToDatabase (\<lambda>_.
        if commentId = [] then returnA (failWith msg_delete_id_required)
        else
          bindA (Comments_findById castObjectId commentId) (\<lambda>existingComment.
          case existingComment of
            None \<Rightarrow> returnA (failWith msg_delete_not_found)
          | Some _ \<Rightarrow>
              bindA (Comments_findByIdAndUpdate castObjectId commentId
                       (softDeleteUpdate True now)) (\<lambda>_.
              bindA (revalidatePath (js ''/admin'')) (\<lambda>_.
              returnA \<lparr>success = True, message = Some msg_comment_deleted, error = None,
                       payload = NoPayload\<rparr>)))))
       (\<lambda>error. returnA (failWith msg_delete_failed))"

definition restoreComment ::
  "(jsstring \<Rightarrow> jsstring option) \<Rightarrow> int \<Rightarrow> jsstring \<Rightarrow> result action" where
  "restoreComment castObjectId now commentId =
     tryCatch
       (bindA connectToDatabase (\<lambda>_.
        if commentId = [] then returnA (failWith msg_restore_id_required)
        else
          bindA (Comments_findById castObjectId commentId) (\<lambda>existingComment.
          case existingComment of
            None \<Rightarrow> returnA (failWith msg_restore_not_found)
          | Some _ \<Rightarrow>
              bindA (Comments_findByIdAndUpdate castObjectId commentId
                       (softDeleteUpdate False now)) (\<lambda>_.
              bindA (revalidatePath (js ''/admin'')) (\<lambda>_.
              returnA \<lparr>success = True, message = Some msg_comment_restored, error = None,
                       payload = NoPayload\<rparr>)))))
       (\<lambda>error. returnA (failWith msg_restore_failed))"

subsection \<open>Store actions\<close>

text \<open>The actions of \<open>src/unnamed/part_003\<close>.\<close>

definition createStore ::
  "(store_input \<Rightarrow> zod_issue list + store_input) \<Rightarrow> jsstring \<Rightarrow> int \<Rightarrow> store_input
     \<Rightarrow> result action" where
  "createStore StoreInputSchema newId now data =
     tryCatch
       (bindA connectToDatabase (\<lambda>_.
        bindA (zodParse StoreInputSchema data) (\<lambda>validatedData.
        bindA (Store_findOne (storeId validatedData)) (\<lambda>existingStore.
        case existingStore of
          Some _ \<Rightarrow> returnA (failWith msg_store_id_in_use)
        | None \<Rightarrow>
            bindA (Store_create newId now validatedData) (\<lambda>newStore.
            bindA (revalidatePath (js ''/admin'')) (\<lambda>_.
            returnA \<lparr>success = True, message = Some msg_store_created, error = None,
                     payload = CreatedStore newStore\<rparr>))))))
       (\<lambda>error. returnA (failWith msg_store_create_failed))"

definition getAllStores :: "result action" where
  "getAllStores =
     tryCatch
       (bindA connectToDatabase (\<lambda>_.
        bindA Store_find_sorted (\<lambda>stores.
        returnA \<lparr>success = True, message = None, error = None,
                 payload = StoreList stores\<rparr>)))
       (\<lambda>error. returnA (failWith msg_store_list_failed))"

definition storeSearchCondition :: "jsstring option \<Rightarrow> store condition" where
  "storeSearchCondition searchQuery =
     (case searchQuery of
        None \<Rightarrow> MatchAll
      | Some q \<Rightarrow>
          if q = [] then MatchAll
          else OrRegex [\<lambda>d. [name (body d)],
                        \<lambda>d. [address (body d)],
                        \<lambda>d. [location (body d)],
                        \<lambda>d. [storeId (body d)],
                        \<lambda>d. tags (body d)] q)"

definition getAllStoresPage ::
  "regex_engine \<Rightarrow> int option \<Rightarrow> int option \<Rightarrow> jsstring option \<Rightarrow> result action" where
  "getAllStoresPage regex pageArg limitArg searchQuery =
     (let page = withDefault 1 pageArg; limitV = withDefault 10 limitArg in
      tryCatch
        (bindA connectToDatabase (\<lambda>_.
         let skip = (page - 1) * limitV;
             searchCondition = storeSearchCondition searchQuery in
         bindA (Store_countDocuments regex searchCondition) (\<lambda>totalCountV.
         bindA (Store_find_page regex searchCondition skip limitV) (\<lambda>stores.
         let totalPagesV = mathCeilDiv totalCountV limitV;
             hasNext = js_less page totalPagesV;
             hasPrev = (page > 1) in
         returnA
           \<lparr>success = True, message = None, error = None,
            payload = StorePage stores
              \<lparr>currentPage = page, totalPages = totalPagesV, totalCount = totalCountV,
               limit = limitV, hasNextPage = hasNext, hasPrevPage = hasPrev\<rparr>\<rparr>))))
        (\<lambda>error. returnA (failWith msg_store_page_failed)))"


section \<open>Vocabulary of the statements\<close>

text \<open>
  \<open>answers n s\<close>: the database answers the next \<open>n\<close> operations. \<open>spend n s\<close>: the state
  once it has answered them; the collections are the same.
\<close>

definition answers :: "nat \<Rightarrow> server_state \<Rightarrow> bool" where
  "answers n s = (case opsBeforeFailure s of None \<Rightarrow> True | Some k \<Rightarrow> n \<le> k)"

definition spend :: "nat \<Rightarrow> server_state \<Rightarrow> server_state" where
  "spend n s = s\<lparr>opsBeforeFailure := map_option (\<lambda>k. k - n) (opsBeforeFailure s)\<rparr>"

text \<open>
  A structured result: the flag, and on failure an \<open>error\<close> or a \<open>message\<close>.
\<close>

definition structured :: "result \<Rightarrow> bool" where
  "structured r = (success r \<or> error r \<noteq> None \<or> message r \<noteq> None)"

text \<open>
  The fixed search fields: a test on strings holds of a store when it holds of its
  name, address, location, store identifier or one of its tags, and of a comment
  when it holds of its author, content or email address.
\<close>

definition storeFieldMatches :: "(jsstring \<Rightarrow> bool) \<Rightarrow> store \<Rightarrow> bool" where
  "storeFieldMatches m d =
     (m (name (body d)) \<or> m (address (body d)) \<or> m (location (body d))
      \<or> m (storeId (body d)) \<or> (\<exists>t \<in> set (tags (body d)). m t))"

definition commentFieldMatches :: "(jsstring \<Rightarrow> bool) \<Rightarrow> comment \<Rightarrow> bool" where
  "commentFieldMatches m d =
     (m (author (body d)) \<or> m (content (body d))
      \<or> (case email (body d) of None \<Rightarrow> False | Some e \<Rightarrow> m e))"

text \<open>
  The search of the specification: the search string occurs in the text, ignoring
  case, and a document matches when it does so in one of the fixed fields. Ignoring
  case is comparing under a case folding \<open>caseFold\<close>, which is left open: the lower-casing
  of the language, or the folding by which the database compares under option \<open>i\<close>.
\<close>

definition str_includes_ci :: "(jsstring \<Rightarrow> jsstring) \<Rightarrow> jsstring \<Rightarrow> jsstring \<Rightarrow> bool" where
  "str_includes_ci caseFold text q = str_includes (caseFold text) (caseFold q)"

definition storeMatchesSearch :: "(jsstring \<Rightarrow> jsstring) \<Rightarrow> jsstring \<Rightarrow> store \<Rightarrow> bool" where
  "storeMatchesSearch caseFold q = storeFieldMatches (\<lambda>text. str_includes_ci caseFold text q)"

definition commentMatchesSearch ::
  "(jsstring \<Rightarrow> jsstring) \<Rightarrow> jsstring \<Rightarrow> comment \<Rightarrow> bool" where
  "commentMatchesSearch caseFold q = commentFieldMatches (\<lambda>text. str_includes_ci caseFold text q)"

text \<open>
  The metacharacters of the pattern syntax:
  \<open>\ ^ $ . | ? * + ( ) [ ] { }\<close>.
\<close>

definition isRegexMeta :: "16 word \<Rightarrow> bool" where
  "isRegexMeta u =
     (u = 0x5C \<or> u = 0x5E \<or> u = 0x24 \<or> u = 0x2E \<or> u = 0x7C \<or> u = 0x3F \<or> u = 0x2A
      \<or> u = 0x2B \<or> u = 0x28 \<or> u = 0x29 \<or> u = 0x5B \<or> u = 0x5D \<or> u = 0x7B \<or> u = 0x7D)"

text \<open>
  An engine reads the patterns without metacharacters as literal text, under the
  folding \<open>caseFold\<close>, when it accepts each of them and matches it where its text occurs
  up to \<open>caseFold\<close>.
\<close>

definition literalEngine :: "(jsstring \<Rightarrow> jsstring) \<Rightarrow> regex_engine \<Rightarrow> bool" where
  "literalEngine caseFold regex =
     (\<forall>q. q \<noteq> [] \<and> (\<forall>u \<in> set q. \<not> isRegexMeta u)
          \<longrightarrow> regex q = Some (\<lambda>text. str_includes_ci caseFold text q))"

text \<open>
  An engine for the examples, which are ASCII. It implements the patterns without
  metacharacters and the pattern \<open>.\<close>, which matches any string holding a code unit
  other than the newline, and rejects every other pattern.
\<close>

definition isNewline :: "16 word \<Rightarrow> bool" where
  "isNewline u = (u = 0x0A)"

definition sampleEngine :: regex_engine where
  "sampleEngine q =
     (if \<forall>u \<in> set q. \<not> isRegexMeta u then Some (\<lambda>text. str_includes_ci toLowerCase text q)
      else if q = [0x2E] then Some (\<lambda>text. \<exists>u \<in> set text. \<not> isNewline u)
      else None)"

text \<open>
  The result of a listing that succeeds, with \<open>p\<close> the test of the search condition:
  the page of the matching documents, newest first, and the metadata.
\<close>

definition pageInfo :: "nat \<Rightarrow> int \<Rightarrow> int \<Rightarrow> pagination_info" where
  "pageInfo n page limitV =
     \<lparr>currentPage = page, totalPages = mathCeilDiv n limitV, totalCount = n,
      limit = limitV, hasNextPage = js_less page (mathCeilDiv n limitV),
      hasPrevPage = (1 < page)\<rparr>"

definition pageOf :: "('a doc \<Rightarrow> bool) \<Rightarrow> int \<Rightarrow> int \<Rightarrow> 'a doc list \<Rightarrow> 'a doc list" where
  "pageOf p page limitV ds =
     applyLimit limitV (drop (nat ((page - 1) * limitV)) (sortCreatedDesc (filter p ds)))"

definition storePageResult :: "(store \<Rightarrow> bool) \<Rightarrow> int \<Rightarrow> int \<Rightarrow> server_state \<Rightarrow> result" where
  "storePageResult p page limitV s =
     \<lparr>success = True, message = None, error = None,
      payload = StorePage (pageOf p page limitV (storesColl s))
                  (pageInfo (length (filter p (storesColl s))) page limitV)\<rparr>"

definition commentPageResult ::
  "(comment \<Rightarrow> bool) \<Rightarrow> int \<Rightarrow> int \<Rightarrow> server_state \<Rightarrow> result" where
  "commentPageResult p page limitV s =
     \<lparr>success = True, message = None, error = None,
      payload = CommentPage (map (populate (postsColl s)) (pageOf p page limitV (commentsColl s)))
                  (pageInfo (length (filter p (commentsColl s))) page limitV)\<rparr>"

text \<open>Documents and states for the examples.\<close>

definition sampleStore :: "jsstring \<Rightarrow> jsstring \<Rightarrow> jsstring \<Rightarrow> int \<Rightarrow> store" where
  "sampleStore i sid addr t =
     \<lparr>oid = i, createdAt = t, updatedAt = t,
      body = \<lparr>name = js ''Store '' @ sid, address = addr, location = js ''Seoul'',
              storeId = sid, latitude = None, longitude = None, parking = kw_muryo,
              since = js ''2020'', phone = None, tags = [js ''Riverside''], images = []\<rparr>\<rparr>"

definition sampleComment :: "jsstring \<Rightarrow> jsstring \<Rightarrow> bool \<Rightarrow> int \<Rightarrow> comment" where
  "sampleComment i who del t =
     \<lparr>oid = i, createdAt = t, updatedAt = t,
      body = \<lparr>postId = js ''p1'', author = who, content = js ''Nice place'',
              email = None, isDeleted = del\<rparr>\<rparr>"

definition sampleState :: "store list \<Rightarrow> comment list \<Rightarrow> server_state" where
  "sampleState ss cs =
     \<lparr>opsBeforeFailure = None, storesColl = ss, commentsColl = cs, postsColl = [],
      revalidated = []\<rparr>"

text \<open>
  A cast for the examples: a string of 24 hexadecimal digits casts to the identifier
  with those digits, which is held in lower case; no other string casts.
\<close>

definition isHexDigit :: "16 word \<Rightarrow> bool" where
  "isHexDigit u =
     ((0x30 \<le> u \<and> u \<le> 0x39) \<or> (0x41 \<le> u \<and> u \<le> 0x46) \<or> (0x61 \<le> u \<and> u \<le> 0x66))"

definition hexCast :: "jsstring \<Rightarrow> jsstring option" where
  "hexCast cid =
     (if length cid = 24 \<and> list_all isHexDigit cid then Some (toLowerCase cid) else None)"

definition sampleId1 :: jsstring where
  "sampleId1 = js ''65f1c0a2b3d4e5f60718293a''"

definition sampleId1Upper :: jsstring where
  "sampleId1Upper = js ''65F1C0A2B3D4E5F60718293A''"

definition sampleId2 :: jsstring where
  "sampleId2 = js ''65f1c0a2b3d4e5f60718293b''"

definition sampleId3 :: jsstring where
  "sampleId3 = js ''65f1c0a2b3d4e5f60718293c''"

text \<open>A schema for the examples: it requires a name and changes nothing.\<close>

definition sampleStoreSchema :: "store_input \<Rightarrow> zod_issue list + store_input" where
  "sampleStoreSchema data =
     (if name data = [] then Inl [\<lparr>path = [js ''name''], issue = js ''Required''\<rparr>]
      else Inr data)"

definition sampleStores :: "nat \<Rightarrow> store list" where
  "sampleStores n =
     map (\<lambda>i. sampleStore (replicate (Suc i) 0x61) (replicate (Suc i) 0x41) (js ''Seoul'')
                 (int i)) [0..<n]"

definition sampleComments :: "nat \<Rightarrow> comment list" where
  "sampleComments n =
     map (\<lambda>i. sampleComment (replicate (Suc i) 0x63) (js ''Ann'') False (int i)) [0..<n]"



section \<open>Facts about strings\<close>

lemma str_includes_iff: "str_includes s t \<longleftrightarrow> (\<exists>ps ss. s = ps @ t @ ss)"
proof (induction s)
  case Nil
  then show ?case by auto
next
  case (Cons c s)
  show ?case
  proof
    assume "str_includes (c # s) t"
    then consider "prefix t (c # s)" | "str_includes s t" by auto
    then show "\<exists>ps ss. c # s = ps @ t @ ss"
    proof cases
      case 1
      then obtain ss where "c # s = t @ ss" by (auto simp: prefix_def)
      then have "c # s = [] @ t @ ss" by simp
      then show ?thesis by blast
    next
      case 2
      with Cons.IH obtain ps ss where "s = ps @ t @ ss" by blast
      then have "c # s = (c # ps) @ t @ ss" by simp
      then show ?thesis by blast
    qed
  next
    assume "\<exists>ps ss. c # s = ps @ t @ ss"
    then obtain ps ss where eq: "c # s = ps @ t @ ss" by blast
    show "str_includes (c # s) t"
    proof (cases ps)
      case Nil
      with eq have "prefix t (c # s)" by (simp add: prefix_def)
      then show ?thesis by simp
    next
      case (Cons p ps')
      with eq have "s = ps' @ t @ ss" by simp
      with Cons.IH have "str_includes s t" by blast
      then show ?thesis by simp
    qed
  qed
qed


lemma lowerUnit_high: "0x7A < v \<Longrightarrow> lowerUnit u = v \<longleftrightarrow> u = v"
proof -
  have a: "u \<le> 0x5A \<Longrightarrow> u + 0x20 \<le> 0x7A" for u :: "16 word"
    by uint_arith
  have b: "\<not> (0x7A < v \<and> v \<le> 0x5A)" for v :: "16 word"
    by uint_arith
  show "0x7A < v \<Longrightarrow> lowerUnit u = v \<longleftrightarrow> u = v"
  unfolding lowerUnit_def using a[of u] b[of v] b[of u]
  by auto
qed

lemma lowerUnit_high_all: "\<forall>v\<in>set t. 0x7A < v \<Longrightarrow> map lowerUnit s = t \<longleftrightarrow> s = t"
proof (induction s arbitrary: t)
  case Nil
  then show ?case by auto
next
  case (Cons c s)
  then show ?case by (cases t) (auto simp: lowerUnit_high)
qed

lemma str_includes_toLowerCase:
  assumes "\<forall>v\<in>set t. 0x7A < v"
  shows "str_includes (toLowerCase s) t \<longleftrightarrow> str_includes s t"
proof
  assume "str_includes (toLowerCase s) t"
  then obtain ps ss where "map lowerUnit s = ps @ t @ ss"
    by (auto simp: str_includes_iff toLowerCase_def)
  then have "\<exists>us vs. s = us @ vs \<and> ps = map lowerUnit us \<and> t @ ss = map lowerUnit vs"
    by (simp only: map_eq_append_conv)
  then obtain ps' r where s1: "s = ps' @ r" and r: "t @ ss = map lowerUnit r"
    by blast
  from r have "\<exists>us vs. r = us @ vs \<and> t = map lowerUnit us \<and> ss = map lowerUnit vs"
    by (simp only: append_eq_map_conv)
  then obtain t' ss' where r2: "r = t' @ ss'" and t': "map lowerUnit t' = t"
    by auto
  from s1 r2 have s: "s = ps' @ t' @ ss'" by simp
  from t' assms have "t' = t" by (simp add: lowerUnit_high_all)
  with s show "str_includes s t" by (auto simp: str_includes_iff)
next
  assume "str_includes s t"
  then obtain ps ss where s: "s = ps @ t @ ss" by (auto simp: str_includes_iff)
  have "map lowerUnit t = t" using assms by (simp add: lowerUnit_high_all)
  with s have "toLowerCase s = map lowerUnit ps @ t @ map lowerUnit ss"
    by (simp add: toLowerCase_def)
  then show "str_includes (toLowerCase s) t" unfolding str_includes_iff by blast
qed

lemma keyword_units_high:
  "\<forall>v\<in>set kw_bulga. 0x7A < v" "\<forall>v\<in>set kw_yuryo. 0x7A < v" "\<forall>v\<in>set kw_muryo. 0x7A < v"
  by (simp_all add: kw_bulga_def kw_yuryo_def kw_muryo_def)

lemma toLowerCase_idem: "toLowerCase (toLowerCase s) = toLowerCase s"
proof -
  have "lowerUnit (lowerUnit u) = lowerUnit u" for u
  proof -
    have "\<not> (0x41 \<le> u + 0x20 \<and> u + 0x20 \<le> 0x5A)" if "0x41 \<le> u" "u \<le> 0x5A"
      using that by uint_arith
    then show ?thesis by (auto simp: lowerUnit_def)
  qed
  then show ?thesis by (simp add: toLowerCase_def)
qed



lemma count_list_filter_neq:
  "x \<noteq> r \<Longrightarrow> count_list (filter (\<lambda>y. y \<noteq> r) ts) x = count_list ts x"
  by (induction ts) auto


section \<open>Facts about the action monad\<close>


lemma colls_spend [simp]:
  "storesColl (spend n s) = storesColl s" "commentsColl (spend n s) = commentsColl s"
  "postsColl (spend n s) = postsColl s" "revalidated (spend n s) = revalidated s"
  by (simp_all add: spend_def)

lemma spend_spend [simp]: "spend n (spend m s) = spend (m + n) s"
  by (cases "opsBeforeFailure s") (simp_all add: spend_def)

lemma answers_spend [simp]: "0 < n \<Longrightarrow> answers n (spend m s) = answers (n + m) s"
  by (cases "opsBeforeFailure s") (auto simp: answers_def spend_def)

lemma answers_mono: "answers n s \<Longrightarrow> m \<le> n \<Longrightarrow> answers m s"
  by (cases "opsBeforeFailure s") (auto simp: answers_def)

lemma answers_0 [simp]: "answers 0 s"
  by (cases "opsBeforeFailure s") (auto simp: answers_def)

lemma spend_0 [simp]: "spend 0 s = s"
  by (cases "opsBeforeFailure s") (auto simp: spend_def)

lemma dbOp_run: "dbOp s = (if answers 1 s then (Inr (), spend 1 s) else (Inl MongoError, s))"
  by (cases "opsBeforeFailure s") (auto simp: dbOp_def answers_def spend_def split: nat.splits)

lemma bindA_dbOp:
  "bindA dbOp f s = (if answers 1 s then f () (spend 1 s) else (Inl MongoError, s))"
  by (simp add: bindA_def dbOp_run)

lemma liftQuery_run:
  "liftQuery q s = (if answers 1 s then (q (spend 1 s), spend 1 s) else (Inl MongoError, s))"
  by (simp add: liftQuery_def bindA_dbOp)

lemma bindA_returnA [simp]: "bindA (returnA x) f = f x"
  by (simp add: bindA_def returnA_def)

lemma bindA_throwA [simp]: "bindA (throwA e) f = throwA e"
  by (simp add: bindA_def throwA_def)

lemma bindA_Pair:
  "bindA m f s = (case fst (m s) of Inl e \<Rightarrow> (Inl e, snd (m s)) | Inr x \<Rightarrow> f x (snd (m s)))"
  by (simp add: bindA_def split: prod.splits sum.splits)



section \<open>How the actions run\<close>


lemma getAllStoresPage_run:
  "getAllStoresPage regex (Some page) (Some limitV) q s =
     (if answers 1 s then
        if answers 2 s then
          (case compileCondition regex (storeSearchCondition q) of
             Inl e \<Rightarrow> (Inr (failWith msg_store_page_failed), spend 2 s)
           | Inr p \<Rightarrow>
               if answers 3 s then
                 if (page - 1) * limitV < 0
                 then (Inr (failWith msg_store_page_failed), spend 3 s)
                 else (Inr (storePageResult p page limitV s), spend 3 s)
               else (Inr (failWith msg_store_page_failed), spend 2 s))
        else (Inr (failWith msg_store_page_failed), spend 1 s)
      else (Inr (failWith msg_store_page_failed), s))"
  by (simp add: getAllStoresPage_def withDefault_def Let_def tryCatch_def connectToDatabase_def
        bindA_def dbOp_run Store_countDocuments_def Store_find_page_def liftQuery_def
        returnA_def countMatching_def findPage_def applySkip_def storePageResult_def
        pageOf_def pageInfo_def eval_nat_numeral split: sum.splits)

lemma getCommentsPaginated_run:
  "getCommentsPaginated regex (Some page) (Some limitV) q s =
     (if answers 1 s then
        if answers 2 s then
          (case compileCondition regex (commentSearchCondition q) of
             Inl e \<Rightarrow> (Inr (failWith msg_comment_page_failed), spend 2 s)
           | Inr p \<Rightarrow>
               if answers 3 s then
                 if (page - 1) * limitV < 0
                 then (Inr (failWith msg_comment_page_failed), spend 3 s)
                 else (Inr (commentPageResult p page limitV s), spend 3 s)
               else (Inr (failWith msg_comment_page_failed), spend 2 s))
        else (Inr (failWith msg_comment_page_failed), spend 1 s)
      else (Inr (failWith msg_comment_page_failed), s))"
  by (simp add: getCommentsPaginated_def withDefault_def Let_def tryCatch_def connectToDatabase_def
        bindA_def dbOp_run Comments_countDocuments_def Comments_find_page_def liftQuery_def
        returnA_def countMatching_def findPage_def applySkip_def commentPageResult_def
        pageOf_def pageInfo_def eval_nat_numeral split: sum.splits)

lemma deleteComment_run:
  "deleteComment castObjectId now cid s =
     (if answers 1 s then
        if cid = [] then (Inr (failWith msg_delete_id_required), spend 1 s)
        else
          (case castObjectId cid of
             None \<Rightarrow> (Inr (failWith msg_delete_failed), spend 1 s)
           | Some i \<Rightarrow>
               if answers 2 s then
                 (case find (\<lambda>d. oid d = i) (commentsColl s) of
                    None \<Rightarrow> (Inr (failWith msg_delete_not_found), spend 2 s)
                  | Some c \<Rightarrow>
                      if answers 3 s
                      then (Inr \<lparr>success = True, message = Some msg_comment_deleted,
                                 error = None, payload = NoPayload\<rparr>,
                            (spend 3 s)
                              \<lparr>commentsColl :=
                                 updateFirst (\<lambda>d. oid d = i) (softDeleteUpdate True now)
                                   (commentsColl s),
                               revalidated := revalidated s @ [js ''/admin'']\<rparr>)
                      else (Inr (failWith msg_delete_failed), spend 2 s))
               else (Inr (failWith msg_delete_failed), spend 1 s))
      else (Inr (failWith msg_delete_failed), s))"
  by (simp add: deleteComment_def tryCatch_def connectToDatabase_def throwA_def
        bindA_def dbOp_run Comments_findById_def Comments_findByIdAndUpdate_def liftQuery_def
        returnA_def revalidatePath_def eval_nat_numeral split: option.splits)

lemma restoreComment_run:
  "restoreComment castObjectId now cid s =
     (if answers 1 s then
        if cid = [] then (Inr (failWith msg_restore_id_required), spend 1 s)
        else
          (case castObjectId cid of
             None \<Rightarrow> (Inr (failWith msg_restore_failed), spend 1 s)
           | Some i \<Rightarrow>
               if answers 2 s then
                 (case find (\<lambda>d. oid d = i) (commentsColl s) of
                    None \<Rightarrow> (Inr (failWith msg_restore_not_found), spend 2 s)
                  | Some c \<Rightarrow>
                      if answers 3 s
                      then (Inr \<lparr>success = True, message = Some msg_comment_restored,
                                 error = None, payload = NoPayload\<rparr>,
                            (spend 3 s)
                              \<lparr>commentsColl :=
                                 updateFirst (\<lambda>d. oid d = i) (softDeleteUpdate False now)
                                   (commentsColl s),
                               revalidated := revalidated s @ [js ''/admin'']\<rparr>)
                      else (Inr (failWith msg_restore_failed), spend 2 s))
               else (Inr (failWith msg_restore_failed), spend 1 s))
      else (Inr (failWith msg_restore_failed), s))"
  by (simp add: restoreComment_def tryCatch_def connectToDatabase_def throwA_def
        bindA_def dbOp_run Comments_findById_def Comments_findByIdAndUpdate_def liftQuery_def
        returnA_def revalidatePath_def eval_nat_numeral split: option.splits)

lemma createStore_run:
  "createStore schema newId now data s =
     (if answers 1 s then
        (case schema data of
           Inl issues \<Rightarrow> (Inr (failWith msg_store_create_failed), spend 1 s)
         | Inr v \<Rightarrow>
             if answers 2 s then
               (case find (\<lambda>d. storeId (body d) = storeId v) (storesColl s) of
                  Some d \<Rightarrow> (Inr (failWith msg_store_id_in_use), spend 2 s)
                | None \<Rightarrow>
                    if answers 3 s
                    then (Inr \<lparr>success = True, message = Some msg_store_created, error = None,
                               payload = CreatedStore
                                 \<lparr>oid = newId, createdAt = now, updatedAt = now, body = v\<rparr>\<rparr>,
                          (spend 3 s)
                            \<lparr>storesColl := storesColl s @
                               [\<lparr>oid = newId, createdAt = now, updatedAt = now, body = v\<rparr>],
                             revalidated := revalidated s @ [js ''/admin'']\<rparr>)
                    else (Inr (failWith msg_store_create_failed), spend 2 s))
             else (Inr (failWith msg_store_create_failed), spend 1 s))
      else (Inr (failWith msg_store_create_failed), s))"
  by (simp add: createStore_def tryCatch_def connectToDatabase_def zodParse_def throwA_def
        bindA_def dbOp_run Store_findOne_def Store_create_def liftQuery_def Let_def
        returnA_def revalidatePath_def eval_nat_numeral split: option.splits sum.splits)


lemma getAllStores_run:
  "getAllStores s =
     (if answers 1 s then
        if answers 2 s
        then (Inr \<lparr>success = True, message = None, error = None,
                   payload = StoreList (sortCreatedDesc (storesColl s))\<rparr>, spend 2 s)
        else (Inr (failWith msg_store_list_failed), spend 1 s)
      else (Inr (failWith msg_store_list_failed), s))"
  by (simp add: getAllStores_def tryCatch_def connectToDatabase_def bindA_def dbOp_run
        Store_find_sorted_def liftQuery_def returnA_def eval_nat_numeral)

lemma getAllComments_run:
  "getAllComments s =
     (if answers 1 s then
        if answers 2 s
        then (Inr \<lparr>success = True, message = None, error = None,
                   payload = CommentList
                     (map (populate (postsColl s)) (sortCreatedDesc (commentsColl s)))\<rparr>,
              spend 2 s)
        else (Inr (failWith msg_comment_list_failed), spend 1 s)
      else (Inr (failWith msg_comment_list_failed), s))"
  by (simp add: getAllComments_def tryCatch_def connectToDatabase_def bindA_def dbOp_run
        Comments_find_sorted_def liftQuery_def returnA_def eval_nat_numeral)

lemma createComment_run:
  "createComment schema newId now data s =
     (case schema data of
        Inl issues \<Rightarrow>
          (Inr \<lparr>success = False, message = Some msg_invalid_input, error = None,
                payload = ValidationErrors issues\<rparr>, s)
      | Inr v \<Rightarrow>
          if answers 1 s then
            if answers 2 s
            then (Inr \<lparr>success = True, message = Some msg_comment_created, error = None,
                       payload = CreatedComment newId (postId v) (author v) (content v) now\<rparr>,
                  (spend 2 s)
                    \<lparr>commentsColl := commentsColl s @
                       [\<lparr>oid = newId, createdAt = now, updatedAt = now,
                         body = \<lparr>postId = postId v, author = author v, content = content v,
                                 email = (case email v of
                                            None \<Rightarrow> None
                                          | Some e \<Rightarrow> if e = [] then None else Some e),
                                 isDeleted = False\<rparr>\<rparr>],
                     revalidated := revalidated s @ [js ''/posts/'' @ postId v]\<rparr>)
            else (Inr \<lparr>success = False, message = Some msg_comment_create_failed,
                       error = None, payload = NoPayload\<rparr>, spend 1 s)
          else (Inr \<lparr>success = False, message = Some msg_comment_create_failed,
                     error = None, payload = NoPayload\<rparr>, s))"
  by (simp add: createComment_def tryCatch_def connectToDatabase_def zodParse_def throwA_def
        bindA_def dbOp_run Comments_create_def Let_def
        returnA_def revalidatePath_def eval_nat_numeral split: sum.splits)

lemma getAllStoresPage_defaults:
  "getAllStoresPage regex pageArg limitArg q =
     getAllStoresPage regex (Some (withDefault 1 pageArg)) (Some (withDefault 10 limitArg)) q"
  by (simp add: getAllStoresPage_def withDefault_def)

lemma getCommentsPaginated_defaults:
  "getCommentsPaginated regex pageArg limitArg q =
     getCommentsPaginated regex (Some (withDefault 1 pageArg)) (Some (withDefault 10 limitArg)) q"
  by (simp add: getCommentsPaginated_def withDefault_def)

lemma answers_less:
  "answers 3 s \<Longrightarrow> answers 2 s" "answers 3 s \<Longrightarrow> answers (Suc 0) s"
  "answers 2 s \<Longrightarrow> answers (Suc 0) s"
  by (auto elim: answers_mono)

lemma find_updateFirst:
  "find P xs = Some x \<Longrightarrow> (\<And>y. P y \<Longrightarrow> P (f y)) \<Longrightarrow> find P (updateFirst P f xs) = Some (f x)"
  by (induction xs) (auto split: if_splits)

lemma map_updateFirst:
  "(\<And>y. g (f y) = g y) \<Longrightarrow> map g (updateFirst P f xs) = map g xs"
  by (induction xs) auto

lemma updateFirst_other:
  "i < length xs \<Longrightarrow> \<not> P (xs ! i) \<Longrightarrow> updateFirst P f xs ! i = xs ! i"
proof (induction xs arbitrary: i)
  case Nil
  then show ?case by simp
next
  case (Cons x xs)
  then show ?case by (cases i) auto
qed

lemma find_Some_set: "find P xs = Some x \<Longrightarrow> x \<in> set xs \<and> P x"
  by (induction xs) (auto split: if_splits)

lemma find_None_set: "find P xs = None \<longleftrightarrow> (\<forall>x \<in> set xs. \<not> P x)"
  by (induction xs) auto


section \<open>Facts about pagination\<close>


lemma mathCeilDiv_ceiling:
  "1 \<le> l \<Longrightarrow> mathCeilDiv n l = Num \<lceil>real n / real_of_int l\<rceil>"
proof -
  have "\<lceil>real_of_int (int n) / real_of_int l\<rceil> = - (- int n div l)"
    by (rule ceiling_divide_eq_div)
  then show "1 \<le> l \<Longrightarrow> mathCeilDiv n l = Num \<lceil>real n / real_of_int l\<rceil>"
    by (simp add: mathCeilDiv_def)
qed

lemma length_pageOf:
  "1 \<le> l \<Longrightarrow>
   length (pageOf p page l ds) = min (nat l) (length (filter p ds) - nat ((page - 1) * l))"
  by (simp add: pageOf_def applyLimit_def sortCreatedDesc_def min.commute)

lemma pageOf_take_drop:
  "1 \<le> l \<Longrightarrow>
   pageOf p page l ds = take (nat l) (drop (nat ((page - 1) * l)) (sortCreatedDesc (filter p ds)))"
  by (simp add: pageOf_def applyLimit_def)

lemma ceiling_less_page:
  assumes "1 \<le> l" and "\<lceil>real n / real_of_int l\<rceil> < page"
  shows "n \<le> nat ((page - 1) * l)"
proof -
  from assms have "\<lceil>real n / real_of_int l\<rceil> \<le> page - 1" by simp
  then have "real n / real_of_int l \<le> real_of_int (page - 1)"
    by (simp only: ceiling_le_iff)
  with assms(1) have "real n \<le> real_of_int (page - 1) * real_of_int l"
    by (simp add: pos_divide_le_eq)
  then have "real_of_int (int n) \<le> real_of_int ((page - 1) * l)"
    by simp
  then have "int n \<le> (page - 1) * l"
    by (simp only: of_int_le_iff)
  then show ?thesis by simp
qed

lemma pageOf_beyond:
  "1 \<le> l \<Longrightarrow> \<lceil>real (length (filter p ds)) / real_of_int l\<rceil> < page \<Longrightarrow>
   pageOf p page l ds = []"
  using ceiling_less_page [of l "length (filter p ds)" page]
  by (simp add: pageOf_def applyLimit_def sortCreatedDesc_def)

lemma sorted_sortCreatedDesc:
  "sorted_wrt (\<lambda>a b. createdAt b \<le> createdAt a) (sortCreatedDesc ds)"
proof -
  have "sorted (map (\<lambda>d. - createdAt d) (sort_key (\<lambda>d. - createdAt d) ds))"
    by (rule sorted_sort_key)
  then show ?thesis by (simp add: sortCreatedDesc_def sorted_map)
qed

lemma sorted_pageOf:
  "sorted_wrt (\<lambda>a b. createdAt b \<le> createdAt a) (pageOf p page l ds)"
  by (simp add: pageOf_def applyLimit_def sorted_sortCreatedDesc)

lemma set_pageOf: "set (pageOf p page l ds) \<subseteq> {d \<in> set ds. p d}"
proof -
  have "set (pageOf p page l ds) \<subseteq> set (sortCreatedDesc (filter p ds))"
    by (auto simp: pageOf_def applyLimit_def dest: in_set_takeD in_set_dropD)
  then show ?thesis by (simp add: sortCreatedDesc_def)
qed

lemma getAllStoresPage_success:
  assumes "getAllStoresPage regex (Some page) (Some l) q s = (Inr r, s')" and "success r"
  shows "\<exists>p. compileCondition regex (storeSearchCondition q) = Inr p
             \<and> r = storePageResult p page l s \<and> s' = spend 3 s \<and> answers 3 s
             \<and> 0 \<le> (page - 1) * l"
  using assms
  by (auto simp: getAllStoresPage_run failWith_def split: if_splits sum.splits)

lemma getCommentsPaginated_success:
  assumes "getCommentsPaginated regex (Some page) (Some l) q s = (Inr r, s')" and "success r"
  shows "\<exists>p. compileCondition regex (commentSearchCondition q) = Inr p
             \<and> r = commentPageResult p page l s \<and> s' = spend 3 s \<and> answers 3 s
             \<and> 0 \<le> (page - 1) * l"
  using assms
  by (auto simp: getCommentsPaginated_run failWith_def split: if_splits sum.splits)

lemma getAllStoresPage_ok:
  assumes "answers 3 s" and "compileCondition regex (storeSearchCondition q) = Inr p"
    and "1 \<le> page" and "1 \<le> l"
  shows "getAllStoresPage regex (Some page) (Some l) q s
           = (Inr (storePageResult p page l s), spend 3 s)"
proof -
  from assms(1) have "answers 2 s" "answers (Suc 0) s" by (auto dest: answers_less)
  moreover from assms(3,4) have "\<not> (page - 1) * l < 0" by (simp add: mult_less_0_iff)
  ultimately show ?thesis using assms by (simp add: getAllStoresPage_run)
qed

lemma getCommentsPaginated_ok:
  assumes "answers 3 s" and "compileCondition regex (commentSearchCondition q) = Inr p"
    and "1 \<le> page" and "1 \<le> l"
  shows "getCommentsPaginated regex (Some page) (Some l) q s
           = (Inr (commentPageResult p page l s), spend 3 s)"
proof -
  from assms(1) have "answers 2 s" "answers (Suc 0) s" by (auto dest: answers_less)
  moreover from assms(3,4) have "\<not> (page - 1) * l < 0" by (simp add: mult_less_0_iff)
  ultimately show ?thesis using assms by (simp add: getCommentsPaginated_run)
qed

lemma pageInfo_fields:
  "1 \<le> l \<Longrightarrow>
   currentPage (pageInfo n page l) = page \<and> limit (pageInfo n page l) = l
   \<and> totalCount (pageInfo n page l) = n
   \<and> totalPages (pageInfo n page l) = Num \<lceil>real n / real_of_int l\<rceil>
   \<and> hasNextPage (pageInfo n page l) = (page < \<lceil>real n / real_of_int l\<rceil>)
   \<and> hasPrevPage (pageInfo n page l) = (1 < page)"
  by (simp add: pageInfo_def mathCeilDiv_ceiling)



section \<open>Facts about soft deletion\<close>


lemma oid_softDeleteUpdate [simp]: "oid (softDeleteUpdate flag now d) = oid d"
  by (simp add: softDeleteUpdate_def)

lemma deleteComment_success:
  assumes "deleteComment castObjectId now cid s = (Inr r, s')" and "success r"
  shows "\<exists>i. castObjectId cid = Some i \<and> answers 3 s \<and> cid \<noteq> []
         \<and> find (\<lambda>d. oid d = i) (commentsColl s) \<noteq> None
         \<and> commentsColl s' =
             updateFirst (\<lambda>d. oid d = i) (softDeleteUpdate True now) (commentsColl s)
         \<and> storesColl s' = storesColl s \<and> postsColl s' = postsColl s
         \<and> revalidated s' = revalidated s @ [js ''/admin'']"
  using assms
  by (auto simp: deleteComment_run failWith_def split: if_splits option.splits)

lemma restoreComment_success:
  assumes "restoreComment castObjectId now cid s = (Inr r, s')" and "success r"
  shows "\<exists>i. castObjectId cid = Some i \<and> answers 3 s \<and> cid \<noteq> []
         \<and> find (\<lambda>d. oid d = i) (commentsColl s) \<noteq> None
         \<and> commentsColl s' =
             updateFirst (\<lambda>d. oid d = i) (softDeleteUpdate False now) (commentsColl s)
         \<and> storesColl s' = storesColl s \<and> postsColl s' = postsColl s
         \<and> revalidated s' = revalidated s @ [js ''/admin'']"
  using assms
  by (auto simp: restoreComment_run failWith_def split: if_splits option.splits)

lemma find_softDelete:
  "find (\<lambda>d. oid d = cid) cs = Some c \<Longrightarrow>
   find (\<lambda>d. oid d = cid) (updateFirst (\<lambda>d. oid d = cid) (softDeleteUpdate flag now) cs)
     = Some (softDeleteUpdate flag now c)"
  by (rule find_updateFirst) simp_all

lemma map_oid_softDelete:
  "map oid (updateFirst P (softDeleteUpdate flag now) cs) = map oid cs"
  by (rule map_updateFirst) simp




section \<open>Facts about searching and the examples\<close>

lemma compile_MatchAll [simp]:
  "compileCondition regex (storeSearchCondition None) = Inr (\<lambda>d. True)"
  "compileCondition regex (commentSearchCondition None) = Inr (\<lambda>d. True)"
  by (simp_all add: storeSearchCondition_def commentSearchCondition_def)

lemma sampleState_simps [simp]:
  "answers n (sampleState ss cs)" "spend n (sampleState ss cs) = sampleState ss cs"
  "storesColl (sampleState ss cs) = ss" "commentsColl (sampleState ss cs) = cs"
  "postsColl (sampleState ss cs) = []" "revalidated (sampleState ss cs) = []"
  by (simp_all add: answers_def spend_def sampleState_def)

lemma comment_populate [simp]: "comment (populate ps c) = c"
  by (simp add: populate_def)

lemma compile_regex_store:
  assumes "regex q = Some m" and "q \<noteq> []"
  shows "compileCondition regex (storeSearchCondition (Some q)) = Inr (storeFieldMatches m)"
proof -
  have "(\<lambda>d::store. \<exists>f \<in> set [\<lambda>d. [name (body d)], \<lambda>d. [address (body d)],
                       \<lambda>d. [location (body d)], \<lambda>d. [storeId (body d)],
                       \<lambda>d. tags (body d)]. \<exists>v \<in> set (f d). m v)
          = storeFieldMatches m"
    by (rule ext) (simp add: storeFieldMatches_def)
  with assms show ?thesis by (simp add: storeSearchCondition_def)
qed

lemma compile_regex_comment:
  assumes "regex q = Some m" and "q \<noteq> []"
  shows "compileCondition regex (commentSearchCondition (Some q)) = Inr (commentFieldMatches m)"
proof -
  have "(\<lambda>d::comment. \<exists>f \<in> set [\<lambda>d. [author (body d)], \<lambda>d. [content (body d)],
                       \<lambda>d. (case email (body d) of None \<Rightarrow> [] | Some e \<Rightarrow> [e])].
                     \<exists>v \<in> set (f d). m v)
          = commentFieldMatches m"
    by (rule ext) (simp add: commentFieldMatches_def split: option.splits)
  with assms show ?thesis by (simp add: commentSearchCondition_def)
qed

lemma compile_rejected:
  assumes "regex q = None" and "q \<noteq> []"
  shows "compileCondition regex (storeSearchCondition (Some q)) = Inl MongoError"
    and "compileCondition regex (commentSearchCondition (Some q)) = Inl MongoError"
  using assms by (simp_all add: storeSearchCondition_def commentSearchCondition_def)

lemma map_comment_populate: "map (comment \<circ> populate ps) cs = cs"
  by (induction cs) simp_all

lemma store_search_page:
  assumes "regex q = Some m" and "q \<noteq> []" and "1 \<le> page" and "1 \<le> limitV"
    and "answers 3 s"
  shows "\<exists>recs pg. getAllStoresPage regex (Some page) (Some limitV) (Some q) s
                    = (Inr \<lparr>success = True, message = None, error = None,
                            payload = StorePage recs pg\<rparr>, spend 3 s)
          \<and> recs = take (nat limitV) (drop (nat ((page - 1) * limitV))
                      (sortCreatedDesc (filter (storeFieldMatches m) (storesColl s))))
          \<and> totalCount pg = length (filter (storeFieldMatches m) (storesColl s))
          \<and> (\<forall>d \<in> set recs. d \<in> set (storesColl s) \<and> storeFieldMatches m d)
          \<and> sorted_wrt (\<lambda>a b. createdAt b \<le> createdAt a) recs"
proof -
  from assms have run: "getAllStoresPage regex (Some page) (Some limitV) (Some q) s
                      = (Inr (storePageResult (storeFieldMatches m) page limitV s), spend 3 s)"
    by (simp add: getAllStoresPage_ok compile_regex_store)
  show ?thesis
    using set_pageOf [of "storeFieldMatches m" page limitV "storesColl s"]
          sorted_pageOf [of "storeFieldMatches m" page limitV "storesColl s"]
          pageOf_take_drop [OF assms(4), of "storeFieldMatches m" page "storesColl s"]
    by (auto simp: run storePageResult_def pageInfo_def)
qed

lemma comment_search_page:
  assumes "regex q = Some m" and "q \<noteq> []" and "1 \<le> page" and "1 \<le> limitV"
    and "answers 3 s"
  shows "\<exists>recs pg. getCommentsPaginated regex (Some page) (Some limitV) (Some q) s
                    = (Inr \<lparr>success = True, message = None, error = None,
                            payload = CommentPage recs pg\<rparr>, spend 3 s)
          \<and> map comment recs
               = take (nat limitV) (drop (nat ((page - 1) * limitV))
                   (sortCreatedDesc (filter (commentFieldMatches m) (commentsColl s))))
          \<and> totalCount pg = length (filter (commentFieldMatches m) (commentsColl s))
          \<and> (\<forall>c \<in> set (map comment recs).
                 c \<in> set (commentsColl s) \<and> commentFieldMatches m c)
          \<and> sorted_wrt (\<lambda>a b. createdAt b \<le> createdAt a) (map comment recs)"
proof -
  from assms have run: "getCommentsPaginated regex (Some page) (Some limitV) (Some q) s
                      = (Inr (commentPageResult (commentFieldMatches m) page limitV s),
                         spend 3 s)"
    by (simp add: getCommentsPaginated_ok compile_regex_comment)
  show ?thesis
    using set_pageOf [of "commentFieldMatches m" page limitV "commentsColl s"]
          sorted_pageOf [of "commentFieldMatches m" page limitV "commentsColl s"]
          pageOf_take_drop [OF assms(4), of "commentFieldMatches m" page "commentsColl s"]
    by (auto simp: run commentPageResult_def pageInfo_def map_comment_populate)
qed

lemma literalEngine_pattern:
  "literalEngine caseFold regex \<Longrightarrow> q \<noteq> [] \<Longrightarrow> \<forall>u \<in> set q. \<not> isRegexMeta u \<Longrightarrow>
   regex q = Some (\<lambda>text. str_includes_ci caseFold text q)"
  by (simp add: literalEngine_def)


lemma length_samples [simp]:
  "length (sampleStores n) = n" "length (sampleComments n) = n"
  by (simp_all add: sampleStores_def sampleComments_def)

lemma literalEngine_sampleEngine: "literalEngine toLowerCase sampleEngine"
  by (simp add: literalEngine_def sampleEngine_def)

lemma answers_None: "opsBeforeFailure s = None \<Longrightarrow> answers n s"
  by (simp add: answers_def)

lemma deleteComment_ok:
  assumes "castObjectId cid = Some i"
    and "find (\<lambda>d. oid d = i) (commentsColl s) = Some c" and "cid \<noteq> []"
    and "answers 3 s"
  shows "\<exists>s'. deleteComment castObjectId now cid s
                = (Inr \<lparr>success = True, message = Some msg_comment_deleted, error = None,
                        payload = NoPayload\<rparr>, s')
              \<and> opsBeforeFailure s' = map_option (\<lambda>k. k - 3) (opsBeforeFailure s)
              \<and> commentsColl s'
                  = updateFirst (\<lambda>d. oid d = i) (softDeleteUpdate True now) (commentsColl s)"
  using assms answers_less [of s]
  by (simp add: deleteComment_run spend_def)

lemma restoreComment_ok:
  assumes "castObjectId cid = Some i"
    and "find (\<lambda>d. oid d = i) (commentsColl s) = Some c" and "cid \<noteq> []"
    and "answers 3 s"
  shows "\<exists>s'. restoreComment castObjectId now cid s
                = (Inr \<lparr>success = True, message = Some msg_comment_restored, error = None,
                        payload = NoPayload\<rparr>, s')
              \<and> opsBeforeFailure s' = map_option (\<lambda>k. k - 3) (opsBeforeFailure s)
              \<and> commentsColl s'
                  = updateFirst (\<lambda>d. oid d = i) (softDeleteUpdate False now) (commentsColl s)"
  using assms answers_less [of s]
  by (simp add: restoreComment_run spend_def)


lemma soft_delete_roundtrip_runs:
  assumes k: "castObjectId cid = Some i"
    and f: "find (\<lambda>d. oid d = i) (commentsColl s) = Some c" and n: "cid \<noteq> []"
    and o: "opsBeforeFailure s = None"
  shows "\<exists>r1 s1 r2 s2. deleteComment castObjectId t1 cid s = (Inr r1, s1) \<and> success r1
           \<and> restoreComment castObjectId t2 cid s1 = (Inr r2, s2) \<and> success r2"
proof -
  from deleteComment_ok [of castObjectId cid i s c t1] k f n answers_None [OF o, of 3]
  obtain s1 where d: "deleteComment castObjectId t1 cid s
                        = (Inr \<lparr>success = True, message = Some msg_comment_deleted,
                                error = None, payload = NoPayload\<rparr>, s1)"
    and o1: "opsBeforeFailure s1 = map_option (\<lambda>k. k - 3) (opsBeforeFailure s)"
    and c1: "commentsColl s1 = updateFirst (\<lambda>d. oid d = i)
                                 (softDeleteUpdate True t1) (commentsColl s)"
    by blast
  from o o1 have o1': "opsBeforeFailure s1 = None" by simp
  from f have f1: "find (\<lambda>d. oid d = i) (commentsColl s1) = Some (softDeleteUpdate True t1 c)"
    by (simp only: c1 find_softDelete)
  from restoreComment_ok [of castObjectId cid i s1 "softDeleteUpdate True t1 c" t2] k f1 n
       answers_None [OF o1', of 3]
  obtain s2 where r: "restoreComment castObjectId t2 cid s1
                        = (Inr \<lparr>success = True, message = Some msg_comment_restored,
                                error = None, payload = NoPayload\<rparr>, s2)"
    by blast
  from d r show ?thesis by force
qed

lemma sampleIds [simp]:
  "hexCast sampleId1 = Some sampleId1" "hexCast sampleId1Upper = Some sampleId1"
  "hexCast sampleId2 = Some sampleId2" "hexCast sampleId3 = Some sampleId3"
  "hexCast [] = None" "hexCast (js ''abc'') = None"
  "sampleId1 \<noteq> []" "sampleId1Upper \<noteq> []" "sampleId2 \<noteq> []" "sampleId3 \<noteq> []"
  "sampleId1 \<noteq> sampleId2" "sampleId2 \<noteq> sampleId1"
  "sampleId1 \<noteq> sampleId3" "sampleId3 \<noteq> sampleId1"
  "sampleId2 \<noteq> sampleId3" "sampleId3 \<noteq> sampleId2"
  "sampleId1Upper \<noteq> sampleId1" "sampleId1 \<noteq> sampleId1Upper"
  by (simp_all add: hexCast_def sampleId1_def sampleId1Upper_def sampleId2_def sampleId3_def
        js_def isHexDigit_def toLowerCase_def lowerUnit_def)


section \<open>The parking classifier\<close>

text \<open>
  Claim C10. \<open>getParkingInfo\<close> gives a status for every parking string, by the fixed
  priority: a string that contains the keyword \<open>kw_bulga\<close> has that status whatever
  else it contains; otherwise one that contains \<open>kw_yuryo\<close> has that status;
  otherwise one that contains \<open>kw_muryo\<close> has that status; any other string has the
  status \<open>kw_none\<close>. The post list's classifier gives the same status on strings, and
  the status does not depend on the case of the letters in the string.
\<close>

theorem getParkingInfo_priority:
  "status (getParkingInfo p) =
     (if str_includes p kw_bulga then kw_bulga
      else if str_includes p kw_yuryo then kw_yuryo
      else if str_includes p kw_muryo then kw_muryo
      else kw_none)
   \<and> status (getParkingInfo_post_list (ParkingString p)) = status (getParkingInfo p)
   \<and> (toLowerCase p = toLowerCase p' \<longrightarrow>
        status (getParkingInfo p) = status (getParkingInfo p'))"
proof (intro conjI impI)
  show "status (getParkingInfo p) =
     (if str_includes p kw_bulga then kw_bulga
      else if str_includes p kw_yuryo then kw_yuryo
      else if str_includes p kw_muryo then kw_muryo
      else kw_none)"
    by (simp add: getParkingInfo_def Let_def str_includes_toLowerCase keyword_units_high)
  show "status (getParkingInfo_post_list (ParkingString p)) = status (getParkingInfo p)"
    by (simp add: getParkingInfo_def Let_def)
  assume "toLowerCase p = toLowerCase p'"
  then show "status (getParkingInfo p) = status (getParkingInfo p')"
    by (simp add: getParkingInfo_def Let_def)
qed

theorem getParkingInfo_priority_witness:
  "str_includes (js ''P '' @ kw_muryo @ kw_bulga) kw_bulga
   \<and> status (getParkingInfo (js ''P '' @ kw_muryo @ kw_bulga)) = kw_bulga
   \<and> toLowerCase (js ''P '' @ kw_muryo) = toLowerCase (js ''p '' @ kw_muryo)
   \<and> status (getParkingInfo (js ''P '' @ kw_muryo)) = status (getParkingInfo (js ''p '' @ kw_muryo))"
proof -
  have a: "str_includes (js ''P '' @ kw_muryo @ kw_bulga) kw_bulga"
    by (simp add: js_def kw_bulga_def kw_muryo_def)
  have b: "toLowerCase (js ''P '' @ kw_muryo) = toLowerCase (js ''p '' @ kw_muryo)"
    by (simp add: js_def kw_muryo_def toLowerCase_def lowerUnit_def)
  from a getParkingInfo_priority [of "js ''P '' @ kw_muryo @ kw_bulga"]
  have c: "status (getParkingInfo (js ''P '' @ kw_muryo @ kw_bulga)) = kw_bulga"
    by (simp only: if_True)
  from b getParkingInfo_priority [of "js ''P '' @ kw_muryo" "js ''p '' @ kw_muryo"]
  have d: "status (getParkingInfo (js ''P '' @ kw_muryo)) = status (getParkingInfo (js ''p '' @ kw_muryo))"
    by blast
  from a b c d show ?thesis by blast
qed


section \<open>The tag editing widget\<close>

text \<open>
  Claim C5, as stated, has \<open>handleTagAdd\<close> append the trimmed tag whenever it equals
  no existing tag. A blank tag is such a tag, and it is not appended: the handler
  returns before the comparison when the trimmed tag is empty.
\<close>

theorem handleTagAdd_blank_counterexample:
  "trim (js ''  '') = []
   \<and> handleTagAdd toLowerCase [js ''Seoul''] (js ''  '') = [js ''Seoul'']
   \<and> handleTagAdd toLowerCase [js ''Seoul''] (js ''  '') \<noteq> [js ''Seoul''] @ [trim (js ''  '')]
   \<and> toLowerCase (js ''Seoul'') \<noteq> toLowerCase (trim (js ''  ''))"
  by (simp add: handleTagAdd_def js_def trim_def isWhiteSpace_def toLowerCase_def)

text \<open>
  Claim C5, amended. Whatever the lower-casing \<open>lower\<close> is, \<open>handleTagAdd\<close> leaves the
  list as it is when the trimmed tag is empty or has the lower-cased form of an
  existing tag, and appends the trimmed tag at the end otherwise. A list without
  duplicates up to case stays so under \<open>handleTagAdd\<close> and \<open>handleTagRemove\<close>.
  \<open>handleTagRemove\<close> removes every occurrence of the given string, compared exactly,
  and keeps the other tags, their number and their order. Adding "Seoul" and then
  "seoul" to the empty list leaves the one tag "Seoul", since the two have the same
  lower-cased form.
\<close>

theorem handleTagAdd_handleTagRemove_spec:
  "handleTagAdd lower ts t =
     (if trim t = [] \<or> (\<exists>x \<in> set ts. lower x = lower (trim t)) then ts
      else ts @ [trim t])
   \<and> (distinct (map lower ts) \<longrightarrow>
        distinct (map lower (handleTagAdd lower ts t))
        \<and> distinct (map lower (handleTagRemove ts r)))
   \<and> r \<notin> set (handleTagRemove ts r)
   \<and> (\<forall>x. x \<noteq> r \<longrightarrow> count_list (handleTagRemove ts r) x = count_list ts x)
   \<and> subseq (handleTagRemove ts r) ts
   \<and> (lower (js ''Seoul'') = lower (js ''seoul'') \<longrightarrow>
        handleTagAdd lower (handleTagAdd lower [] (js ''Seoul'')) (js ''seoul'') = [js ''Seoul''])"
proof (intro conjI impI allI)
  show "handleTagAdd lower ts t =
     (if trim t = [] \<or> (\<exists>x \<in> set ts. lower x = lower (trim t)) then ts
      else ts @ [trim t])"
    by (auto simp: handleTagAdd_def Let_def image_iff)
  show "r \<notin> set (handleTagRemove ts r)"
    by (simp add: handleTagRemove_def)
  show "subseq (handleTagRemove ts r) ts"
    by (simp add: handleTagRemove_def)
  show "count_list (handleTagRemove ts r) x = count_list ts x" if "x \<noteq> r" for x
    using that by (simp add: handleTagRemove_def count_list_filter_neq)
next
  assume "lower (js ''Seoul'') = lower (js ''seoul'')"
  moreover have "trim (js ''Seoul'') = js ''Seoul''" "trim (js ''seoul'') = js ''seoul''"
    "js ''Seoul'' \<noteq> []" "js ''seoul'' \<noteq> []"
    by (simp_all add: js_def trim_def isWhiteSpace_def)
  ultimately
  show "handleTagAdd lower (handleTagAdd lower [] (js ''Seoul'')) (js ''seoul'') = [js ''Seoul'']"
    by (simp add: handleTagAdd_def)
next
  assume d: "distinct (map lower ts)"
  then show "distinct (map lower (handleTagAdd lower ts t))"
    by (auto simp: handleTagAdd_def Let_def)
  from d show "distinct (map lower (handleTagRemove ts r))"
    by (simp add: handleTagRemove_def distinct_map_filter)
qed

theorem handleTagAdd_handleTagRemove_spec_witness:
  "distinct (map toLowerCase [js ''Seoul'', js ''Busan''])
   \<and> handleTagAdd toLowerCase [js ''Seoul'', js ''Busan''] (js '' seoul '')
       = [js ''Seoul'', js ''Busan'']
   \<and> distinct (map toLowerCase
                 (handleTagAdd toLowerCase [js ''Seoul'', js ''Busan''] (js '' seoul '')))
   \<and> distinct (map toLowerCase (handleTagRemove [js ''Seoul'', js ''Busan''] (js ''Busan'')))
   \<and> js ''Seoul'' \<noteq> js ''Busan''
   \<and> count_list (handleTagRemove [js ''Seoul'', js ''Busan''] (js ''Busan'')) (js ''Seoul'') = 1
   \<and> js ''Busan'' \<notin> set (handleTagRemove [js ''Seoul'', js ''Busan''] (js ''Busan''))
   \<and> toLowerCase (js ''Seoul'') = toLowerCase (js ''seoul'')
   \<and> handleTagAdd toLowerCase (handleTagAdd toLowerCase [] (js ''Seoul'')) (js ''seoul'')
       = [js ''Seoul'']"
proof -
  have d: "distinct (map toLowerCase [js ''Seoul'', js ''Busan''])"
    by (simp add: js_def toLowerCase_def lowerUnit_def)
  have e: "trim (js '' seoul '') = js ''seoul''"
    by (simp add: js_def trim_def isWhiteSpace_def)
  have f: "toLowerCase (js ''Seoul'') = toLowerCase (js ''seoul'')"
    by (simp add: js_def toLowerCase_def lowerUnit_def)
  have n: "js ''Seoul'' \<noteq> js ''Busan''"
    by (simp add: js_def)
  note w = handleTagAdd_handleTagRemove_spec
             [of toLowerCase "[js ''Seoul'', js ''Busan'']" "js '' seoul ''" "js ''Busan''"]
  from w e f have a: "handleTagAdd toLowerCase [js ''Seoul'', js ''Busan''] (js '' seoul '')
                        = [js ''Seoul'', js ''Busan'']"
    by simp
  from w d have b:
    "distinct (map toLowerCase
                 (handleTagAdd toLowerCase [js ''Seoul'', js ''Busan''] (js '' seoul '')))"
    "distinct (map toLowerCase (handleTagRemove [js ''Seoul'', js ''Busan''] (js ''Busan'')))"
    by blast+
  from w n have c:
    "count_list (handleTagRemove [js ''Seoul'', js ''Busan''] (js ''Busan'')) (js ''Seoul'') = 1"
    by simp
  from w have r: "js ''Busan'' \<notin> set (handleTagRemove [js ''Seoul'', js ''Busan''] (js ''Busan''))"
    by blast
  from w f have g:
    "handleTagAdd toLowerCase (handleTagAdd toLowerCase [] (js ''Seoul'')) (js ''seoul'')
       = [js ''Seoul'']"
    by blast
  from d a b n c r f g show ?thesis by blast
qed


section \<open>The client list state\<close>

text \<open>
  Claim C6, as stated, has \<open>goToPage\<close> clamp the requested page to the interval from 1
  to \<open>totalPages\<close>. It stores the page as requested: page 7 with three pages in all
  gives the current page 7.
\<close>

theorem goToPage_unclamped_counterexample:
  "currentPageState
     (goToPage 7
        \<lparr>searchTerm = [], debouncedSearchTerm = [], selectedCategory = js ''all'',
         currentPageState = 3, pageSize = 9,
         pagination = Some \<lparr>currentPage = 3, totalPages = Num 3, totalCount = 23, limit = 9,
                             hasNextPage = False, hasPrevPage = True\<rparr>\<rparr>) = 7
   \<and> \<not> (7 \<le> (3::int))"
  by (simp add: goToPage_def)

text \<open>
  Claim C6, amended. \<open>goToPage\<close> sets the current page to the requested page, unclamped,
  and leaves the pagination metadata alone; so the current page is between 1 and
  \<open>totalPages\<close> after a navigation whenever the requested page is. Every numbered
  button or link requests such a page, and so does every control that is rendered
  and enabled while the state holds the metadata of its current page, a page
  between 1 and \<open>totalPages\<close>. When the debounce timer fires, the search term is
  committed and the current page is 1; changing the category sets the current page
  to 1.
\<close>

theorem goToPage_sets_requested_page:
  "currentPageState (goToPage page s) = page
   \<and> pagination (goToPage page s) = pagination s
   \<and> (1 \<le> page \<and> page \<le> tp \<longrightarrow>
        1 \<le> currentPageState (goToPage page s) \<and> currentPageState (goToPage page s) \<le> tp)
   \<and> (pagination s = Some p \<and> totalPages p = Num tp \<longrightarrow>
        (\<forall>i \<in> set (renderPaginationButtons s). 1 \<le> i \<and> i \<le> tp)
        \<and> (\<forall>i \<in> set (postListPageLinks s). 1 \<le> i \<and> i \<le> tp))
   \<and> (pagination s = Some p \<and> currentPageState s = currentPage p \<and> totalPages p = Num tp
        \<and> 1 \<le> currentPage p \<and> currentPage p \<le> tp
        \<and> hasNextPage p = (currentPage p < tp) \<and> hasPrevPage p = (1 < currentPage p)
        \<and> (adminRequestedPage ctl s = Some x \<or> postListRequestedPage ctl s = Some x) \<longrightarrow>
        (\<exists>n. x = Num n \<and> 1 \<le> n \<and> n \<le> tp
             \<and> 1 \<le> currentPageState (goToPage n s) \<and> currentPageState (goToPage n s) \<le> tp))
   \<and> currentPageState (debounceTimerFired s) = 1
   \<and> debouncedSearchTerm (debounceTimerFired s) = searchTerm s
   \<and> (c \<noteq> selectedCategory s \<longrightarrow>
        currentPageState (setSelectedCategory c s) = 1
        \<and> selectedCategory (setSelectedCategory c s) = c)"
proof (intro conjI impI)
  assume a: "pagination s = Some p \<and> totalPages p = Num tp"
  then show "\<forall>i \<in> set (renderPaginationButtons s). 1 \<le> i \<and> i \<le> tp"
    by (auto simp: renderPaginationButtons_def Let_def)
  from a show "\<forall>i \<in> set (postListPageLinks s). 1 \<le> i \<and> i \<le> tp"
    by (auto simp: postListPageLinks_def Let_def)
next
  assume a: "pagination s = Some p \<and> currentPageState s = currentPage p \<and> totalPages p = Num tp
        \<and> 1 \<le> currentPage p \<and> currentPage p \<le> tp
        \<and> hasNextPage p = (currentPage p < tp) \<and> hasPrevPage p = (1 < currentPage p)
        \<and> (adminRequestedPage ctl s = Some x \<or> postListRequestedPage ctl s = Some x)"
  then have b: "\<forall>i \<in> set (renderPaginationButtons s). 1 \<le> i \<and> i \<le> tp"
    and c: "\<forall>i \<in> set (postListPageLinks s). 1 \<le> i \<and> i \<le> tp"
    by (auto simp: renderPaginationButtons_def postListPageLinks_def Let_def)
  from a have "\<exists>n. x = Num n \<and> 1 \<le> n \<and> n \<le> tp"
  proof (elim conjE disjE)
    assume r: "adminRequestedPage ctl s = Some x" and g: "pagination s = Some p"
      "currentPageState s = currentPage p" "totalPages p = Num tp"
      "hasNextPage p = (currentPage p < tp)" "hasPrevPage p = (1 < currentPage p)"
      and "1 \<le> currentPage p" "currentPage p \<le> tp"
    with b show ?thesis
      by (cases ctl) (auto simp: adminRequestedPage_def g split: if_splits)
  next
    assume r: "postListRequestedPage ctl s = Some x" and g: "pagination s = Some p"
      "currentPageState s = currentPage p" "totalPages p = Num tp"
      "hasNextPage p = (currentPage p < tp)" "hasPrevPage p = (1 < currentPage p)"
      and "1 \<le> currentPage p" "currentPage p \<le> tp"
    with c show ?thesis
      by (cases ctl) (auto simp: postListRequestedPage_def g split: if_splits)
  qed
  then show "\<exists>n. x = Num n \<and> 1 \<le> n \<and> n \<le> tp
             \<and> 1 \<le> currentPageState (goToPage n s) \<and> currentPageState (goToPage n s) \<le> tp"
    by (auto simp: goToPage_def)
qed (auto simp: goToPage_def debounceTimerFired_def setSelectedCategory_def)

theorem goToPage_sets_requested_page_witness:
  "pagination \<lparr>searchTerm = js ''gang'', debouncedSearchTerm = [], selectedCategory = js ''all'',
               currentPageState = 1, pageSize = 9,
               pagination = Some \<lparr>currentPage = 1, totalPages = Num 3, totalCount = 23,
                                   limit = 9, hasNextPage = True, hasPrevPage = False\<rparr>\<rparr>
     = Some \<lparr>currentPage = 1, totalPages = Num 3, totalCount = 23, limit = 9,
             hasNextPage = True, hasPrevPage = False\<rparr>
   \<and> (1::int) \<le> 2 \<and> (2::int) \<le> 3
   \<and> js ''domestic'' \<noteq> js ''all''
   \<and> adminRequestedPage NextPage
         \<lparr>searchTerm = js ''gang'', debouncedSearchTerm = [], selectedCategory = js ''all'',
          currentPageState = 1, pageSize = 9,
          pagination = Some \<lparr>currentPage = 1, totalPages = Num 3, totalCount = 23,
                              limit = 9, hasNextPage = True, hasPrevPage = False\<rparr>\<rparr> = Some (Num 2)
   \<and> currentPageState
         (goToPage 2
            \<lparr>searchTerm = js ''gang'', debouncedSearchTerm = [], selectedCategory = js ''all'',
             currentPageState = 1, pageSize = 9,
             pagination = Some \<lparr>currentPage = 1, totalPages = Num 3, totalCount = 23,
                                 limit = 9, hasNextPage = True, hasPrevPage = False\<rparr>\<rparr>) = 2
   \<and> set (renderPaginationButtons
         \<lparr>searchTerm = js ''gang'', debouncedSearchTerm = [], selectedCategory = js ''all'',
          currentPageState = 1, pageSize = 9,
          pagination = Some \<lparr>currentPage = 1, totalPages = Num 3, totalCount = 23,
                              limit = 9, hasNextPage = True, hasPrevPage = False\<rparr>\<rparr>) = {1, 2, 3}
   \<and> currentPageState
         (setSelectedCategory (js ''domestic'')
            \<lparr>searchTerm = js ''gang'', debouncedSearchTerm = [], selectedCategory = js ''all'',
             currentPageState = 1, pageSize = 9,
             pagination = Some \<lparr>currentPage = 1, totalPages = Num 3, totalCount = 23,
                                 limit = 9, hasNextPage = True, hasPrevPage = False\<rparr>\<rparr>) = 1"
proof -
  have n: "js ''domestic'' \<noteq> js ''all''"
    by (simp add: js_def)
  have b: "set (renderPaginationButtons
         \<lparr>searchTerm = js ''gang'', debouncedSearchTerm = [], selectedCategory = js ''all'',
          currentPageState = 1, pageSize = 9,
          pagination = Some \<lparr>currentPage = 1, totalPages = Num 3, totalCount = 23,
                              limit = 9, hasNextPage = True, hasPrevPage = False\<rparr>\<rparr>) = {1, 2, 3}"
    by (simp add: renderPaginationButtons_def Let_def upto_rec1)
  have r: "adminRequestedPage NextPage
         \<lparr>searchTerm = js ''gang'', debouncedSearchTerm = [], selectedCategory = js ''all'',
          currentPageState = 1, pageSize = 9,
          pagination = Some \<lparr>currentPage = 1, totalPages = Num 3, totalCount = 23,
                              limit = 9, hasNextPage = True, hasPrevPage = False\<rparr>\<rparr> = Some (Num 2)"
    by (simp add: adminRequestedPage_def)
  from n b r goToPage_sets_requested_page
       [of 2 "\<lparr>searchTerm = js ''gang'', debouncedSearchTerm = [], selectedCategory = js ''all'',
               currentPageState = 1, pageSize = 9,
               pagination = Some \<lparr>currentPage = 1, totalPages = Num 3, totalCount = 23,
                                   limit = 9, hasNextPage = True, hasPrevPage = False\<rparr>\<rparr>"
           3 "\<lparr>currentPage = 1, totalPages = Num 3, totalCount = 23, limit = 9,
               hasNextPage = True, hasPrevPage = False\<rparr>" NextPage "Num 2"
           "js ''domestic''"]
  show ?thesis by simp
qed


section \<open>Paginated listings\<close>

text \<open>
  Claim C1. When \<open>getAllStoresPage\<close> or \<open>getCommentsPaginated\<close> is called with a page
  and a limit of at least 1 and succeeds, the metadata it returns has
  \<open>totalPages\<close> equal to the ceiling of \<open>totalCount / limit\<close>, \<open>hasNextPage\<close> equal to
  \<open>page < totalPages\<close> and \<open>hasPrevPage\<close> equal to \<open>page > 1\<close>, and the page holds
  \<open>limit\<close> records or what is left of \<open>totalCount\<close> after the pages before it. With 23
  records and limit 10, where the database answers the three operations of the call,
  page 1 returns 10 records with \<open>totalPages\<close> 3 and a next page, and page 3 returns 3
  records and no next page.
\<close>

theorem pagination_metadata:
  "(1 \<le> page \<and> 1 \<le> limitV
      \<and> getAllStoresPage regex (Some page) (Some limitV) q s = (Inr r, s') \<and> success r \<longrightarrow>
      (\<exists>recs pg. payload r = StorePage recs pg
          \<and> currentPage pg = page \<and> limit pg = limitV
          \<and> totalPages pg = Num \<lceil>real (totalCount pg) / real_of_int limitV\<rceil>
          \<and> hasNextPage pg = (page < \<lceil>real (totalCount pg) / real_of_int limitV\<rceil>)
          \<and> hasPrevPage pg = (1 < page)
          \<and> length recs = min (nat limitV) (totalCount pg - nat ((page - 1) * limitV))))
   \<and> (1 \<le> page \<and> 1 \<le> limitV
      \<and> getCommentsPaginated regex (Some page) (Some limitV) q s = (Inr r, s') \<and> success r \<longrightarrow>
      (\<exists>recs pg. payload r = CommentPage recs pg
          \<and> currentPage pg = page \<and> limit pg = limitV
          \<and> totalPages pg = Num \<lceil>real (totalCount pg) / real_of_int limitV\<rceil>
          \<and> hasNextPage pg = (page < \<lceil>real (totalCount pg) / real_of_int limitV\<rceil>)
          \<and> hasPrevPage pg = (1 < page)
          \<and> length recs = min (nat limitV) (totalCount pg - nat ((page - 1) * limitV))))
   \<and> (length (storesColl s) = 23 \<and> answers 3 s \<longrightarrow>
        (\<exists>recs pg. getAllStoresPage regex (Some 1) (Some 10) None s
                      = (Inr \<lparr>success = True, message = None, error = None,
                              payload = StorePage recs pg\<rparr>, spend 3 s)
            \<and> length recs = 10 \<and> totalCount pg = 23 \<and> totalPages pg = Num 3
            \<and> hasNextPage pg)
        \<and> (\<exists>recs pg. getAllStoresPage regex (Some 3) (Some 10) None s
                      = (Inr \<lparr>success = True, message = None, error = None,
                              payload = StorePage recs pg\<rparr>, spend 3 s)
            \<and> length recs = 3 \<and> totalCount pg = 23 \<and> totalPages pg = Num 3
            \<and> \<not> hasNextPage pg))
   \<and> (length (commentsColl s) = 23 \<and> answers 3 s \<longrightarrow>
        (\<exists>recs pg. getCommentsPaginated regex (Some 1) (Some 10) None s
                      = (Inr \<lparr>success = True, message = None, error = None,
                              payload = CommentPage recs pg\<rparr>, spend 3 s)
            \<and> length recs = 10 \<and> totalCount pg = 23 \<and> totalPages pg = Num 3
            \<and> hasNextPage pg)
        \<and> (\<exists>recs pg. getCommentsPaginated regex (Some 3) (Some 10) None s
                      = (Inr \<lparr>success = True, message = None, error = None,
                              payload = CommentPage recs pg\<rparr>, spend 3 s)
            \<and> length recs = 3 \<and> totalCount pg = 23 \<and> totalPages pg = Num 3
            \<and> \<not> hasNextPage pg))"
proof (intro conjI impI)
  assume a: "1 \<le> page \<and> 1 \<le> limitV
      \<and> getAllStoresPage regex (Some page) (Some limitV) q s = (Inr r, s') \<and> success r"
  then obtain p where r: "r = storePageResult p page limitV s"
    using getAllStoresPage_success [of regex page limitV q s r s'] by blast
  from a have l: "1 \<le> limitV" by simp
  show "\<exists>recs pg. payload r = StorePage recs pg
          \<and> currentPage pg = page \<and> limit pg = limitV
          \<and> totalPages pg = Num \<lceil>real (totalCount pg) / real_of_int limitV\<rceil>
          \<and> hasNextPage pg = (page < \<lceil>real (totalCount pg) / real_of_int limitV\<rceil>)
          \<and> hasPrevPage pg = (1 < page)
          \<and> length recs = min (nat limitV) (totalCount pg - nat ((page - 1) * limitV))"
    using pageInfo_fields [OF l, of "length (filter p (storesColl s))" page]
          length_pageOf [OF l, of p page "storesColl s"]
    by (simp add: r storePageResult_def)
next
  assume a: "1 \<le> page \<and> 1 \<le> limitV
      \<and> getCommentsPaginated regex (Some page) (Some limitV) q s = (Inr r, s') \<and> success r"
  then obtain p where r: "r = commentPageResult p page limitV s"
    using getCommentsPaginated_success [of regex page limitV q s r s'] by blast
  from a have l: "1 \<le> limitV" by simp
  show "\<exists>recs pg. payload r = CommentPage recs pg
          \<and> currentPage pg = page \<and> limit pg = limitV
          \<and> totalPages pg = Num \<lceil>real (totalCount pg) / real_of_int limitV\<rceil>
          \<and> hasNextPage pg = (page < \<lceil>real (totalCount pg) / real_of_int limitV\<rceil>)
          \<and> hasPrevPage pg = (1 < page)
          \<and> length recs = min (nat limitV) (totalCount pg - nat ((page - 1) * limitV))"
    using pageInfo_fields [OF l, of "length (filter p (commentsColl s))" page]
          length_pageOf [OF l, of p page "commentsColl s"]
    by (simp add: r commentPageResult_def)
next
  assume a: "length (storesColl s) = 23 \<and> answers 3 s"
  have ok: "getAllStoresPage regex (Some page) (Some 10) None s
              = (Inr (storePageResult (\<lambda>d. True) page 10 s), spend 3 s)"
    if "1 \<le> page" for page
    using a that by (simp add: getAllStoresPage_ok)
  show "\<exists>recs pg. getAllStoresPage regex (Some 1) (Some 10) None s
                      = (Inr \<lparr>success = True, message = None, error = None,
                              payload = StorePage recs pg\<rparr>, spend 3 s)
            \<and> length recs = 10 \<and> totalCount pg = 23 \<and> totalPages pg = Num 3
            \<and> hasNextPage pg"
    using a by (simp add: ok storePageResult_def length_pageOf pageInfo_def mathCeilDiv_def)
  show "\<exists>recs pg. getAllStoresPage regex (Some 3) (Some 10) None s
                      = (Inr \<lparr>success = True, message = None, error = None,
                              payload = StorePage recs pg\<rparr>, spend 3 s)
            \<and> length recs = 3 \<and> totalCount pg = 23 \<and> totalPages pg = Num 3
            \<and> \<not> hasNextPage pg"
    using a by (simp add: ok storePageResult_def length_pageOf pageInfo_def mathCeilDiv_def)
next
  assume a: "length (commentsColl s) = 23 \<and> answers 3 s"
  have ok: "getCommentsPaginated regex (Some page) (Some 10) None s
              = (Inr (commentPageResult (\<lambda>d. True) page 10 s), spend 3 s)"
    if "1 \<le> page" for page
    using a that by (simp add: getCommentsPaginated_ok)
  show "\<exists>recs pg. getCommentsPaginated regex (Some 1) (Some 10) None s
                      = (Inr \<lparr>success = True, message = None, error = None,
                              payload = CommentPage recs pg\<rparr>, spend 3 s)
            \<and> length recs = 10 \<and> totalCount pg = 23 \<and> totalPages pg = Num 3
            \<and> hasNextPage pg"
    using a by (simp add: ok commentPageResult_def length_pageOf pageInfo_def mathCeilDiv_def)
  show "\<exists>recs pg. getCommentsPaginated regex (Some 3) (Some 10) None s
                      = (Inr \<lparr>success = True, message = None, error = None,
                              payload = CommentPage recs pg\<rparr>, spend 3 s)
            \<and> length recs = 3 \<and> totalCount pg = 23 \<and> totalPages pg = Num 3
            \<and> \<not> hasNextPage pg"
    using a by (simp add: ok commentPageResult_def length_pageOf pageInfo_def mathCeilDiv_def)
qed

theorem pagination_metadata_witness:
  "(1::int) \<le> 2 \<and> (1::int) \<le> 10
   \<and> length (storesColl (sampleState (sampleStores 23) (sampleComments 23))) = 23
   \<and> length (commentsColl (sampleState (sampleStores 23) (sampleComments 23))) = 23
   \<and> answers 3 (sampleState (sampleStores 23) (sampleComments 23))
   \<and> getAllStoresPage sampleEngine (Some 2) (Some 10) None
        (sampleState (sampleStores 23) (sampleComments 23))
      = (Inr (storePageResult (\<lambda>d. True) 2 10 (sampleState (sampleStores 23) (sampleComments 23))),
         sampleState (sampleStores 23) (sampleComments 23))
   \<and> success (storePageResult (\<lambda>d. True) 2 10 (sampleState (sampleStores 23) (sampleComments 23)))
   \<and> (\<exists>recs pg.
         payload (storePageResult (\<lambda>d. True) 2 10 (sampleState (sampleStores 23) (sampleComments 23)))
           = StorePage recs pg
         \<and> totalPages pg = Num \<lceil>real (totalCount pg) / real_of_int 10\<rceil>
         \<and> hasPrevPage pg = ((1::int) < 2)
         \<and> length recs = min (nat 10) (totalCount pg - nat ((2 - 1) * 10)))
   \<and> getCommentsPaginated sampleEngine (Some 2) (Some 10) None
        (sampleState (sampleStores 23) (sampleComments 23))
      = (Inr (commentPageResult (\<lambda>d. True) 2 10
                (sampleState (sampleStores 23) (sampleComments 23))),
         sampleState (sampleStores 23) (sampleComments 23))
   \<and> success (commentPageResult (\<lambda>d. True) 2 10
                (sampleState (sampleStores 23) (sampleComments 23)))
   \<and> (\<exists>recs pg.
         payload (commentPageResult (\<lambda>d. True) 2 10
                    (sampleState (sampleStores 23) (sampleComments 23)))
           = CommentPage recs pg
         \<and> totalPages pg = Num \<lceil>real (totalCount pg) / real_of_int 10\<rceil>
         \<and> hasPrevPage pg = ((1::int) < 2)
         \<and> length recs = min (nat 10) (totalCount pg - nat ((2 - 1) * 10)))
   \<and> (\<exists>recs pg. getAllStoresPage sampleEngine (Some 3) (Some 10) None
                     (sampleState (sampleStores 23) (sampleComments 23))
                   = (Inr \<lparr>success = True, message = None, error = None,
                           payload = StorePage recs pg\<rparr>,
                      spend 3 (sampleState (sampleStores 23) (sampleComments 23)))
         \<and> length recs = 3 \<and> totalPages pg = Num 3 \<and> \<not> hasNextPage pg)
   \<and> (\<exists>recs pg. getCommentsPaginated sampleEngine (Some 1) (Some 10) None
                     (sampleState (sampleStores 23) (sampleComments 23))
                   = (Inr \<lparr>success = True, message = None, error = None,
                           payload = CommentPage recs pg\<rparr>,
                      spend 3 (sampleState (sampleStores 23) (sampleComments 23)))
         \<and> length recs = 10 \<and> totalPages pg = Num 3 \<and> hasNextPage pg)"
proof -
  let ?S = "sampleState (sampleStores 23) (sampleComments 23)"
  let ?r = "storePageResult (\<lambda>d. True) 2 10 ?S"
  let ?r' = "commentPageResult (\<lambda>d. True) 2 10 ?S"
  have h: "(1::int) \<le> 2" "(1::int) \<le> 10" "length (storesColl ?S) = 23"
    "length (commentsColl ?S) = 23" "answers 3 ?S"
    by simp_all
  have g: "getAllStoresPage sampleEngine (Some 2) (Some 10) None ?S = (Inr ?r, ?S)"
    "success ?r"
    by (simp_all add: getAllStoresPage_ok storePageResult_def)
  have g': "getCommentsPaginated sampleEngine (Some 2) (Some 10) None ?S = (Inr ?r', ?S)"
    "success ?r'"
    by (simp_all add: getCommentsPaginated_ok commentPageResult_def)
  note t = pagination_metadata [of 2 10 sampleEngine None ?S ?r ?S]
  note t' = pagination_metadata [of 2 10 sampleEngine None ?S ?r' ?S]
  from t h g have c1: "\<exists>recs pg. payload ?r = StorePage recs pg
         \<and> totalPages pg = Num \<lceil>real (totalCount pg) / real_of_int 10\<rceil>
         \<and> hasPrevPage pg = ((1::int) < 2)
         \<and> length recs = min (nat 10) (totalCount pg - nat ((2 - 1) * 10))"
    by blast
  from t' h g' have c2: "\<exists>recs pg. payload ?r' = CommentPage recs pg
         \<and> totalPages pg = Num \<lceil>real (totalCount pg) / real_of_int 10\<rceil>
         \<and> hasPrevPage pg = ((1::int) < 2)
         \<and> length recs = min (nat 10) (totalCount pg - nat ((2 - 1) * 10))"
    by blast
  from t h have c3: "\<exists>recs pg. getAllStoresPage sampleEngine (Some 3) (Some 10) None ?S
                   = (Inr \<lparr>success = True, message = None, error = None,
                           payload = StorePage recs pg\<rparr>, spend 3 ?S)
         \<and> length recs = 3 \<and> totalPages pg = Num 3 \<and> \<not> hasNextPage pg"
    by blast
  from t h have c4: "\<exists>recs pg. getCommentsPaginated sampleEngine (Some 1) (Some 10) None ?S
                   = (Inr \<lparr>success = True, message = None, error = None,
                           payload = CommentPage recs pg\<rparr>, spend 3 ?S)
         \<and> length recs = 10 \<and> totalPages pg = Num 3 \<and> hasNextPage pg"
    by blast
  from h g g' c1 c2 c3 c4 show ?thesis by blast
qed


text \<open>
  Claim C2. With a page and a limit of at least 1, a database that answers the
  three operations of the call and accepts the search condition, a page number
  greater than the number of pages gives a success result with no records and with
  the metadata of the same formulas, so \<open>hasNextPage\<close> is false; and in any success
  result whose page number is greater than its \<open>totalPages\<close>, the record list is empty
  and \<open>hasNextPage\<close> is false.
\<close>

theorem page_beyond_last_page:
  "(1 \<le> page \<and> 1 \<le> limitV \<and> answers 3 s
      \<and> compileCondition regex (storeSearchCondition q) = Inr p
      \<and> \<lceil>real (length (filter p (storesColl s))) / real_of_int limitV\<rceil> < page \<longrightarrow>
      (\<exists>pg. getAllStoresPage regex (Some page) (Some limitV) q s
               = (Inr \<lparr>success = True, message = None, error = None,
                       payload = StorePage [] pg\<rparr>, spend 3 s)
          \<and> currentPage pg = page \<and> limit pg = limitV
          \<and> totalCount pg = length (filter p (storesColl s))
          \<and> totalPages pg = Num \<lceil>real (totalCount pg) / real_of_int limitV\<rceil>
          \<and> \<not> hasNextPage pg \<and> hasPrevPage pg = (1 < page)))
   \<and> (1 \<le> page \<and> 1 \<le> limitV \<and> answers 3 s
      \<and> compileCondition regex (commentSearchCondition q) = Inr p'
      \<and> \<lceil>real (length (filter p' (commentsColl s))) / real_of_int limitV\<rceil> < page \<longrightarrow>
      (\<exists>pg. getCommentsPaginated regex (Some page) (Some limitV) q s
               = (Inr \<lparr>success = True, message = None, error = None,
                       payload = CommentPage [] pg\<rparr>, spend 3 s)
          \<and> currentPage pg = page \<and> limit pg = limitV
          \<and> totalCount pg = length (filter p' (commentsColl s))
          \<and> totalPages pg = Num \<lceil>real (totalCount pg) / real_of_int limitV\<rceil>
          \<and> \<not> hasNextPage pg \<and> hasPrevPage pg = (1 < page)))
   \<and> (1 \<le> page \<and> 1 \<le> limitV
      \<and> getAllStoresPage regex (Some page) (Some limitV) q s = (Inr r, s') \<and> success r
      \<and> payload r = StorePage recs pg \<and> totalPages pg = Num tp \<and> tp < page \<longrightarrow>
      recs = [] \<and> \<not> hasNextPage pg)
   \<and> (1 \<le> page \<and> 1 \<le> limitV
      \<and> getCommentsPaginated regex (Some page) (Some limitV) q s = (Inr r, s') \<and> success r
      \<and> payload r = CommentPage recs' pg \<and> totalPages pg = Num tp \<and> tp < page \<longrightarrow>
      recs' = [] \<and> \<not> hasNextPage pg)"
proof (intro conjI impI)
  assume a: "1 \<le> page \<and> 1 \<le> limitV \<and> answers 3 s
      \<and> compileCondition regex (storeSearchCondition q) = Inr p
      \<and> \<lceil>real (length (filter p (storesColl s))) / real_of_int limitV\<rceil> < page"
  then have l: "1 \<le> limitV" by simp
  from a have run: "getAllStoresPage regex (Some page) (Some limitV) q s
                      = (Inr (storePageResult p page limitV s), spend 3 s)"
    by (simp add: getAllStoresPage_ok)
  from a have e: "pageOf p page limitV (storesColl s) = []"
    by (simp add: pageOf_beyond)
  show "\<exists>pg. getAllStoresPage regex (Some page) (Some limitV) q s
               = (Inr \<lparr>success = True, message = None, error = None,
                       payload = StorePage [] pg\<rparr>, spend 3 s)
          \<and> currentPage pg = page \<and> limit pg = limitV
          \<and> totalCount pg = length (filter p (storesColl s))
          \<and> totalPages pg = Num \<lceil>real (totalCount pg) / real_of_int limitV\<rceil>
          \<and> \<not> hasNextPage pg \<and> hasPrevPage pg = (1 < page)"
    using a pageInfo_fields [OF l, of "length (filter p (storesColl s))" page]
    by (simp add: run storePageResult_def e)
next
  assume a: "1 \<le> page \<and> 1 \<le> limitV \<and> answers 3 s
      \<and> compileCondition regex (commentSearchCondition q) = Inr p'
      \<and> \<lceil>real (length (filter p' (commentsColl s))) / real_of_int limitV\<rceil> < page"
  then have l: "1 \<le> limitV" by simp
  from a have run: "getCommentsPaginated regex (Some page) (Some limitV) q s
                      = (Inr (commentPageResult p' page limitV s), spend 3 s)"
    by (simp add: getCommentsPaginated_ok)
  from a have e: "pageOf p' page limitV (commentsColl s) = []"
    by (simp add: pageOf_beyond)
  show "\<exists>pg. getCommentsPaginated regex (Some page) (Some limitV) q s
               = (Inr \<lparr>success = True, message = None, error = None,
                       payload = CommentPage [] pg\<rparr>, spend 3 s)
          \<and> currentPage pg = page \<and> limit pg = limitV
          \<and> totalCount pg = length (filter p' (commentsColl s))
          \<and> totalPages pg = Num \<lceil>real (totalCount pg) / real_of_int limitV\<rceil>
          \<and> \<not> hasNextPage pg \<and> hasPrevPage pg = (1 < page)"
    using a pageInfo_fields [OF l, of "length (filter p' (commentsColl s))" page]
    by (simp add: run commentPageResult_def e)
next
  assume a: "1 \<le> page \<and> 1 \<le> limitV
      \<and> getAllStoresPage regex (Some page) (Some limitV) q s = (Inr r, s') \<and> success r
      \<and> payload r = StorePage recs pg \<and> totalPages pg = Num tp \<and> tp < page"
  then obtain p0 where r: "r = storePageResult p0 page limitV s"
    using getAllStoresPage_success [of regex page limitV q s r s'] by blast
  from a have l: "1 \<le> limitV" by simp
  from a r have pg: "pg = pageInfo (length (filter p0 (storesColl s))) page limitV"
    and recs: "recs = pageOf p0 page limitV (storesColl s)"
    by (simp_all add: storePageResult_def)
  from a pg pageInfo_fields [OF l, of "length (filter p0 (storesColl s))" page]
  have tp: "\<lceil>real (length (filter p0 (storesColl s))) / real_of_int limitV\<rceil> = tp"
    and nx: "hasNextPage pg = (page < tp)"
    by simp_all
  from a tp l have "recs = []" by (simp add: recs pageOf_beyond)
  moreover from a nx have "\<not> hasNextPage pg" by simp
  ultimately show "recs = []" and "\<not> hasNextPage pg" by simp_all
next
  assume a: "1 \<le> page \<and> 1 \<le> limitV
      \<and> getCommentsPaginated regex (Some page) (Some limitV) q s = (Inr r, s') \<and> success r
      \<and> payload r = CommentPage recs' pg \<and> totalPages pg = Num tp \<and> tp < page"
  then obtain p0 where r: "r = commentPageResult p0 page limitV s"
    using getCommentsPaginated_success [of regex page limitV q s r s'] by blast
  from a have l: "1 \<le> limitV" by simp
  from a r have pg: "pg = pageInfo (length (filter p0 (commentsColl s))) page limitV"
    and recs: "recs' = map (populate (postsColl s)) (pageOf p0 page limitV (commentsColl s))"
    by (simp_all add: commentPageResult_def)
  from a pg pageInfo_fields [OF l, of "length (filter p0 (commentsColl s))" page]
  have tp: "\<lceil>real (length (filter p0 (commentsColl s))) / real_of_int limitV\<rceil> = tp"
    and nx: "hasNextPage pg = (page < tp)"
    by simp_all
  from a tp l have "recs' = []" by (simp add: recs pageOf_beyond)
  moreover from a nx have "\<not> hasNextPage pg" by simp
  ultimately show "recs' = []" and "\<not> hasNextPage pg" by simp_all
qed

theorem page_beyond_last_page_witness:
  "(1::int) \<le> 4 \<and> (1::int) \<le> 10
   \<and> answers 3 (sampleState (sampleStores 23) (sampleComments 23))
   \<and> compileCondition sampleEngine (storeSearchCondition None) = Inr (\<lambda>d. True)
   \<and> compileCondition sampleEngine (commentSearchCondition None) = Inr (\<lambda>d. True)
   \<and> \<lceil>real (length (filter (\<lambda>d. True)
         (storesColl (sampleState (sampleStores 23) (sampleComments 23))))) / real_of_int 10\<rceil> < 4
   \<and> \<lceil>real (length (filter (\<lambda>d. True)
         (commentsColl (sampleState (sampleStores 23) (sampleComments 23))))) / real_of_int 10\<rceil> < 4
   \<and> (\<exists>pg. getAllStoresPage sampleEngine (Some 4) (Some 10) None
               (sampleState (sampleStores 23) (sampleComments 23))
             = (Inr \<lparr>success = True, message = None, error = None,
                     payload = StorePage [] pg\<rparr>,
                spend 3 (sampleState (sampleStores 23) (sampleComments 23)))
          \<and> totalCount pg = length (filter (\<lambda>d. True)
                (storesColl (sampleState (sampleStores 23) (sampleComments 23))))
          \<and> \<not> hasNextPage pg)
   \<and> (\<exists>pg. getCommentsPaginated sampleEngine (Some 4) (Some 10) None
               (sampleState (sampleStores 23) (sampleComments 23))
             = (Inr \<lparr>success = True, message = None, error = None,
                     payload = CommentPage [] pg\<rparr>,
                spend 3 (sampleState (sampleStores 23) (sampleComments 23)))
          \<and> totalCount pg = length (filter (\<lambda>d. True)
                (commentsColl (sampleState (sampleStores 23) (sampleComments 23))))
          \<and> \<not> hasNextPage pg)
   \<and> getAllStoresPage sampleEngine (Some 4) (Some 10) None
        (sampleState (sampleStores 23) (sampleComments 23))
      = (Inr (storePageResult (\<lambda>d. True) 4 10 (sampleState (sampleStores 23) (sampleComments 23))),
         sampleState (sampleStores 23) (sampleComments 23))
   \<and> success (storePageResult (\<lambda>d. True) 4 10 (sampleState (sampleStores 23) (sampleComments 23)))
   \<and> payload (storePageResult (\<lambda>d. True) 4 10 (sampleState (sampleStores 23) (sampleComments 23)))
      = StorePage (pageOf (\<lambda>d. True) 4 10 (sampleStores 23)) (pageInfo 23 4 10)
   \<and> totalPages (pageInfo 23 4 10) = Num 3 \<and> (3::int) < 4
   \<and> pageOf (\<lambda>d. True) 4 10 (sampleStores 23) = []
   \<and> \<not> hasNextPage (pageInfo 23 4 10)
   \<and> getCommentsPaginated sampleEngine (Some 4) (Some 10) None
        (sampleState (sampleStores 23) (sampleComments 23))
      = (Inr (commentPageResult (\<lambda>d. True) 4 10
               (sampleState (sampleStores 23) (sampleComments 23))),
         sampleState (sampleStores 23) (sampleComments 23))
   \<and> success (commentPageResult (\<lambda>d. True) 4 10
               (sampleState (sampleStores 23) (sampleComments 23)))
   \<and> payload (commentPageResult (\<lambda>d. True) 4 10
               (sampleState (sampleStores 23) (sampleComments 23)))
      = CommentPage (map (populate []) (pageOf (\<lambda>d. True) 4 10 (sampleComments 23)))
          (pageInfo 23 4 10)
   \<and> map (populate []) (pageOf (\<lambda>d. True) 4 10 (sampleComments 23)) = []"
proof -
  let ?S = "sampleState (sampleStores 23) (sampleComments 23)"
  let ?r = "storePageResult (\<lambda>d. True) 4 10 ?S"
  let ?r' = "commentPageResult (\<lambda>d. True) 4 10 ?S"
  have h: "(1::int) \<le> 4" "(1::int) \<le> 10" "answers 3 ?S"
    "compileCondition sampleEngine (storeSearchCondition None) = Inr (\<lambda>d. True)"
    "compileCondition sampleEngine (commentSearchCondition None) = Inr (\<lambda>d. True)"
    "\<lceil>real (length (filter (\<lambda>d. True) (storesColl ?S))) / real_of_int 10\<rceil> < 4"
    "\<lceil>real (length (filter (\<lambda>d. True) (commentsColl ?S))) / real_of_int 10\<rceil> < 4"
    by simp_all
  have g: "getAllStoresPage sampleEngine (Some 4) (Some 10) None ?S = (Inr ?r, ?S)"
    "success ?r"
    "payload ?r = StorePage (pageOf (\<lambda>d. True) 4 10 (sampleStores 23)) (pageInfo 23 4 10)"
    by (simp_all add: getAllStoresPage_ok storePageResult_def)
  have g': "getCommentsPaginated sampleEngine (Some 4) (Some 10) None ?S = (Inr ?r', ?S)"
    "success ?r'"
    "payload ?r' = CommentPage (map (populate []) (pageOf (\<lambda>d. True) 4 10 (sampleComments 23)))
                     (pageInfo 23 4 10)"
    by (simp_all add: getCommentsPaginated_ok commentPageResult_def)
  have tp: "totalPages (pageInfo 23 4 10) = Num 3" "(3::int) < 4"
    by (simp_all add: pageInfo_def mathCeilDiv_def)
  note t = page_beyond_last_page
             [of 4 10 ?S sampleEngine None "\<lambda>d. True" "\<lambda>d. True" ?r ?S
                 "pageOf (\<lambda>d. True) 4 10 (sampleStores 23)" "pageInfo 23 4 10" 3 "[]"]
  note t' = page_beyond_last_page
             [of 4 10 ?S sampleEngine None "\<lambda>d. True" "\<lambda>d. True" ?r' ?S "[]" "pageInfo 23 4 10" 3
                 "map (populate []) (pageOf (\<lambda>d. True) 4 10 (sampleComments 23))"]
  from t h have c1: "\<exists>pg. getAllStoresPage sampleEngine (Some 4) (Some 10) None ?S
             = (Inr \<lparr>success = True, message = None, error = None,
                     payload = StorePage [] pg\<rparr>, spend 3 ?S)
          \<and> totalCount pg = length (filter (\<lambda>d. True) (storesColl ?S))
          \<and> \<not> hasNextPage pg"
    by blast
  from t h have c2: "\<exists>pg. getCommentsPaginated sampleEngine (Some 4) (Some 10) None ?S
             = (Inr \<lparr>success = True, message = None, error = None,
                     payload = CommentPage [] pg\<rparr>, spend 3 ?S)
          \<and> totalCount pg = length (filter (\<lambda>d. True) (commentsColl ?S))
          \<and> \<not> hasNextPage pg"
    by blast
  from t h g tp have c3: "pageOf (\<lambda>d. True) 4 10 (sampleStores 23) = []"
    "\<not> hasNextPage (pageInfo 23 4 10)"
    by blast+
  from t' h g' tp have c4: "map (populate []) (pageOf (\<lambda>d. True) 4 10 (sampleComments 23)) = []"
    by blast
  from h g g' tp c1 c2 c3 c4 show ?thesis by blast
qed


text \<open>
  Claim C7, as stated, has the listing return the records that contain the search
  string for every search string, metacharacters included. The search string is
  handed to the database as a pattern: the search \<open>.\<close> returns and counts a store that
  has no full stop in any field.
\<close>

theorem regex_search_counterexample:
  "\<not> storeFieldMatches (\<lambda>text. str_includes text [0x2E])
        (sampleStore (js ''s1'') (js ''A1'') (js ''Gangnam'') 10)
   \<and> \<not> storeMatchesSearch toLowerCase [0x2E]
          (sampleStore (js ''s1'') (js ''A1'') (js ''Gangnam'') 10)
   \<and> getAllStoresPage sampleEngine (Some 1) (Some 10) (Some [0x2E])
        (sampleState [sampleStore (js ''s1'') (js ''A1'') (js ''Gangnam'') 10] [])
      = (Inr \<lparr>success = True, message = None, error = None,
              payload = StorePage [sampleStore (js ''s1'') (js ''A1'') (js ''Gangnam'') 10]
                          \<lparr>currentPage = 1, totalPages = Num 1, totalCount = 1, limit = 10,
                           hasNextPage = False, hasPrevPage = False\<rparr>\<rparr>,
         sampleState [sampleStore (js ''s1'') (js ''A1'') (js ''Gangnam'') 10] [])"
proof -
  have a0: "\<not> storeFieldMatches (\<lambda>text. str_includes text [0x2E])
        (sampleStore (js ''s1'') (js ''A1'') (js ''Gangnam'') 10)"
    by (simp add: storeFieldMatches_def sampleStore_def js_def)
  have a: "\<not> storeMatchesSearch toLowerCase [0x2E]
             (sampleStore (js ''s1'') (js ''A1'') (js ''Gangnam'') 10)"
    by (simp add: storeMatchesSearch_def storeFieldMatches_def sampleStore_def
          str_includes_ci_def js_def toLowerCase_def lowerUnit_def)
  have e: "sampleEngine [0x2E] = Some (\<lambda>text. \<exists>u \<in> set text. \<not> isNewline u)"
    by (simp add: sampleEngine_def isRegexMeta_def)
  have c: "compileCondition sampleEngine (storeSearchCondition (Some [0x2E]))
             = Inr (\<lambda>d. \<exists>f \<in> set [\<lambda>d. [name (body d)], \<lambda>d. [address (body d)],
                       \<lambda>d. [location (body d)], \<lambda>d. [storeId (body d)],
                       \<lambda>d. tags (body d)]. \<exists>v \<in> set (f d). \<exists>u \<in> set v. \<not> isNewline u)"
    by (simp add: storeSearchCondition_def e)
  have b: "getAllStoresPage sampleEngine (Some 1) (Some 10) (Some [0x2E])
        (sampleState [sampleStore (js ''s1'') (js ''A1'') (js ''Gangnam'') 10] [])
      = (Inr \<lparr>success = True, message = None, error = None,
              payload = StorePage [sampleStore (js ''s1'') (js ''A1'') (js ''Gangnam'') 10]
                          \<lparr>currentPage = 1, totalPages = Num 1, totalCount = 1, limit = 10,
                           hasNextPage = False, hasPrevPage = False\<rparr>\<rparr>,
         sampleState [sampleStore (js ''s1'') (js ''A1'') (js ''Gangnam'') 10] [])"
    by (simp add: getAllStoresPage_run c storePageResult_def pageOf_def pageInfo_def
          applyLimit_def sortCreatedDesc_def mathCeilDiv_def sampleStore_def
          js_def isNewline_def)
  from a0 a b show ?thesis by blast
qed

text \<open>
  Claim C7, amended. A non-empty search string is passed to the database as a
  pattern with option \<open>i\<close>. Where the database accepts the pattern, the page and limit
  are at least 1 and the database answers the three operations of the call, the
  listing succeeds; its records are the page, newest first, of the documents in
  which the pattern matches one of the fixed fields (name, address, location,
  storeId, tags for stores; author, content, email for comments), and \<open>totalCount\<close> is
  the number of those documents. Where the database rejects the pattern, the listing
  returns a failure result. Where the engine of the database reads the patterns
  without metacharacters as literal text ignoring case, the documents listed and
  counted for a non-empty search string without metacharacters are those in which
  the string occurs, ignoring case, in one of the fixed fields. Sorting keeps the
  documents and orders them by creation time, descending.
\<close>

theorem literal_search_listing:
  "(q \<noteq> [] \<and> regex q = Some m \<and> 1 \<le> page \<and> 1 \<le> limitV \<and> answers 3 s \<longrightarrow>
      (\<exists>recs pg. getAllStoresPage regex (Some page) (Some limitV) (Some q) s
                    = (Inr \<lparr>success = True, message = None, error = None,
                            payload = StorePage recs pg\<rparr>, spend 3 s)
          \<and> recs = take (nat limitV) (drop (nat ((page - 1) * limitV))
                      (sortCreatedDesc (filter (storeFieldMatches m) (storesColl s))))
          \<and> totalCount pg = length (filter (storeFieldMatches m) (storesColl s))
          \<and> (\<forall>d \<in> set recs. d \<in> set (storesColl s) \<and> storeFieldMatches m d)
          \<and> sorted_wrt (\<lambda>a b. createdAt b \<le> createdAt a) recs)
      \<and> (\<exists>recs pg. getCommentsPaginated regex (Some page) (Some limitV) (Some q) s
                    = (Inr \<lparr>success = True, message = None, error = None,
                            payload = CommentPage recs pg\<rparr>, spend 3 s)
          \<and> map comment recs
               = take (nat limitV) (drop (nat ((page - 1) * limitV))
                   (sortCreatedDesc (filter (commentFieldMatches m) (commentsColl s))))
          \<and> totalCount pg = length (filter (commentFieldMatches m) (commentsColl s))
          \<and> (\<forall>c \<in> set (map comment recs).
                 c \<in> set (commentsColl s) \<and> commentFieldMatches m c)
          \<and> sorted_wrt (\<lambda>a b. createdAt b \<le> createdAt a) (map comment recs)))
   \<and> (q' \<noteq> [] \<and> regex q' = None \<longrightarrow>
        (\<exists>s'. getAllStoresPage regex pageArg limitArg (Some q') s
                 = (Inr (failWith msg_store_page_failed), s'))
        \<and> (\<exists>s'. getCommentsPaginated regex pageArg limitArg (Some q') s
                 = (Inr (failWith msg_comment_page_failed), s')))
   \<and> (literalEngine caseFold regex \<and> q \<noteq> [] \<and> (\<forall>u \<in> set q. \<not> isRegexMeta u)
      \<and> 1 \<le> page \<and> 1 \<le> limitV \<and> answers 3 s \<longrightarrow>
      (\<exists>recs pg. getAllStoresPage regex (Some page) (Some limitV) (Some q) s
                    = (Inr \<lparr>success = True, message = None, error = None,
                            payload = StorePage recs pg\<rparr>, spend 3 s)
          \<and> recs = take (nat limitV) (drop (nat ((page - 1) * limitV))
                      (sortCreatedDesc (filter (storeMatchesSearch caseFold q) (storesColl s))))
          \<and> totalCount pg = length (filter (storeMatchesSearch caseFold q) (storesColl s))
          \<and> (\<forall>d \<in> set recs. d \<in> set (storesColl s) \<and> storeMatchesSearch caseFold q d)
          \<and> sorted_wrt (\<lambda>a b. createdAt b \<le> createdAt a) recs)
      \<and> (\<exists>recs pg. getCommentsPaginated regex (Some page) (Some limitV) (Some q) s
                    = (Inr \<lparr>success = True, message = None, error = None,
                            payload = CommentPage recs pg\<rparr>, spend 3 s)
          \<and> map comment recs
               = take (nat limitV) (drop (nat ((page - 1) * limitV))
                   (sortCreatedDesc (filter (commentMatchesSearch caseFold q) (commentsColl s))))
          \<and> totalCount pg = length (filter (commentMatchesSearch caseFold q) (commentsColl s))
          \<and> (\<forall>c \<in> set (map comment recs).
                 c \<in> set (commentsColl s) \<and> commentMatchesSearch caseFold q c)
          \<and> sorted_wrt (\<lambda>a b. createdAt b \<le> createdAt a) (map comment recs)))
   \<and> set (sortCreatedDesc ds) = set ds
   \<and> length (sortCreatedDesc ds) = length ds
   \<and> sorted_wrt (\<lambda>a b. createdAt b \<le> createdAt a) (sortCreatedDesc ds)"
proof (intro conjI impI)
  assume a: "q \<noteq> [] \<and> regex q = Some m \<and> 1 \<le> page \<and> 1 \<le> limitV \<and> answers 3 s"
  then show "\<exists>recs pg. getAllStoresPage regex (Some page) (Some limitV) (Some q) s
                    = (Inr \<lparr>success = True, message = None, error = None,
                            payload = StorePage recs pg\<rparr>, spend 3 s)
          \<and> recs = take (nat limitV) (drop (nat ((page - 1) * limitV))
                      (sortCreatedDesc (filter (storeFieldMatches m) (storesColl s))))
          \<and> totalCount pg = length (filter (storeFieldMatches m) (storesColl s))
          \<and> (\<forall>d \<in> set recs. d \<in> set (storesColl s) \<and> storeFieldMatches m d)
          \<and> sorted_wrt (\<lambda>a b. createdAt b \<le> createdAt a) recs"
    using store_search_page [of regex q m page limitV s] by blast
  from a show "\<exists>recs pg. getCommentsPaginated regex (Some page) (Some limitV) (Some q) s
                    = (Inr \<lparr>success = True, message = None, error = None,
                            payload = CommentPage recs pg\<rparr>, spend 3 s)
          \<and> map comment recs
               = take (nat limitV) (drop (nat ((page - 1) * limitV))
                   (sortCreatedDesc (filter (commentFieldMatches m) (commentsColl s))))
          \<and> totalCount pg = length (filter (commentFieldMatches m) (commentsColl s))
          \<and> (\<forall>c \<in> set (map comment recs).
                 c \<in> set (commentsColl s) \<and> commentFieldMatches m c)
          \<and> sorted_wrt (\<lambda>a b. createdAt b \<le> createdAt a) (map comment recs)"
    using comment_search_page [of regex q m page limitV s] by blast
next
  assume a: "q' \<noteq> [] \<and> regex q' = None"
  then have c: "compileCondition regex (storeSearchCondition (Some q')) = Inl MongoError"
    "compileCondition regex (commentSearchCondition (Some q')) = Inl MongoError"
    by (simp_all add: compile_rejected)
  show "\<exists>s'. getAllStoresPage regex pageArg limitArg (Some q') s
                 = (Inr (failWith msg_store_page_failed), s')"
    by (subst getAllStoresPage_defaults) (simp add: getAllStoresPage_run c)
  show "\<exists>s'. getCommentsPaginated regex pageArg limitArg (Some q') s
                 = (Inr (failWith msg_comment_page_failed), s')"
    by (subst getCommentsPaginated_defaults) (simp add: getCommentsPaginated_run c)
next
  assume a: "literalEngine caseFold regex \<and> q \<noteq> [] \<and> (\<forall>u \<in> set q. \<not> isRegexMeta u)
      \<and> 1 \<le> page \<and> 1 \<le> limitV \<and> answers 3 s"
  then have r: "regex q = Some (\<lambda>text. str_includes_ci caseFold text q)"
    by (simp add: literalEngine_pattern)
  from a r show "\<exists>recs pg. getAllStoresPage regex (Some page) (Some limitV) (Some q) s
                    = (Inr \<lparr>success = True, message = None, error = None,
                            payload = StorePage recs pg\<rparr>, spend 3 s)
          \<and> recs = take (nat limitV) (drop (nat ((page - 1) * limitV))
                      (sortCreatedDesc (filter (storeMatchesSearch caseFold q) (storesColl s))))
          \<and> totalCount pg = length (filter (storeMatchesSearch caseFold q) (storesColl s))
          \<and> (\<forall>d \<in> set recs. d \<in> set (storesColl s) \<and> storeMatchesSearch caseFold q d)
          \<and> sorted_wrt (\<lambda>a b. createdAt b \<le> createdAt a) recs"
    unfolding storeMatchesSearch_def
    using store_search_page [of regex q "\<lambda>text. str_includes_ci caseFold text q" page limitV s]
    by blast
  from a r show "\<exists>recs pg. getCommentsPaginated regex (Some page) (Some limitV) (Some q) s
                    = (Inr \<lparr>success = True, message = None, error = None,
                            payload = CommentPage recs pg\<rparr>, spend 3 s)
          \<and> map comment recs
               = take (nat limitV) (drop (nat ((page - 1) * limitV))
                   (sortCreatedDesc (filter (commentMatchesSearch caseFold q) (commentsColl s))))
          \<and> totalCount pg = length (filter (commentMatchesSearch caseFold q) (commentsColl s))
          \<and> (\<forall>c \<in> set (map comment recs).
                 c \<in> set (commentsColl s) \<and> commentMatchesSearch caseFold q c)
          \<and> sorted_wrt (\<lambda>a b. createdAt b \<le> createdAt a) (map comment recs)"
    unfolding commentMatchesSearch_def
    using comment_search_page [of regex q "\<lambda>text. str_includes_ci caseFold text q" page limitV s]
    by blast
next
  show "set (sortCreatedDesc ds) = set ds" by (simp add: sortCreatedDesc_def)
  show "length (sortCreatedDesc ds) = length ds" by (simp add: sortCreatedDesc_def)
  show "sorted_wrt (\<lambda>a b. createdAt b \<le> createdAt a) (sortCreatedDesc ds)"
    by (rule sorted_sortCreatedDesc)
qed

theorem literal_search_listing_witness:
  "literalEngine toLowerCase sampleEngine \<and> js ''gang'' \<noteq> []
   \<and> \<not> (\<exists>u \<in> set (js ''gang''). isRegexMeta u)
   \<and> sampleEngine (js ''gang'') = Some (\<lambda>text. str_includes_ci toLowerCase text (js ''gang''))
   \<and> [0x28] \<noteq> ([] :: jsstring) \<and> sampleEngine [0x28] = None
   \<and> (1::int) \<le> 1 \<and> (1::int) \<le> 10
   \<and> answers 3 (sampleState [sampleStore (js ''s1'') (js ''A1'') (js ''Gangnam-gu'') 10,
                               sampleStore (js ''s2'') (js ''B2'') (js ''Mapo-gu'') 20]
                              [sampleComment (js ''c1'') (js ''Gangster'') False 5,
                               sampleComment (js ''c2'') (js ''Bob'') False 6])
   \<and> (\<exists>pg. getAllStoresPage sampleEngine (Some 1) (Some 10) (Some (js ''gang''))
               (sampleState [sampleStore (js ''s1'') (js ''A1'') (js ''Gangnam-gu'') 10,
                             sampleStore (js ''s2'') (js ''B2'') (js ''Mapo-gu'') 20]
                            [sampleComment (js ''c1'') (js ''Gangster'') False 5,
                             sampleComment (js ''c2'') (js ''Bob'') False 6])
             = (Inr \<lparr>success = True, message = None, error = None,
                     payload = StorePage
                       [sampleStore (js ''s1'') (js ''A1'') (js ''Gangnam-gu'') 10] pg\<rparr>,
                sampleState [sampleStore (js ''s1'') (js ''A1'') (js ''Gangnam-gu'') 10,
                             sampleStore (js ''s2'') (js ''B2'') (js ''Mapo-gu'') 20]
                            [sampleComment (js ''c1'') (js ''Gangster'') False 5,
                             sampleComment (js ''c2'') (js ''Bob'') False 6])
          \<and> totalCount pg = 1)
   \<and> (\<exists>recs pg. getCommentsPaginated sampleEngine (Some 1) (Some 10) (Some (js ''gang''))
               (sampleState [sampleStore (js ''s1'') (js ''A1'') (js ''Gangnam-gu'') 10,
                             sampleStore (js ''s2'') (js ''B2'') (js ''Mapo-gu'') 20]
                            [sampleComment (js ''c1'') (js ''Gangster'') False 5,
                             sampleComment (js ''c2'') (js ''Bob'') False 6])
             = (Inr \<lparr>success = True, message = None, error = None,
                     payload = CommentPage recs pg\<rparr>,
                sampleState [sampleStore (js ''s1'') (js ''A1'') (js ''Gangnam-gu'') 10,
                             sampleStore (js ''s2'') (js ''B2'') (js ''Mapo-gu'') 20]
                            [sampleComment (js ''c1'') (js ''Gangster'') False 5,
                             sampleComment (js ''c2'') (js ''Bob'') False 6])
          \<and> map comment recs = [sampleComment (js ''c1'') (js ''Gangster'') False 5]
          \<and> totalCount pg = 1)
   \<and> (\<exists>recs pg. getAllStoresPage sampleEngine (Some 1) (Some 10) (Some (js ''gang''))
               (sampleState [sampleStore (js ''s1'') (js ''A1'') (js ''Gangnam-gu'') 10,
                             sampleStore (js ''s2'') (js ''B2'') (js ''Mapo-gu'') 20]
                            [sampleComment (js ''c1'') (js ''Gangster'') False 5,
                             sampleComment (js ''c2'') (js ''Bob'') False 6])
             = (Inr \<lparr>success = True, message = None, error = None,
                     payload = StorePage recs pg\<rparr>,
                spend 3 (sampleState [sampleStore (js ''s1'') (js ''A1'') (js ''Gangnam-gu'') 10,
                             sampleStore (js ''s2'') (js ''B2'') (js ''Mapo-gu'') 20]
                            [sampleComment (js ''c1'') (js ''Gangster'') False 5,
                             sampleComment (js ''c2'') (js ''Bob'') False 6]))
          \<and> totalCount pg
              = length (filter (storeFieldMatches
                                  (\<lambda>text. str_includes_ci toLowerCase text (js ''gang'')))
                          [sampleStore (js ''s1'') (js ''A1'') (js ''Gangnam-gu'') 10,
                           sampleStore (js ''s2'') (js ''B2'') (js ''Mapo-gu'') 20]))
   \<and> (\<exists>s'. getAllStoresPage sampleEngine (Some 1) (Some 10) (Some [0x28])
               (sampleState [sampleStore (js ''s1'') (js ''A1'') (js ''Gangnam-gu'') 10,
                             sampleStore (js ''s2'') (js ''B2'') (js ''Mapo-gu'') 20]
                            [sampleComment (js ''c1'') (js ''Gangster'') False 5,
                             sampleComment (js ''c2'') (js ''Bob'') False 6])
             = (Inr (failWith msg_store_page_failed), s'))"
proof -
  let ?s1 = "sampleStore (js ''s1'') (js ''A1'') (js ''Gangnam-gu'') 10"
  let ?s2 = "sampleStore (js ''s2'') (js ''B2'') (js ''Mapo-gu'') 20"
  let ?c1 = "sampleComment (js ''c1'') (js ''Gangster'') False 5"
  let ?c2 = "sampleComment (js ''c2'') (js ''Bob'') False 6"
  let ?S = "sampleState [?s1, ?s2] [?c1, ?c2]"
  let ?m = "\<lambda>text. str_includes_ci toLowerCase text (js ''gang'')"
  have h: "literalEngine toLowerCase sampleEngine" "js ''gang'' \<noteq> []"
    "\<forall>u \<in> set (js ''gang''). \<not> isRegexMeta u" "(1::int) \<le> 1" "(1::int) \<le> 10"
    "answers 3 ?S"
    by (simp_all add: literalEngine_sampleEngine js_def isRegexMeta_def)
  have e: "sampleEngine (js ''gang'') = Some ?m"
    using h(1-3) by (rule literalEngine_pattern)
  have e': "[0x28] \<noteq> ([] :: jsstring)" "sampleEngine [0x28] = None"
    by (simp_all add: sampleEngine_def isRegexMeta_def)
  have m: "storeMatchesSearch toLowerCase (js ''gang'') ?s1"
    "\<not> storeMatchesSearch toLowerCase (js ''gang'') ?s2"
    by (simp_all add: storeMatchesSearch_def storeFieldMatches_def sampleStore_def
          str_includes_ci_def js_def toLowerCase_def lowerUnit_def)
  have m': "commentMatchesSearch toLowerCase (js ''gang'') ?c1"
    "\<not> commentMatchesSearch toLowerCase (js ''gang'') ?c2"
    by (simp_all add: commentMatchesSearch_def commentFieldMatches_def sampleComment_def
          str_includes_ci_def js_def toLowerCase_def lowerUnit_def)
  have srt: "sortCreatedDesc [d] = [d]" for d :: "'a doc"
    by (simp add: sortCreatedDesc_def)
  note t = literal_search_listing
             [of "js ''gang''" sampleEngine ?m 1 10 ?S "[0x28]" "Some 1" "Some 10" toLowerCase
                 "[]::store list"]
  from t h have c1: "\<exists>recs pg. getAllStoresPage sampleEngine (Some 1) (Some 10) (Some (js ''gang'')) ?S
                    = (Inr \<lparr>success = True, message = None, error = None,
                            payload = StorePage recs pg\<rparr>, spend 3 ?S)
          \<and> recs = take (nat 10) (drop (nat ((1 - 1) * 10))
                      (sortCreatedDesc (filter (storeMatchesSearch toLowerCase (js ''gang''))
                         (storesColl ?S))))
          \<and> totalCount pg
              = length (filter (storeMatchesSearch toLowerCase (js ''gang'')) (storesColl ?S))"
    by blast
  then have c1': "\<exists>pg. getAllStoresPage sampleEngine (Some 1) (Some 10) (Some (js ''gang'')) ?S
             = (Inr \<lparr>success = True, message = None, error = None,
                     payload = StorePage [?s1] pg\<rparr>, ?S)
          \<and> totalCount pg = 1"
    by (simp add: m m' srt)
  from t h have c2: "\<exists>recs pg. getCommentsPaginated sampleEngine (Some 1) (Some 10) (Some (js ''gang'')) ?S
                    = (Inr \<lparr>success = True, message = None, error = None,
                            payload = CommentPage recs pg\<rparr>, spend 3 ?S)
          \<and> map comment recs
               = take (nat 10) (drop (nat ((1 - 1) * 10))
                   (sortCreatedDesc (filter (commentMatchesSearch toLowerCase (js ''gang''))
                      (commentsColl ?S))))
          \<and> totalCount pg
              = length (filter (commentMatchesSearch toLowerCase (js ''gang''))
                          (commentsColl ?S))"
    by blast
  then have c2': "\<exists>recs pg. getCommentsPaginated sampleEngine (Some 1) (Some 10) (Some (js ''gang'')) ?S
             = (Inr \<lparr>success = True, message = None, error = None,
                     payload = CommentPage recs pg\<rparr>, ?S)
          \<and> map comment recs = [?c1]
          \<and> totalCount pg = 1"
    by (simp add: m m' srt)
  from t h e have c3: "\<exists>recs pg. getAllStoresPage sampleEngine (Some 1) (Some 10) (Some (js ''gang'')) ?S
                    = (Inr \<lparr>success = True, message = None, error = None,
                            payload = StorePage recs pg\<rparr>, spend 3 ?S)
          \<and> totalCount pg = length (filter (storeFieldMatches ?m) (storesColl ?S))"
    by blast
  then have c3': "\<exists>recs pg. getAllStoresPage sampleEngine (Some 1) (Some 10) (Some (js ''gang'')) ?S
                    = (Inr \<lparr>success = True, message = None, error = None,
                            payload = StorePage recs pg\<rparr>, spend 3 ?S)
          \<and> totalCount pg = length (filter (storeFieldMatches ?m) [?s1, ?s2])"
    by (simp only: sampleState_simps)
  from t e' have c4: "\<exists>s'. getAllStoresPage sampleEngine (Some 1) (Some 10) (Some [0x28]) ?S
             = (Inr (failWith msg_store_page_failed), s')"
    by blast
  from h have "\<not> (\<exists>u \<in> set (js ''gang''). isRegexMeta u)" by blast
  with h e e' c1' c2' c3' c4 show ?thesis by blast
qed


section \<open>The action boundary\<close>

text \<open>
  Claim C8. For every input and every state of the database, each server action
  returns a result and throws nothing: the result has the success flag and, on
  failure, an \<open>error\<close> or a \<open>message\<close>. \<open>deleteComment\<close> and \<open>restoreComment\<close> return a
  failure result with an error, and leave the comments as they are, when the
  identifier is empty, when it does not cast to an ObjectId, and when it casts to
  the identifier of no stored comment.
\<close>

theorem actions_return_structured_results:
  "(\<exists>r s'. createComment commentSchema newId now raw s = (Inr r, s') \<and> structured r)
   \<and> (\<exists>r s'. getAllComments s = (Inr r, s') \<and> structured r)
   \<and> (\<exists>r s'. getCommentsPaginated regex pageArg limitArg q s = (Inr r, s') \<and> structured r)
   \<and> (\<exists>r s'. deleteComment castObjectId now cid s = (Inr r, s') \<and> structured r)
   \<and> (\<exists>r s'. restoreComment castObjectId now cid s = (Inr r, s') \<and> structured r)
   \<and> (\<exists>r s'. createStore storeSchema newId now input s = (Inr r, s') \<and> structured r)
   \<and> (\<exists>r s'. getAllStores s = (Inr r, s') \<and> structured r)
   \<and> (\<exists>r s'. getAllStoresPage regex pageArg limitArg q s = (Inr r, s') \<and> structured r)
   \<and> (cid = [] \<or> castObjectId cid = None
        \<or> (castObjectId cid = Some i \<and> (\<forall>d \<in> set (commentsColl s). oid d \<noteq> i)) \<longrightarrow>
        (\<exists>r s'. deleteComment castObjectId now cid s = (Inr r, s')
            \<and> \<not> success r \<and> error r \<noteq> None \<and> commentsColl s' = commentsColl s)
        \<and> (\<exists>r s'. restoreComment castObjectId now cid s = (Inr r, s')
            \<and> \<not> success r \<and> error r \<noteq> None \<and> commentsColl s' = commentsColl s))"
proof (intro conjI impI)
  show "\<exists>r s'. createComment commentSchema newId now raw s = (Inr r, s') \<and> structured r"
    by (simp add: createComment_run structured_def split: sum.splits)
  show "\<exists>r s'. getAllComments s = (Inr r, s') \<and> structured r"
    by (simp add: getAllComments_run structured_def failWith_def)
  show "\<exists>r s'. getCommentsPaginated regex pageArg limitArg q s = (Inr r, s') \<and> structured r"
    by (subst getCommentsPaginated_defaults)
       (simp add: getCommentsPaginated_run structured_def failWith_def commentPageResult_def
          split: sum.splits)
  show "\<exists>r s'. deleteComment castObjectId now cid s = (Inr r, s') \<and> structured r"
    by (simp add: deleteComment_run structured_def failWith_def split: option.splits)
  show "\<exists>r s'. restoreComment castObjectId now cid s = (Inr r, s') \<and> structured r"
    by (simp add: restoreComment_run structured_def failWith_def split: option.splits)
  show "\<exists>r s'. createStore storeSchema newId now input s = (Inr r, s') \<and> structured r"
    by (simp add: createStore_run structured_def failWith_def split: option.splits sum.splits)
  show "\<exists>r s'. getAllStores s = (Inr r, s') \<and> structured r"
    by (simp add: getAllStores_run structured_def failWith_def)
  show "\<exists>r s'. getAllStoresPage regex pageArg limitArg q s = (Inr r, s') \<and> structured r"
    by (subst getAllStoresPage_defaults)
       (simp add: getAllStoresPage_run structured_def failWith_def storePageResult_def
          split: sum.splits)
next
  assume a: "cid = [] \<or> castObjectId cid = None
        \<or> (castObjectId cid = Some i \<and> (\<forall>d \<in> set (commentsColl s). oid d \<noteq> i))"
  then have c: "cid = [] \<or> castObjectId cid = None
        \<or> (castObjectId cid = Some i \<and> find (\<lambda>d. oid d = i) (commentsColl s) = None)"
    by (simp add: find_None_set)
  from c show "\<exists>r s'. deleteComment castObjectId now cid s = (Inr r, s')
            \<and> \<not> success r \<and> error r \<noteq> None \<and> commentsColl s' = commentsColl s"
    by (elim disjE conjE) (simp_all add: deleteComment_run failWith_def)
  from c show "\<exists>r s'. restoreComment castObjectId now cid s = (Inr r, s')
            \<and> \<not> success r \<and> error r \<noteq> None \<and> commentsColl s' = commentsColl s"
    by (elim disjE conjE) (simp_all add: restoreComment_run failWith_def)
qed

theorem actions_return_structured_results_witness:
  "hexCast sampleId2 = Some sampleId2
   \<and> \<not> (\<exists>d \<in> set (commentsColl (sampleState [] [sampleComment sampleId1 (js ''Ann'') False 5])).
          oid d = sampleId2)
   \<and> deleteComment hexCast 7 sampleId2 (sampleState [] [sampleComment sampleId1 (js ''Ann'') False 5])
       = (Inr (failWith msg_delete_not_found),
          sampleState [] [sampleComment sampleId1 (js ''Ann'') False 5])
   \<and> (\<exists>r s'. deleteComment hexCast 7 sampleId2
                (sampleState [] [sampleComment sampleId1 (js ''Ann'') False 5]) = (Inr r, s')
         \<and> \<not> success r \<and> error r \<noteq> None
         \<and> commentsColl s' = commentsColl (sampleState [] [sampleComment sampleId1 (js ''Ann'') False 5]))
   \<and> (\<exists>r s'. restoreComment hexCast 7 sampleId2
                (sampleState [] [sampleComment sampleId1 (js ''Ann'') False 5]) = (Inr r, s')
         \<and> \<not> success r \<and> error r \<noteq> None
         \<and> commentsColl s' = commentsColl (sampleState [] [sampleComment sampleId1 (js ''Ann'') False 5]))
   \<and> hexCast (js ''abc'') = None
   \<and> (\<exists>r s'. deleteComment hexCast 7 (js ''abc'')
                (sampleState [] [sampleComment sampleId1 (js ''Ann'') False 5]) = (Inr r, s')
         \<and> \<not> success r \<and> error r \<noteq> None
         \<and> commentsColl s' = commentsColl (sampleState [] [sampleComment sampleId1 (js ''Ann'') False 5]))
   \<and> (\<exists>r s'. restoreComment hexCast 7 []
                (sampleState [] [sampleComment sampleId1 (js ''Ann'') False 5]) = (Inr r, s')
         \<and> \<not> success r \<and> error r \<noteq> None
         \<and> commentsColl s' = commentsColl (sampleState [] [sampleComment sampleId1 (js ''Ann'') False 5]))
   \<and> (\<exists>r s'. createComment (\<lambda>u::unit. Inl []) sampleId3 7 ()
                (sampleState [] [sampleComment sampleId1 (js ''Ann'') False 5]) = (Inr r, s')
         \<and> structured r)
   \<and> (\<exists>r s'. getAllStoresPage sampleEngine (Some 0) (Some (- 3)) (Some [0x28])
                (sampleState [] [sampleComment sampleId1 (js ''Ann'') False 5]) = (Inr r, s')
         \<and> structured r)"
proof -
  let ?S = "sampleState [] [sampleComment sampleId1 (js ''Ann'') False 5]"
  let ?v = "body (sampleStore (js ''s9'') (js ''A1'') (js ''Mapo'') 0)"
  have k: "hexCast sampleId2 = Some sampleId2" "hexCast (js ''abc'') = None"
    by simp_all
  have h: "\<forall>d \<in> set (commentsColl ?S). oid d \<noteq> sampleId2"
    by (simp add: sampleComment_def)
  have f: "find (\<lambda>d. oid d = sampleId2) (commentsColl ?S) = None"
    by (simp add: sampleComment_def)
  have g: "deleteComment hexCast 7 sampleId2 ?S = (Inr (failWith msg_delete_not_found), ?S)"
    by (simp add: deleteComment_run f del: sampleState_simps(4))
  note t1 = actions_return_structured_results
             [of "\<lambda>u::unit. Inl []" sampleId3 7 "()" ?S sampleEngine "Some 0" "Some (- 3)"
                 "Some [0x28]" hexCast sampleId2 Inr ?v sampleId2]
  note t2 = actions_return_structured_results
             [of "\<lambda>u::unit. Inl []" sampleId3 7 "()" ?S sampleEngine "Some 0" "Some (- 3)"
                 "Some [0x28]" hexCast "js ''abc''" Inr ?v sampleId2]
  note t3 = actions_return_structured_results
             [of "\<lambda>u::unit. Inl []" sampleId3 7 "()" ?S sampleEngine "Some 0" "Some (- 3)"
                 "Some [0x28]" hexCast "[]" Inr ?v sampleId2]
  from t1 k h have c1:
    "\<exists>r s'. deleteComment hexCast 7 sampleId2 ?S = (Inr r, s')
         \<and> \<not> success r \<and> error r \<noteq> None \<and> commentsColl s' = commentsColl ?S"
    "\<exists>r s'. restoreComment hexCast 7 sampleId2 ?S = (Inr r, s')
         \<and> \<not> success r \<and> error r \<noteq> None \<and> commentsColl s' = commentsColl ?S"
    by blast+
  from t2 k have c2:
    "\<exists>r s'. deleteComment hexCast 7 (js ''abc'') ?S = (Inr r, s')
         \<and> \<not> success r \<and> error r \<noteq> None \<and> commentsColl s' = commentsColl ?S"
    by blast
  from t3 have c3:
    "\<exists>r s'. restoreComment hexCast 7 [] ?S = (Inr r, s')
         \<and> \<not> success r \<and> error r \<noteq> None \<and> commentsColl s' = commentsColl ?S"
    by blast
  from t1 have c4:
    "\<exists>r s'. createComment (\<lambda>u::unit. Inl []) sampleId3 7 () ?S = (Inr r, s') \<and> structured r"
    "\<exists>r s'. getAllStoresPage sampleEngine (Some 0) (Some (- 3)) (Some [0x28]) ?S = (Inr r, s')
         \<and> structured r"
    by blast+
  from h have "\<not> (\<exists>d \<in> set (commentsColl ?S). oid d = sampleId2)" by blast
  with k g c1 c2 c3 c4 show ?thesis by blast
qed


section \<open>Creating a store\<close>

text \<open>
  Claim C3, as stated, has \<open>createStore\<close> answer every input whose store identifier
  is taken with the conflict message. The database is connected and the input
  validated before the identifier is looked up: an input with a taken identifier
  that the schema refuses gets the message of the general failure, and so does a
  valid one while the database cannot be reached.
\<close>

theorem createStore_duplicate_counterexample:
  "storeId ((body (sampleStore (js ''s1'') (js ''A1'') (js ''Gangnam'') 10))\<lparr>name := []\<rparr>)
     = storeId (body (sampleStore (js ''s1'') (js ''A1'') (js ''Gangnam'') 10))
   \<and> createStore sampleStoreSchema (js ''s2'') 20
        ((body (sampleStore (js ''s1'') (js ''A1'') (js ''Gangnam'') 10))\<lparr>name := []\<rparr>)
        (sampleState [sampleStore (js ''s1'') (js ''A1'') (js ''Gangnam'') 10] [])
      = (Inr (failWith msg_store_create_failed),
         sampleState [sampleStore (js ''s1'') (js ''A1'') (js ''Gangnam'') 10] [])
   \<and> createStore sampleStoreSchema (js ''s2'') 20
        (body (sampleStore (js ''s1'') (js ''A1'') (js ''Gangnam'') 10))
        ((sampleState [sampleStore (js ''s1'') (js ''A1'') (js ''Gangnam'') 10] [])
           \<lparr>opsBeforeFailure := Some 0\<rparr>)
      = (Inr (failWith msg_store_create_failed),
         (sampleState [sampleStore (js ''s1'') (js ''A1'') (js ''Gangnam'') 10] [])
           \<lparr>opsBeforeFailure := Some 0\<rparr>)
   \<and> failWith msg_store_create_failed \<noteq> failWith msg_store_id_in_use"
proof -
  let ?d = "sampleStore (js ''s1'') (js ''A1'') (js ''Gangnam'') 10"
  have a: "storeId ((body ?d)\<lparr>name := []\<rparr>) = storeId (body ?d)"
    by simp
  have b: "createStore sampleStoreSchema (js ''s2'') 20 ((body ?d)\<lparr>name := []\<rparr>)
             (sampleState [?d] [])
           = (Inr (failWith msg_store_create_failed), sampleState [?d] [])"
    by (simp add: createStore_run sampleStoreSchema_def)
  have c: "createStore sampleStoreSchema (js ''s2'') 20 (body ?d)
             ((sampleState [?d] [])\<lparr>opsBeforeFailure := Some 0\<rparr>)
           = (Inr (failWith msg_store_create_failed),
              (sampleState [?d] [])\<lparr>opsBeforeFailure := Some 0\<rparr>)"
    by (simp add: createStore_run answers_def)
  have d: "failWith msg_store_create_failed \<noteq> failWith msg_store_id_in_use"
    by (simp add: failWith_def msg_store_id_in_use_def msg_store_create_failed_def)
  from a b c d show ?thesis by blast
qed

text \<open>
  Claim C3, amended. When the input passes the schema and its validated store
  identifier is that of a store in the collection, \<open>createStore\<close> returns a failure
  result with an error and leaves the collections as they are, whatever the health
  of the database; the error is the conflict message \<open>msg_store_id_in_use\<close> where the
  database answers the two operations up to the lookup, and the message of the
  general failure where it does not. An input that does not pass the schema is
  refused with the message of the general failure, whether its store identifier is
  taken or not, and the collections are as they were. The two messages differ.
\<close>

theorem createStore_rejects_duplicate_storeId:
  "(storeSchema input = Inr v \<and> (\<exists>d \<in> set (storesColl s). storeId (body d) = storeId v) \<longrightarrow>
      (\<exists>r s'. createStore storeSchema newId now input s = (Inr r, s')
          \<and> \<not> success r \<and> error r \<noteq> None
          \<and> storesColl s' = storesColl s \<and> commentsColl s' = commentsColl s
          \<and> postsColl s' = postsColl s \<and> revalidated s' = revalidated s
          \<and> (answers 2 s \<longrightarrow> r = failWith msg_store_id_in_use \<and> s' = spend 2 s)
          \<and> (\<not> answers 2 s \<longrightarrow> r = failWith msg_store_create_failed)))
   \<and> (storeSchema input = Inl issues \<longrightarrow>
      (\<exists>s'. createStore storeSchema newId now input s
               = (Inr (failWith msg_store_create_failed), s')
          \<and> storesColl s' = storesColl s \<and> commentsColl s' = commentsColl s
          \<and> postsColl s' = postsColl s \<and> revalidated s' = revalidated s))
   \<and> msg_store_id_in_use \<noteq> msg_store_create_failed"
proof (intro conjI impI)
  assume a: "storeSchema input = Inr v \<and> (\<exists>d \<in> set (storesColl s). storeId (body d) = storeId v)"
  then have "find (\<lambda>d. storeId (body d) = storeId v) (storesColl s) \<noteq> None"
    by (simp add: find_None_set)
  then obtain d where "find (\<lambda>d. storeId (body d) = storeId v) (storesColl s) = Some d"
    by blast
  with a show "\<exists>r s'. createStore storeSchema newId now input s = (Inr r, s')
          \<and> \<not> success r \<and> error r \<noteq> None
          \<and> storesColl s' = storesColl s \<and> commentsColl s' = commentsColl s
          \<and> postsColl s' = postsColl s \<and> revalidated s' = revalidated s
          \<and> (answers 2 s \<longrightarrow> r = failWith msg_store_id_in_use \<and> s' = spend 2 s)
          \<and> (\<not> answers 2 s \<longrightarrow> r = failWith msg_store_create_failed)"
    by (auto simp: createStore_run failWith_def dest: answers_less)
next
  assume "storeSchema input = Inl issues"
  then show "\<exists>s'. createStore storeSchema newId now input s
               = (Inr (failWith msg_store_create_failed), s')
          \<and> storesColl s' = storesColl s \<and> commentsColl s' = commentsColl s
          \<and> postsColl s' = postsColl s \<and> revalidated s' = revalidated s"
    by (simp add: createStore_run)
next
  show "msg_store_id_in_use \<noteq> msg_store_create_failed"
    by (simp add: msg_store_id_in_use_def msg_store_create_failed_def)
qed

theorem createStore_rejects_duplicate_storeId_witness:
  "sampleStoreSchema (body (sampleStore (js ''s9'') (js ''A1'') (js ''Mapo'') 0))
     = Inr (body (sampleStore (js ''s9'') (js ''A1'') (js ''Mapo'') 0))
   \<and> (\<exists>d \<in> set (storesColl (sampleState [sampleStore (js ''s1'') (js ''A1'') (js ''Gangnam'') 10] [])).
         storeId (body d) = storeId (body (sampleStore (js ''s9'') (js ''A1'') (js ''Mapo'') 0)))
   \<and> answers 2 (sampleState [sampleStore (js ''s1'') (js ''A1'') (js ''Gangnam'') 10] [])
   \<and> createStore sampleStoreSchema (js ''s2'') 20
        (body (sampleStore (js ''s9'') (js ''A1'') (js ''Mapo'') 0))
        (sampleState [sampleStore (js ''s1'') (js ''A1'') (js ''Gangnam'') 10] [])
      = (Inr (failWith msg_store_id_in_use),
         sampleState [sampleStore (js ''s1'') (js ''A1'') (js ''Gangnam'') 10] [])
   \<and> \<not> answers 2 ((sampleState [sampleStore (js ''s1'') (js ''A1'') (js ''Gangnam'') 10] [])
                     \<lparr>opsBeforeFailure := Some 1\<rparr>)
   \<and> (\<exists>s'. createStore sampleStoreSchema (js ''s2'') 20
               (body (sampleStore (js ''s9'') (js ''A1'') (js ''Mapo'') 0))
               ((sampleState [sampleStore (js ''s1'') (js ''A1'') (js ''Gangnam'') 10] [])
                  \<lparr>opsBeforeFailure := Some 1\<rparr>)
             = (Inr (failWith msg_store_create_failed), s')
          \<and> storesColl s' = [sampleStore (js ''s1'') (js ''A1'') (js ''Gangnam'') 10])
   \<and> sampleStoreSchema ((body (sampleStore (js ''s9'') (js ''A1'') (js ''Mapo'') 0))\<lparr>name := []\<rparr>)
       = Inl [\<lparr>path = [js ''name''], issue = js ''Required''\<rparr>]
   \<and> (\<exists>s'. createStore sampleStoreSchema (js ''s2'') 20
               ((body (sampleStore (js ''s9'') (js ''A1'') (js ''Mapo'') 0))\<lparr>name := []\<rparr>)
               (sampleState [sampleStore (js ''s1'') (js ''A1'') (js ''Gangnam'') 10] [])
             = (Inr (failWith msg_store_create_failed), s')
          \<and> storesColl s' = [sampleStore (js ''s1'') (js ''A1'') (js ''Gangnam'') 10])"
proof -
  let ?d = "sampleStore (js ''s1'') (js ''A1'') (js ''Gangnam'') 10"
  let ?S = "sampleState [?d] []"
  let ?F = "?S\<lparr>opsBeforeFailure := Some 1\<rparr>"
  let ?v = "body (sampleStore (js ''s9'') (js ''A1'') (js ''Mapo'') 0)"
  let ?i = "[\<lparr>path = [js ''name''], issue = js ''Required''\<rparr>]"
  have h1: "sampleStoreSchema ?v = Inr ?v"
    by (simp add: sampleStoreSchema_def sampleStore_def js_def)
  have h2: "\<exists>d \<in> set (storesColl ?S). storeId (body d) = storeId ?v"
    by (simp add: sampleStore_def)
  have h2': "\<exists>d \<in> set (storesColl ?F). storeId (body d) = storeId ?v"
    by (simp add: sampleStore_def)
  have h3: "answers 2 ?S" by simp
  have h4: "\<not> answers 2 ?F" by (simp add: answers_def)
  have h5: "sampleStoreSchema (?v\<lparr>name := []\<rparr>) = Inl ?i"
    by (simp add: sampleStoreSchema_def)
  from createStore_rejects_duplicate_storeId
         [of sampleStoreSchema ?v ?v ?S "js ''s2''" 20 "[]"] h1 h2 h3
  have "createStore sampleStoreSchema (js ''s2'') 20 ?v ?S
          = (Inr (failWith msg_store_id_in_use), spend 2 ?S)"
    by blast
  then have c1: "createStore sampleStoreSchema (js ''s2'') 20 ?v ?S
                   = (Inr (failWith msg_store_id_in_use), ?S)"
    by simp
  from createStore_rejects_duplicate_storeId
         [of sampleStoreSchema ?v ?v ?F "js ''s2''" 20 "[]"] h1 h2' h4
  obtain r s' where "createStore sampleStoreSchema (js ''s2'') 20 ?v ?F = (Inr r, s')"
    "storesColl s' = storesColl ?F" "r = failWith msg_store_create_failed"
    by blast
  then have "\<exists>s'. createStore sampleStoreSchema (js ''s2'') 20 ?v ?F
             = (Inr (failWith msg_store_create_failed), s')
          \<and> storesColl s' = storesColl ?F"
    by blast
  then have c2: "\<exists>s'. createStore sampleStoreSchema (js ''s2'') 20 ?v ?F
             = (Inr (failWith msg_store_create_failed), s')
          \<and> storesColl s' = [?d]"
    by simp
  from createStore_rejects_duplicate_storeId
         [of sampleStoreSchema "?v\<lparr>name := []\<rparr>" ?v ?S "js ''s2''" 20 ?i] h5
  have "\<exists>s'. createStore sampleStoreSchema (js ''s2'') 20 (?v\<lparr>name := []\<rparr>) ?S
             = (Inr (failWith msg_store_create_failed), s')
          \<and> storesColl s' = storesColl ?S"
    by blast
  then have c3: "\<exists>s'. createStore sampleStoreSchema (js ''s2'') 20 (?v\<lparr>name := []\<rparr>) ?S
             = (Inr (failWith msg_store_create_failed), s')
          \<and> storesColl s' = [?d]"
    by simp
  from h1 h2 h3 h4 h5 c1 c2 c3 show ?thesis by blast
qed


section \<open>Soft deletion of comments\<close>

text \<open>
  Claim C4. When \<open>deleteComment\<close> and then \<open>restoreComment\<close> succeed on an identifier
  of a stored comment, that is a string that casts to its \<open>_id\<close>, the comment is after
  the deletion the original with \<open>isDeleted\<close> true and \<open>updatedAt\<close> the time of the
  deletion, and after the restoration the original with \<open>isDeleted\<close> false and
  \<open>updatedAt\<close> the time of the restoration; no comment is removed, the other comments
  are as before, and each call has revalidated the path \<open>/admin\<close>.
\<close>

theorem delete_then_restore:
  "castObjectId cid = Some i
   \<and> find (\<lambda>d. oid d = i) (commentsColl s) = Some c
   \<and> deleteComment castObjectId t1 cid s = (Inr r1, s1) \<and> success r1
   \<and> restoreComment castObjectId t2 cid s1 = (Inr r2, s2) \<and> success r2 \<longrightarrow>
     find (\<lambda>d. oid d = i) (commentsColl s1)
       = Some (c\<lparr>updatedAt := t1, body := (body c)\<lparr>isDeleted := True\<rparr>\<rparr>)
     \<and> find (\<lambda>d. oid d = i) (commentsColl s2)
       = Some (c\<lparr>updatedAt := t2, body := (body c)\<lparr>isDeleted := False\<rparr>\<rparr>)
     \<and> map oid (commentsColl s1) = map oid (commentsColl s)
     \<and> map oid (commentsColl s2) = map oid (commentsColl s)
     \<and> (\<forall>k < length (commentsColl s). oid (commentsColl s ! k) \<noteq> i \<longrightarrow>
           commentsColl s2 ! k = commentsColl s ! k)
     \<and> revalidated s2 = revalidated s @ [js ''/admin'', js ''/admin'']"
proof (intro impI)
  assume a: "castObjectId cid = Some i
   \<and> find (\<lambda>d. oid d = i) (commentsColl s) = Some c
   \<and> deleteComment castObjectId t1 cid s = (Inr r1, s1) \<and> success r1
   \<and> restoreComment castObjectId t2 cid s1 = (Inr r2, s2) \<and> success r2"
  let ?P = "\<lambda>d. oid d = i"
  from a have c: "find ?P (commentsColl s) = Some c" by simp
  from a deleteComment_success [of castObjectId t1 cid s r1 s1]
  have s1: "commentsColl s1 = updateFirst ?P (softDeleteUpdate True t1) (commentsColl s)"
    and v1: "revalidated s1 = revalidated s @ [js ''/admin'']"
    by auto
  from a restoreComment_success [of castObjectId t2 cid s1 r2 s2]
  have s2: "commentsColl s2 = updateFirst ?P (softDeleteUpdate False t2) (commentsColl s1)"
    and v2: "revalidated s2 = revalidated s1 @ [js ''/admin'']"
    by auto
  have f1: "find ?P (commentsColl s1) = Some (softDeleteUpdate True t1 c)"
    using c by (simp add: s1 find_softDelete)
  then have f2: "find ?P (commentsColl s2)
                   = Some (softDeleteUpdate False t2 (softDeleteUpdate True t1 c))"
    by (simp add: s2 find_softDelete)
  have m1: "map oid (commentsColl s1) = map oid (commentsColl s)"
    by (simp add: s1 map_oid_softDelete)
  have m2: "map oid (commentsColl s2) = map oid (commentsColl s)"
    by (simp add: s2 m1 map_oid_softDelete)
  have l1: "length (commentsColl s1) = length (commentsColl s)"
    using m1 by (metis length_map)
  have o: "commentsColl s2 ! k = commentsColl s ! k"
    if "k < length (commentsColl s)" "oid (commentsColl s ! k) \<noteq> i" for k
  proof -
    have "commentsColl s1 ! k = commentsColl s ! k"
      using that by (simp add: s1 updateFirst_other)
    moreover have "commentsColl s2 ! k = commentsColl s1 ! k"
      using that l1 calculation by (simp add: s2 updateFirst_other)
    ultimately show ?thesis by simp
  qed
  from v1 v2 have v: "revalidated s2 = revalidated s @ [js ''/admin'', js ''/admin'']"
    by simp
  from f1 f2 m1 m2 o v
  show "find (\<lambda>d. oid d = i) (commentsColl s1)
       = Some (c\<lparr>updatedAt := t1, body := (body c)\<lparr>isDeleted := True\<rparr>\<rparr>)
     \<and> find (\<lambda>d. oid d = i) (commentsColl s2)
       = Some (c\<lparr>updatedAt := t2, body := (body c)\<lparr>isDeleted := False\<rparr>\<rparr>)
     \<and> map oid (commentsColl s1) = map oid (commentsColl s)
     \<and> map oid (commentsColl s2) = map oid (commentsColl s)
     \<and> (\<forall>k < length (commentsColl s). oid (commentsColl s ! k) \<noteq> i \<longrightarrow>
           commentsColl s2 ! k = commentsColl s ! k)
     \<and> revalidated s2 = revalidated s @ [js ''/admin'', js ''/admin'']"
    by (simp add: softDeleteUpdate_def)
qed

theorem delete_then_restore_witness:
  "\<exists>r1 s1 r2 s2.
     hexCast sampleId1 = Some sampleId1
     \<and> find (\<lambda>d. oid d = sampleId1)
       (commentsColl (sampleState [] [sampleComment sampleId1 (js ''Ann'') False 5,
                                      sampleComment sampleId2 (js ''Bob'') False 6]))
       = Some (sampleComment sampleId1 (js ''Ann'') False 5)
     \<and> deleteComment hexCast 100 sampleId1
         (sampleState [] [sampleComment sampleId1 (js ''Ann'') False 5,
                          sampleComment sampleId2 (js ''Bob'') False 6]) = (Inr r1, s1)
     \<and> success r1
     \<and> restoreComment hexCast 200 sampleId1 s1 = (Inr r2, s2)
     \<and> success r2
     \<and> find (\<lambda>d. oid d = sampleId1) (commentsColl s2)
         = Some ((sampleComment sampleId1 (js ''Ann'') False 5)
                   \<lparr>updatedAt := 200,
                    body := (body (sampleComment sampleId1 (js ''Ann'') False 5))
                              \<lparr>isDeleted := False\<rparr>\<rparr>)
     \<and> map oid (commentsColl s2)
         = map oid (commentsColl (sampleState [] [sampleComment sampleId1 (js ''Ann'') False 5,
                                      sampleComment sampleId2 (js ''Bob'') False 6]))
     \<and> oid (commentsColl (sampleState [] [sampleComment sampleId1 (js ''Ann'') False 5,
                                          sampleComment sampleId2 (js ''Bob'') False 6]) ! 1)
           \<noteq> sampleId1
     \<and> commentsColl s2 ! 1 = sampleComment sampleId2 (js ''Bob'') False 6
     \<and> revalidated s2 = [js ''/admin'', js ''/admin'']"
proof -
  let ?C = "sampleComment sampleId1 (js ''Ann'') False 5"
  let ?S = "sampleState [] [?C, sampleComment sampleId2 (js ''Bob'') False 6]"
  have k: "hexCast sampleId1 = Some sampleId1" by simp
  have f: "find (\<lambda>d. oid d = sampleId1) (commentsColl ?S) = Some ?C"
    by (simp add: sampleComment_def)
  have n: "sampleId1 \<noteq> []" by simp
  have o: "opsBeforeFailure ?S = None" by (simp add: sampleState_def)
  from soft_delete_roundtrip_runs [of hexCast sampleId1 sampleId1 ?S ?C 100 200] k f n o
  obtain r1 s1 r2 s2 where d: "deleteComment hexCast 100 sampleId1 ?S = (Inr r1, s1)"
    "success r1" "restoreComment hexCast 200 sampleId1 s1 = (Inr r2, s2)" "success r2"
    by blast
  have b: "1 < length (commentsColl ?S)" "oid (commentsColl ?S ! 1) \<noteq> sampleId1"
    "commentsColl ?S ! 1 = sampleComment sampleId2 (js ''Bob'') False 6"
    by (simp_all add: sampleComment_def)
  note t = delete_then_restore [of hexCast sampleId1 sampleId1 ?S ?C 100 r1 s1 200 r2 s2]
  from t k f d
  have c: "find (\<lambda>d. oid d = sampleId1) (commentsColl s2)
          = Some (?C\<lparr>updatedAt := 200, body := (body ?C)\<lparr>isDeleted := False\<rparr>\<rparr>)"
    "map oid (commentsColl s2) = map oid (commentsColl ?S)"
    by blast+
  from t k f d b(1,2) have "commentsColl s2 ! 1 = commentsColl ?S ! 1"
    by blast
  with b(3) have o: "commentsColl s2 ! 1 = sampleComment sampleId2 (js ''Bob'') False 6"
    by simp
  from t k f d have "revalidated s2 = revalidated ?S @ [js ''/admin'', js ''/admin'']"
    by blast
  then have v: "revalidated s2 = [js ''/admin'', js ''/admin'']"
    by simp
  from k f d c b(2) o v show ?thesis by blast
qed


text \<open>
  Claim C9. For an identifier, not empty, of a stored comment, that is a string that
  casts to its \<open>_id\<close>, and a database that answers the three operations of the call,
  \<open>deleteComment\<close> succeeds and leaves \<open>isDeleted\<close> true, and \<open>restoreComment\<close> succeeds
  and leaves it false, whatever the flag was before; on a comment already deleted,
  or already active, only \<open>updatedAt\<close> changes. No comment is removed.
\<close>

theorem soft_delete_idempotent:
  "castObjectId cid = Some i
   \<and> find (\<lambda>d. oid d = i) (commentsColl s) = Some c
   \<and> cid \<noteq> [] \<and> answers 3 s \<longrightarrow>
     (\<exists>s'. deleteComment castObjectId now cid s
              = (Inr \<lparr>success = True, message = Some msg_comment_deleted, error = None,
                      payload = NoPayload\<rparr>, s')
          \<and> find (\<lambda>d. oid d = i) (commentsColl s')
              = Some (c\<lparr>updatedAt := now, body := (body c)\<lparr>isDeleted := True\<rparr>\<rparr>)
          \<and> (isDeleted (body c) \<longrightarrow>
                find (\<lambda>d. oid d = i) (commentsColl s') = Some (c\<lparr>updatedAt := now\<rparr>))
          \<and> map oid (commentsColl s') = map oid (commentsColl s))
     \<and> (\<exists>s'. restoreComment castObjectId now cid s
              = (Inr \<lparr>success = True, message = Some msg_comment_restored, error = None,
                      payload = NoPayload\<rparr>, s')
          \<and> find (\<lambda>d. oid d = i) (commentsColl s')
              = Some (c\<lparr>updatedAt := now, body := (body c)\<lparr>isDeleted := False\<rparr>\<rparr>)
          \<and> (\<not> isDeleted (body c) \<longrightarrow>
                find (\<lambda>d. oid d = i) (commentsColl s') = Some (c\<lparr>updatedAt := now\<rparr>))
          \<and> map oid (commentsColl s') = map oid (commentsColl s))"
proof (intro impI)
  assume a: "castObjectId cid = Some i
   \<and> find (\<lambda>d. oid d = i) (commentsColl s) = Some c
   \<and> cid \<noteq> [] \<and> answers 3 s"
  then have a3: "answers 3 s" by simp
  have a2: "answers 2 s" "answers (Suc 0) s"
    by (rule answers_mono [OF a3], simp)+
  have e: "isDeleted (body c) = flag \<Longrightarrow> softDeleteUpdate flag now c = c\<lparr>updatedAt := now\<rparr>"
    for flag
    by (simp add: softDeleteUpdate_def)
  have u: "softDeleteUpdate flag now c = c\<lparr>updatedAt := now, body := (body c)\<lparr>isDeleted := flag\<rparr>\<rparr>"
    for flag
    by (simp add: softDeleteUpdate_def)
  show "(\<exists>s'. deleteComment castObjectId now cid s
              = (Inr \<lparr>success = True, message = Some msg_comment_deleted, error = None,
                      payload = NoPayload\<rparr>, s')
          \<and> find (\<lambda>d. oid d = i) (commentsColl s')
              = Some (c\<lparr>updatedAt := now, body := (body c)\<lparr>isDeleted := True\<rparr>\<rparr>)
          \<and> (isDeleted (body c) \<longrightarrow>
                find (\<lambda>d. oid d = i) (commentsColl s') = Some (c\<lparr>updatedAt := now\<rparr>))
          \<and> map oid (commentsColl s') = map oid (commentsColl s))
     \<and> (\<exists>s'. restoreComment castObjectId now cid s
              = (Inr \<lparr>success = True, message = Some msg_comment_restored, error = None,
                      payload = NoPayload\<rparr>, s')
          \<and> find (\<lambda>d. oid d = i) (commentsColl s')
              = Some (c\<lparr>updatedAt := now, body := (body c)\<lparr>isDeleted := False\<rparr>\<rparr>)
          \<and> (\<not> isDeleted (body c) \<longrightarrow>
                find (\<lambda>d. oid d = i) (commentsColl s') = Some (c\<lparr>updatedAt := now\<rparr>))
          \<and> map oid (commentsColl s') = map oid (commentsColl s))"
    using a e [of True] e [of False]
    by (simp add: a2 deleteComment_run restoreComment_run find_softDelete map_oid_softDelete u)
qed

theorem soft_delete_idempotent_witness:
  "hexCast sampleId1Upper = Some sampleId1
   \<and> find (\<lambda>d. oid d = sampleId1)
     (commentsColl (sampleState [] [sampleComment sampleId1 (js ''Ann'') True 5]))
     = Some (sampleComment sampleId1 (js ''Ann'') True 5)
   \<and> sampleId1Upper \<noteq> []
   \<and> answers 3 (sampleState [] [sampleComment sampleId1 (js ''Ann'') True 5])
   \<and> isDeleted (body (sampleComment sampleId1 (js ''Ann'') True 5))
   \<and> (\<exists>s'. deleteComment hexCast 300 sampleId1Upper
              (sampleState [] [sampleComment sampleId1 (js ''Ann'') True 5])
            = (Inr \<lparr>success = True, message = Some msg_comment_deleted, error = None,
                    payload = NoPayload\<rparr>, s')
          \<and> find (\<lambda>d. oid d = sampleId1) (commentsColl s')
              = Some ((sampleComment sampleId1 (js ''Ann'') True 5)\<lparr>updatedAt := 300\<rparr>))
   \<and> hexCast sampleId1 = Some sampleId1
   \<and> find (\<lambda>d. oid d = sampleId1)
     (commentsColl (sampleState [] [sampleComment sampleId1 (js ''Ann'') False 5]))
     = Some (sampleComment sampleId1 (js ''Ann'') False 5)
   \<and> sampleId1 \<noteq> []
   \<and> answers 3 (sampleState [] [sampleComment sampleId1 (js ''Ann'') False 5])
   \<and> \<not> isDeleted (body (sampleComment sampleId1 (js ''Ann'') False 5))
   \<and> (\<exists>s'. restoreComment hexCast 300 sampleId1
              (sampleState [] [sampleComment sampleId1 (js ''Ann'') False 5])
            = (Inr \<lparr>success = True, message = Some msg_comment_restored, error = None,
                    payload = NoPayload\<rparr>, s')
          \<and> find (\<lambda>d. oid d = sampleId1) (commentsColl s')
              = Some ((sampleComment sampleId1 (js ''Ann'') False 5)\<lparr>updatedAt := 300\<rparr>))"
proof -
  let ?D = "sampleComment sampleId1 (js ''Ann'') True 5"
  let ?A = "sampleComment sampleId1 (js ''Ann'') False 5"
  have k: "hexCast sampleId1Upper = Some sampleId1" "hexCast sampleId1 = Some sampleId1"
    by simp_all
  have f: "find (\<lambda>d. oid d = sampleId1) (commentsColl (sampleState [] [?D])) = Some ?D"
    "find (\<lambda>d. oid d = sampleId1) (commentsColl (sampleState [] [?A])) = Some ?A"
    by (simp_all add: sampleComment_def)
  have n: "sampleId1Upper \<noteq> []" "sampleId1 \<noteq> []" by simp_all
  have a: "answers 3 (sampleState [] [?D])" "answers 3 (sampleState [] [?A])" by simp_all
  have i: "isDeleted (body ?D)" "\<not> isDeleted (body ?A)" by (simp_all add: sampleComment_def)
  from soft_delete_idempotent
         [of hexCast sampleId1Upper sampleId1 "sampleState [] [?D]" ?D 300]
       k(1) f(1) n(1) a(1) i(1)
  have c1: "\<exists>s'. deleteComment hexCast 300 sampleId1Upper (sampleState [] [?D])
            = (Inr \<lparr>success = True, message = Some msg_comment_deleted, error = None,
                    payload = NoPayload\<rparr>, s')
          \<and> find (\<lambda>d. oid d = sampleId1) (commentsColl s') = Some (?D\<lparr>updatedAt := 300\<rparr>)"
    by blast
  from soft_delete_idempotent
         [of hexCast sampleId1 sampleId1 "sampleState [] [?A]" ?A 300]
       k(2) f(2) n(2) a(2) i(2)
  have c2: "\<exists>s'. restoreComment hexCast 300 sampleId1 (sampleState [] [?A])
            = (Inr \<lparr>success = True, message = Some msg_comment_restored, error = None,
                    payload = NoPayload\<rparr>, s')
          \<and> find (\<lambda>d. oid d = sampleId1) (commentsColl s') = Some (?A\<lparr>updatedAt := 300\<rparr>)"
    by blast
  from k f n a i c1 c2 show ?thesis by blast
qed


end
